theory Spec2Isabelle
  imports Complex_Main
begin

section \<open>Strings and the form state\<close>

text \<open>
  A JavaScript string is a sequence of UTF-16 code units. Every character of the
  program's literals lies in the Basic Multilingual Plane, so each is one code unit,
  written here as its number (the file is ASCII; the comments give the code points).

  Numbers are the integers of the input contract. Quotients are rationals, so the
  rounding, the comparisons and the ceiling are exact where JavaScript computes with
  doubles. The number of children is parsed from a text of any length: it is a double,
  \<open>jsnumber\<close>. The functions of the runtime whose result depends on tables outside the
  program (\<open>toLowerCase\<close>, \<open>toLocaleString\<close>) are parameters.
\<close>

type_synonym jsstring = "nat list"

text \<open>The values of the form (\<open>formSchema\<close>), read through \<open>form.getValues()\<close>.\<close>

record form_values =
  form_familyStructure :: jsstring
  form_familyCount :: int
  form_hasChildren :: bool
  form_age :: int
  form_savings :: int
  form_monthlyIncome :: int

text \<open>
  \<open>String.prototype.includes\<close>: the search string occurs at some position.
\<close>

fun starts_with :: "jsstring \<Rightarrow> jsstring \<Rightarrow> bool" where
  "starts_with s [] = True"
| "starts_with [] (m # ms) = False"
| "starts_with (c # cs) (m # ms) = (c = m \<and> starts_with cs ms)"

fun str_includes :: "jsstring \<Rightarrow> jsstring \<Rightarrow> bool" where
  "str_includes [] m = (m = [])"
| "str_includes (c # cs) m = (starts_with (c # cs) m \<or> str_includes cs m)"

text \<open>The markers: U+5B50; U+3053 U+3069 U+3082; U+5B50 U+4F9B (child, in three spellings).\<close>

definition marker_ko :: jsstring where
  "marker_ko = [23376]"

definition marker_kodomo_kana :: jsstring where
  "marker_kodomo_kana = [12371, 12393, 12418]"

definition marker_kodomo :: jsstring where
  "marker_kodomo = [23376, 20379]"

text \<open>U+59BB (wife), U+592B (husband), U+914D U+5076 U+8005 (spouse).\<close>

definition marker_tsuma :: jsstring where
  "marker_tsuma = [22971]"

definition marker_otto :: jsstring where
  "marker_otto = [22827]"

definition marker_haigusha :: jsstring where
  "marker_haigusha = [37197, 20598, 32773]"

section \<open>The risk score (\<open>calculateRiskScore\<close>)\<close>

text \<open>
  The line numbers of this and the next section are those of
  \<^verbatim>\<open>src/components/risk-assessment-form.tsx\<close>. The function reads the family text, the
  flag and the age from the form, and takes the savings, the income and the size of the
  family as arguments.

  \<open>String.prototype.toLowerCase\<close> belongs to the JavaScript runtime and rests on the
  Unicode case tables; it is the parameter \<open>toLowerCase\<close> of every function that
  calls it. The function below is its restriction to texts whose only cased letters are
  Basic Latin, and instantiates the parameter on concrete inputs.
\<close>

definition latin_lower :: "nat \<Rightarrow> nat" where
  "latin_lower c = (if 65 \<le> c \<and> c \<le> 90 then c + 32 else c)"

definition toLowerCase_latin :: "jsstring \<Rightarrow> jsstring" where
  "toLowerCase_latin s = map latin_lower s"

text \<open>Lines 96-100: the children fact.\<close>

definition score_hasChildren ::
    "(jsstring \<Rightarrow> jsstring) \<Rightarrow> form_values \<Rightarrow> bool" where
  "score_hasChildren toLowerCase form =
     (let familyStructure = toLowerCase (form_familyStructure form)
      in form_hasChildren form \<or>
         str_includes familyStructure marker_ko \<or>
         str_includes familyStructure marker_kodomo_kana \<or>
         str_includes familyStructure marker_kodomo)"

text \<open>
  \<open>familyStructure.match(/\d+/g)\<close>: the maximal runs of ASCII digits, left to right
  (without the \<open>u\<close> flag \<open>\d\<close> is \<open>[0-9]\<close>). JavaScript returns \<open>null\<close> when
  there is none; the caller tests \<open>numbers && numbers.length > 0\<close>, so \<open>null\<close> and
  the empty list are one case.
\<close>

definition is_digit :: "nat \<Rightarrow> bool" where
  "is_digit c \<longleftrightarrow> 48 \<le> c \<and> c \<le> 57"

function match_digits :: "jsstring \<Rightarrow> jsstring list" where
  "match_digits s =
     (case dropWhile (\<lambda>c. \<not> is_digit c) s of
        [] \<Rightarrow> []
      | d # r \<Rightarrow> (d # takeWhile is_digit r) # match_digits (dropWhile is_digit r))"
  by pat_completeness auto
termination
proof (relation "measure length")
  fix s :: jsstring and d r
  assume "dropWhile (\<lambda>c. \<not> is_digit c) s = d # r"
  then have "length (d # r) \<le> length s"
    by (metis length_dropWhile_le)
  moreover have "length (dropWhile is_digit r) \<le> length r"
    by (rule length_dropWhile_le)
  ultimately show "(dropWhile is_digit r, s) \<in> measure length"
    by simp
qed simp

declare match_digits.simps [simp del]

text \<open>
  A Number that stands for a count: an integer, or \<open>+Infinity\<close>. The number of
  children is the one number of the program that is read from a text of any length, so
  it is the one whose model carries the rounding to a double.

  The double nearest to a natural number: the number itself below \<open>2^53\<close>; beyond, a
  multiple of the unit in the last place (53 significant bits are kept, a tie goes to the
  even multiple), and \<open>+Infinity\<close> when the rounded value reaches \<open>2^1024\<close>.
\<close>

datatype jsnumber = Finite int | PosInfinity

fun bit_length :: "nat \<Rightarrow> nat" where
  "bit_length n = (if n = 0 then 0 else 1 + bit_length (n div 2))"

declare bit_length.simps [simp del]

definition round_to_double :: "nat \<Rightarrow> jsnumber" where
  "round_to_double n =
     (if n < 2 ^ 53 then Finite (int n)
      else
        (let ulp = 2 ^ (bit_length n - 53);
             q = n div ulp;
             r = n mod ulp;
             m = (if 2 * r < ulp then q
                  else if ulp < 2 * r then q + 1
                  else if even q then q
                  else q + 1)
         in if m * ulp < 2 ^ 1024 then Finite (int (m * ulp)) else PosInfinity))"

text \<open>
  \<open>parseInt(run, 10)\<close> on a run of digits: the Number for its decimal value. (For
  more than 20 significant digits ECMAScript lets an implementation replace the later
  digits by zeros before it rounds; the model rounds the exact value. On a string with
  no leading digit JavaScript gives \<open>NaN\<close>; a \<open>\d+\<close> match is never such a
  string, see \<open>match_digits_runs\<close>.)
\<close>

definition digits_value :: "jsstring \<Rightarrow> nat" where
  "digits_value s = foldl (\<lambda>a c. 10 * a + (c - 48)) 0 s"

definition parseInt10 :: "jsstring \<Rightarrow> jsnumber" where
  "parseInt10 s = round_to_double (digits_value (takeWhile is_digit s))"

text \<open>\<open>Math.min(3, childrenCount)\<close>.\<close>

definition js_min3 :: "jsnumber \<Rightarrow> int" where
  "js_min3 x = (case x of Finite k \<Rightarrow> min 3 k | PosInfinity \<Rightarrow> 3)"

text \<open>Lines 103-116: the number of children.\<close>

definition score_childrenCount ::
    "(jsstring \<Rightarrow> jsstring) \<Rightarrow> form_values \<Rightarrow> int \<Rightarrow>
     jsnumber" where
  "score_childrenCount toLowerCase form familyCount =
     (let familyStructure = toLowerCase (form_familyStructure form)
      in if score_hasChildren toLowerCase form then
           (case match_digits familyStructure of
              n # _ \<Rightarrow> parseInt10 n
            | [] \<Rightarrow>
                Finite (max 1 (familyCount -
                  (if str_includes familyStructure marker_tsuma \<or>
                      str_includes familyStructure marker_otto \<or>
                      str_includes familyStructure marker_haigusha then 2 else 1))))
         else Finite 0)"

text \<open>Line 119: \<open>form.getValues().age || 35\<close>.\<close>

definition score_userAge :: "form_values \<Rightarrow> int" where
  "score_userAge form = (if form_age form \<noteq> 0 then form_age form else 35)"

text \<open>\<open>Math.round\<close>: to the nearest integer, halves upwards.\<close>

definition js_round :: "rat \<Rightarrow> int" where
  "js_round x = \<lfloor>x + 1 / 2\<rfloor>"

text \<open>Lines 122-128: the scaled score and its floor of 40.\<close>

definition score_baseScore :: "int \<Rightarrow> int \<Rightarrow> int \<Rightarrow> rat" where
  "score_baseScore savings monthlyIncome familyCount =
     of_int savings / of_int (monthlyIncome * familyCount)"

definition score_scaled0 :: "int \<Rightarrow> int \<Rightarrow> int \<Rightarrow> int" where
  "score_scaled0 savings monthlyIncome familyCount =
     max 40 (min (js_round (score_baseScore savings monthlyIncome familyCount * 100 / 3)) 100)"

text \<open>Lines 131-147.\<close>

definition score_ageBonus :: "int \<Rightarrow> int" where
  "score_ageBonus userAge =
     (if userAge < 30 then 15
      else if userAge < 40 then 10
      else if userAge < 50 then 8
      else if userAge < 60 then 5
      else 3)"

text \<open>Lines 150-166: the family adjustment, and the scaled score after the re-floor.\<close>

definition score_familyAdjustment ::
    "bool \<Rightarrow> jsnumber \<Rightarrow> int \<Rightarrow> int" where
  "score_familyAdjustment hasChildren childrenCount familyCount =
     (if hasChildren then - 5 * js_min3 childrenCount
      else if familyCount > 1 then 5
      else 10)"

definition score_scaled ::
    "bool \<Rightarrow> jsnumber \<Rightarrow> int \<Rightarrow> int \<Rightarrow> int" where
  "score_scaled hasChildren childrenCount familyCount scaledScore =
     (if hasChildren then
        (let minScoreWithChildren = 65 - 5 * js_min3 childrenCount
         in max minScoreWithChildren
              (scaledScore + score_familyAdjustment hasChildren childrenCount familyCount))
      else scaledScore)"

text \<open>Lines 169-182.\<close>

definition score_incomeBonus :: "int \<Rightarrow> int" where
  "score_incomeBonus monthlyIncome =
     (if monthlyIncome \<ge> 500000 then 10
      else if monthlyIncome \<ge> 300000 then 7
      else if monthlyIncome \<ge> 200000 then 5
      else 3)"

text \<open>Lines 185-199.\<close>

definition score_savingsBonus :: "int \<Rightarrow> int \<Rightarrow> int \<Rightarrow> int" where
  "score_savingsBonus savings monthlyIncome familyCount =
     (let sixMonthsCost = monthlyIncome * familyCount * 6
      in if savings \<ge> sixMonthsCost then 10
         else if (of_int savings :: rat) \<ge> of_int sixMonthsCost / 2 then 7
         else if (of_int savings :: rat) \<ge> of_int sixMonthsCost / 4 then 5
         else 2)"

text \<open>
  Line 202: the sum of the scaled score and the bonuses, before the floor of 80 for
  profiles without children and before the cap of 100.
\<close>

definition score_sum ::
    "(jsstring \<Rightarrow> jsstring) \<Rightarrow> form_values \<Rightarrow> int \<Rightarrow> int \<Rightarrow>
     int \<Rightarrow> int" where
  "score_sum toLowerCase form savings monthlyIncome familyCount =
     (let hasChildren = score_hasChildren toLowerCase form;
          childrenCount = score_childrenCount toLowerCase form familyCount;
          scaledScore = score_scaled hasChildren childrenCount familyCount
                          (score_scaled0 savings monthlyIncome familyCount);
          ageBonus = score_ageBonus (score_userAge form);
          familyAdjustment = score_familyAdjustment hasChildren childrenCount familyCount;
          incomeBonus = score_incomeBonus monthlyIncome;
          savingsBonus = score_savingsBonus savings monthlyIncome familyCount
      in scaledScore + ageBonus + familyAdjustment + incomeBonus + savingsBonus)"

text \<open>Lines 205-213: the floor, the cap and the final rounding.\<close>

definition calculateRiskScore ::
    "(jsstring \<Rightarrow> jsstring) \<Rightarrow> form_values \<Rightarrow> int \<Rightarrow> int \<Rightarrow>
     int \<Rightarrow> int" where
  "calculateRiskScore toLowerCase form savings monthlyIncome familyCount =
     (let finalScore = score_sum toLowerCase form savings monthlyIncome familyCount;
          finalScore = (if \<not> score_hasChildren toLowerCase form then max 80 finalScore
                        else finalScore);
          finalScore = min 100 finalScore
      in js_round (of_int finalScore))"

text \<open>
  \<open>getRiskStatus\<close>. The labels: U+691C U+8A0E U+6BB5 U+968E (considering),
  U+6E96 U+5099 "OK" (ready), U+7D76 U+597D U+306E U+30BF U+30A4 U+30DF U+30F3 U+30B0
  (the best timing).
\<close>

definition status_kentou :: jsstring where
  "status_kentou = [26908, 35342, 27573, 38542]"

definition status_junbi_ok :: jsstring where
  "status_junbi_ok = [28310, 20633, 79, 75]"

definition status_zekkou :: jsstring where
  "status_zekkou = [32118, 22909, 12398, 12479, 12452, 12511, 12531, 12464]"

definition getRiskStatus :: "int \<Rightarrow> jsstring" where
  "getRiskStatus score =
     (if score \<le> 40 then status_kentou
      else if score \<le> 70 then status_junbi_ok
      else status_zekkou)"

text \<open>The input contract of the form schema.\<close>

definition valid_input ::
    "form_values \<Rightarrow> int \<Rightarrow> int \<Rightarrow> int \<Rightarrow> bool" where
  "valid_input form savings monthlyIncome familyCount \<longleftrightarrow>
     familyCount \<ge> 1 \<and> monthlyIncome \<ge> 1 \<and> savings \<ge> 0 \<and>
     (form_age form = 0 \<or> (18 \<le> form_age form \<and> form_age form \<le> 100))"
section \<open>The literal texts of \<open>generateAdvice\<close>\<close>

text \<open>
  Each section literal of the source has the shape: line feed, U+3010, title, U+3011, line
  feed, body. The title and the body are given as separate constants and put together by
  \<open>section_text\<close>, so that \<open>section_text title body\<close> is the literal of the
  source, code unit for code unit.
\<close>

definition lbr :: nat where
  "lbr = 12304"

definition rbr :: nat where
  "rbr = 12305"

definition section_text :: "jsstring \<Rightarrow> jsstring \<Rightarrow> jsstring" where
  "section_text ttl body = [10, lbr] @ ttl @ [rbr, 10] @ body"

text \<open>Line 289 (\<open>getAgeBasedAdvice\<close>): to you in your twenties.\<close>

definition title_age20 :: jsstring where
  "title_age20 =
     [50, 48, 20195, 12398, 12354, 12394, 12383, 12408]"

definition body_age20 :: jsstring where
  "body_age20 =
     [12354, 12394, 12383, 12398, 33509, 12373, 12399, 26368, 22823, 12398, 27494, 22120, 12391,
      12377, 65281, 26410, 26469, 12399, 28961, 38480, 12398, 21487, 33021, 24615, 12395, 28288,
      12385, 12390, 12356, 12414, 12377, 12290, 10, 10, 12539, 50, 48, 20195, 12399, 22833,
      25943, 12375, 12390, 12418, 12522, 12459, 12496, 12522, 12540, 12391, 12365, 12427, 36020,
      37325, 12394, 26178, 26399, 12391, 12377, 12290, 24605, 12356, 20999, 12387, 12383, 12481,
      12515, 12524, 12531, 12472, 12364, 12391, 12365, 12427, 12398, 12399, 20170, 12391, 12377,
      12290, 10, 12539, 12487, 12472, 12479, 12523, 12493, 12452, 12486, 12451, 12502, 12392,
      12375, 12390, 12398, 24863, 35226, 12420, 12488, 12524, 12531, 12489, 12408, 12398, 25935,
      24863, 12373, 12399, 12289, 12499, 12472, 12493, 12473, 12395, 12362, 12356, 12390, 22823,
      12365, 12394, 24375, 12415, 12395, 12394, 12426, 12414, 12377, 12290, 10, 12539, 20170,
      12363, 12425, 32076, 39443, 12434, 31309, 12416, 12371, 12392, 12391, 12289, 51, 48,
      20195, 12289, 52, 48, 20195, 12391, 12398, 39131, 36493, 30340, 12394, 25104, 38263,
      12395, 12388, 12394, 12364, 12426, 12414, 12377, 12290, 10, 12539, 33509, 12356, 36215,
      26989, 23478, 12399, 25237, 36039, 23478, 12363, 12425, 12418, 27880, 30446, 12373, 12428,
      12420, 12377, 12367, 12289, 25903, 25588, 12434, 21463, 12369, 12420, 12377, 12356, 20670,
      21521, 12364, 12354, 12426, 12414, 12377, 12290, 10, 12539, 12456, 12493, 12523, 12462,
      12540, 12392, 26580, 36575, 24615, 12434, 27963, 12363, 12375, 12390, 12289, 26032, 12375,
      12356, 24066, 22580, 12420, 12491, 12483, 12481, 12434, 38283, 25299, 12391, 12365, 12427,
      12481, 12515, 12531, 12473, 12391, 12377, 12290, 10, 10, 12354, 12394, 12383, 12398,
      34892, 21205, 21147, 12392, 26032, 39854, 12394, 35222, 28857, 12399, 12289, 26082, 23384,
      12398, 24066, 22580, 12395, 38761, 26032, 12434, 12418, 12383, 12425, 12377, 21487, 33021,
      24615, 12434, 31192, 12417, 12390, 12356, 12414, 12377, 65281]"

text \<open>Line 301 (\<open>getAgeBasedAdvice\<close>): to you in your thirties.\<close>

definition title_age30 :: jsstring where
  "title_age30 =
     [51, 48, 20195, 12398, 12354, 12394, 12383, 12408]"

definition body_age30 :: jsstring where
  "body_age30 =
     [51, 48, 20195, 12399, 32076, 39443, 12392, 33509, 12373, 12398, 12496, 12521, 12531,
      12473, 12364, 21462, 12428, 12383, 26368, 39640, 12398, 26178, 26399, 12391, 12377, 65281,
      10, 10, 12539, 51, 48, 20195, 12399, 23554, 38272, 24615, 12392, 23455, 21209, 32076,
      39443, 12364, 33988, 31309, 12373, 12428, 22987, 12417, 12289, 36215, 26989, 12395, 26368,
      36969, 12394, 26178, 26399, 12392, 35328, 12431, 12428, 12390, 12356, 12414, 12377, 12290,
      10, 12539, 33509, 12373, 12392, 12473, 12479, 12511, 12490, 12434, 25345, 12385, 12394,
      12364, 12425, 12418, 12289, 26989, 30028, 12398, 30693, 35672, 12420, 20154, 33032, 12364,
      24418, 25104, 12373, 12428, 12390, 12356, 12427, 32118, 22937, 12394, 12496, 12521, 12531,
      12473, 12391, 12377, 12290, 10, 12539, 23478, 26063, 24418, 25104, 26399, 12391, 12418,
      12354, 12426, 12289, 38263, 26399, 30340, 12394, 35222, 28857, 12391, 12499, 12472, 12493,
      12473, 12434, 32771, 12360, 12425, 12428, 12427, 26178, 26399, 12391, 12377, 12290, 10,
      12539, 22833, 25943, 12363, 12425, 12398, 23398, 12403, 12434, 27963, 12363, 12379, 12427,
      26580, 36575, 24615, 12392, 12289, 23433, 23450, 12434, 27714, 12417, 12427, 36012, 20219,
      24863, 12398, 12496, 12521, 12531, 12473, 12364, 21462, 12428, 12390, 12356, 12414, 12377,
      12290, 10, 12539, 12354, 12394, 12383, 12398, 23455, 21209, 32076, 39443, 12399, 12289,
      36215, 26989, 12395, 12362, 12369, 12427, 29694, 23455, 30340, 12394, 21028, 26029, 21147,
      12398, 22522, 30436, 12395, 12394, 12426, 12414, 12377, 12290, 10, 10, 12354, 12394,
      12383, 12398, 12461, 12515, 12522, 12450, 12391, 22521, 12387, 12383, 23554, 38272, 30693,
      35672, 12392, 33509, 12373, 12398, 12456, 12493, 12523, 12462, 12540, 12399, 12289, 25104,
      21151, 12408, 12398, 24375, 21147, 12394, 25512, 36914, 21147, 12395, 12394, 12427, 12391,
      12375, 12423, 12358, 65281]"

text \<open>Line 313 (\<open>getAgeBasedAdvice\<close>): to you in your forties.\<close>

definition title_age40 :: jsstring where
  "title_age40 =
     [52, 48, 20195, 12398, 12354, 12394, 12383, 12408]"

definition body_age40 :: jsstring where
  "body_age40 =
     [52, 48, 20195, 12399, 32076, 39443, 12392, 20154, 33032, 12364, 20805, 23455, 12375,
      12383, 12289, 36215, 26989, 12398, 40644, 37329, 26399, 12391, 12377, 65281, 10, 10,
      12539, 52, 48, 20195, 12399, 12371, 12428, 12414, 12391, 12398, 12461, 12515, 12522,
      12450, 12391, 22521, 12387, 12383, 23554, 38272, 30693, 35672, 12392, 20154, 33032, 12364,
      26368, 22823, 38480, 12395, 27963, 12365, 12427, 26178, 26399, 12391, 12377, 12290, 10,
      12539, 26989, 30028, 12391, 12398, 20449, 38972, 38306, 20418, 12364, 12377, 12391, 12395,
      27083, 31689, 12373, 12428, 12390, 12362, 12426, 12289, 21021, 26399, 39015, 23458, 12398,
      29554, 24471, 12364, 12473, 12512, 12540, 12474, 12391, 12377, 12290, 10, 12539, 12510,
      12493, 12472, 12513, 12531, 12488, 32076, 39443, 12364, 12354, 12428, 12400, 12289, 12481,
      12540, 12512, 12499, 12523, 12487, 12451, 12531, 12464, 12420, 12522, 12540, 12480, 12540,
      12471, 12483, 12503, 12398, 12473, 12461, 12523, 12364, 22823, 12365, 12394, 24375, 12415,
      12395, 12394, 12426, 12414, 12377, 12290, 10, 12539, 20154, 29983, 32076, 39443, 12363,
      12425, 26469, 12427, 21028, 26029, 21147, 12392, 20919, 38745, 12373, 12399, 12289, 12499,
      12472, 12493, 12473, 12398, 23433, 23450, 25104, 38263, 12395, 19981, 21487, 27424, 12394,
      35201, 32032, 12391, 12377, 12290, 10, 12539, 23478, 26063, 12420, 21608, 22258, 12398,
      29702, 35299, 12418, 24471, 12420, 12377, 12367, 12289, 12469, 12509, 12540, 12488, 20307,
      21046, 12434, 25972, 12360, 12420, 12377, 12356, 26178, 26399, 12391, 12377, 12290, 10,
      10, 12354, 12394, 12383, 12398, 35914, 23500, 12394, 32076, 39443, 12392, 20154, 33032,
      12399, 12289, 36215, 26989, 25104, 21151, 12408, 12398, 26368, 30701, 12523, 12540, 12488,
      12434, 20999, 12426, 38283, 12367, 12391, 12375, 12423, 12358, 65281]"

text \<open>Line 325 (\<open>getAgeBasedAdvice\<close>): to you in your fifties.\<close>

definition title_age50 :: jsstring where
  "title_age50 =
     [53, 48, 20195, 12398, 12354, 12394, 12383, 12408]"

definition body_age50 :: jsstring where
  "body_age50 =
     [53, 48, 20195, 12399, 30693, 24693, 12392, 32076, 39443, 12364, 28288, 12385, 28322,
      12428, 12383, 12289, 36215, 26989, 12398, 25104, 29087, 26399, 12391, 12377, 65281, 10,
      10, 12539, 53, 48, 20195, 12399, 38263, 24180, 12398, 12461, 12515, 12522, 12450, 12391,
      22521, 12387, 12383, 28145, 12356, 23554, 38272, 30693, 35672, 12392, 24195, 31684, 12394,
      20154, 33032, 12364, 26368, 22823, 12398, 27494, 22120, 12395, 12394, 12426, 12414, 12377,
      12290, 10, 12539, 26989, 30028, 12398, 35506, 38988, 12420, 39015, 23458, 12491, 12540,
      12474, 12434, 29087, 30693, 12375, 12390, 12362, 12426, 12289, 30340, 30906, 12394, 12477,
      12522, 12517, 12540, 12471, 12519, 12531, 12434, 25552, 20379, 12391, 12365, 12427, 31435,
      22580, 12391, 12377, 12290, 10, 12539, 36001, 21209, 30340, 12395, 12418, 27604, 36611,
      30340, 20313, 35029, 12364, 12354, 12427, 26178, 26399, 12391, 12289, 12522, 12473, 12463,
      12395, 23550, 12377, 12427, 32784, 24615, 12364, 39640, 12414, 12387, 12390, 12356, 12414,
      12377, 12290, 10, 12539, 35914, 23500, 12394, 20154, 29983, 32076, 39443, 12363, 12425,
      12367, 12427, 20919, 38745, 12394, 21028, 26029, 21147, 12392, 21839, 38988, 35299, 27770,
      33021, 21147, 12399, 12289, 12499, 12472, 12493, 12473, 12398, 23433, 23450, 12392, 25104,
      38263, 12395, 30452, 32080, 12375, 12414, 12377, 12290, 10, 12539, 33509, 25163, 36215,
      26989, 23478, 12398, 12513, 12531, 12479, 12540, 12392, 12375, 12390, 12398, 24441, 21106,
      12418, 26524, 12383, 12379, 12427, 12289, 31038, 20250, 30340, 20385, 20516, 12398, 39640,
      12356, 31435, 22580, 12391, 12377, 12290, 10, 10, 12354, 12394, 12383, 12398, 35914,
      12363, 12394, 32076, 39443, 12392, 30693, 24693, 12399, 12289, 25345, 32154, 21487, 33021,
      12394, 12499, 12472, 12493, 12473, 12434, 27083, 31689, 12377, 12427, 24375, 22266, 12394,
      22522, 30436, 12392, 12394, 12427, 12391, 12375, 12423, 12358, 65281]"

text \<open>Line 337 (\<open>getAgeBasedAdvice\<close>): to you in your sixties and older.\<close>

definition title_age60 :: jsstring where
  "title_age60 =
     [54, 48, 20195, 20197, 19978, 12398, 12354, 12394, 12383, 12408]"

definition body_age60 :: jsstring where
  "body_age60 =
     [54, 48, 20195, 20197, 19978, 12399, 30693, 35672, 12392, 30693, 24693, 12398, 38598,
      22823, 25104, 12289, 12475, 12459, 12531, 12489, 12521, 12452, 12501, 12398, 26032, 12383,
      12394, 25361, 25126, 12398, 26178, 12391, 12377, 65281, 10, 10, 12539, 54, 48, 20195,
      20197, 19978, 12399, 38263, 24180, 22521, 12387, 12383, 23554, 38272, 30693, 35672, 12289,
      20154, 33032, 12289, 20154, 29983, 32076, 39443, 12364, 32080, 23455, 12377, 12427, 32032,
      26228, 12425, 12375, 12356, 26178, 26399, 12391, 12377, 12290, 10, 12539, 26178, 38291,
      30340, 12394, 20313, 35029, 12364, 12354, 12426, 12289, 33258, 20998, 12398, 24773, 29105,
      12434, 27880, 12370, 12427, 20107, 26989, 12395, 21462, 12426, 32068, 12417, 12427, 32118,
      22909, 12398, 12481, 12515, 12531, 12473, 12391, 12377, 12290, 10, 12539, 35914, 23500,
      12394, 20154, 29983, 32076, 39443, 12392, 20919, 38745, 12394, 21028, 26029, 21147, 12399,
      12289, 23433, 23450, 12375, 12383, 12499, 12472, 12493, 12473, 36939, 21942, 12398, 37749,
      12392, 12394, 12426, 12414, 12377, 12290, 10, 12539, 33509, 12356, 19990, 20195, 12395,
      12399, 12394, 12356, 35222, 28857, 12420, 30693, 24693, 12434, 27963, 12363, 12375, 12383,
      12289, 12518, 12491, 12540, 12463, 12394, 12499, 12472, 12493, 12473, 12514, 12487, 12523,
      12434, 27083, 31689, 12391, 12365, 12414, 12377, 12290, 10, 12539, 31038, 20250, 36002,
      29486, 12420, 20385, 20516, 21109, 36896, 12394, 12393, 12289, 32076, 28168, 30340, 25104,
      21151, 12384, 12369, 12391, 12394, 12356, 22810, 27096, 12394, 30446, 27161, 12434, 35373,
      23450, 12391, 12365, 12427, 33258, 30001, 12364, 12354, 12426, 12414, 12377, 12290, 10,
      12539, 12487, 12472, 12479, 12523, 25216, 34899, 12392, 24467, 26469, 12398, 30693, 24693,
      12434, 32068, 12415, 21512, 12431, 12379, 12383, 12289, 19990, 20195, 12434, 36229, 12360,
      12383, 12452, 12494, 12505, 12540, 12471, 12519, 12531, 12434, 36215, 12371, 12379, 12427,
      31435, 22580, 12391, 12377, 12290, 10, 10, 12354, 12394, 12383, 12398, 35914, 12363,
      12394, 32076, 39443, 12392, 30693, 24693, 12399, 12289, 31038, 20250, 12395, 26032, 12383,
      12394, 20385, 20516, 12434, 12418, 12383, 12425, 12377, 36020, 37325, 12394, 36039, 29987,
      12391, 12377, 65281]"

text \<open>Lines 367-374 (\<open>getFamilyAdvice\<close>): advice for households raising children.\<close>

definition title_family_children :: jsstring where
  "title_family_children =
     [23376, 32946, 12390, 19990, 24111, 21521, 12369, 12450, 12489, 12496, 12452, 12473]"

definition body_family_children :: jsstring where
  "body_family_children =
     [12539, 23376, 20379, 12364, 12356, 12427, 23478, 24237, 12391, 12399, 12289, 25945, 32946,
      36027, 12420, 23558, 26469, 12398, 36914, 23398, 36027, 29992, 12418, 32771, 24942, 12375,
      12383, 36039, 37329, 35336, 30011, 12364, 37325, 35201, 12391, 12377, 12290, 10, 12539,
      36215, 26989, 12399, 23376, 20379, 12395, 12300, 12481, 12515, 12524, 12531, 12472, 12377,
      12427, 23039, 12301, 12434, 35211, 12379, 12427, 36020, 37325, 12394, 27231, 20250, 12391,
      12418, 12354, 12426, 12414, 12377, 12290, 10, 12539, 23376, 20379, 12398, 23558, 26469,
      12398, 12383, 12417, 12395, 12418, 12289, 12354, 12394, 12383, 12364, 24773, 29105, 12434,
      25345, 12387, 12390, 21462, 12426, 32068, 12417, 12427, 20181, 20107, 12434, 36984, 12406,
      12371, 12392, 12399, 22823, 20999, 12391, 12377, 12290, 10, 12539, 36215, 26989, 21021,
      26399, 12399, 22312, 23429, 12420, 26178, 38291, 12398, 34701, 36890, 12364, 21033, 12367,
      20685, 12365, 26041, 12364, 12391, 12365, 12427, 12383, 12417, 12289, 23376, 32946, 12390,
      12392, 12398, 20001, 31435, 12364, 12375, 12420, 12377, 12367, 12394, 12427, 22580, 21512,
      12418, 12354, 12426, 12414, 12377, 12290, 10, 12539, 23478, 26063, 12398, 29702, 35299,
      12392, 21332, 21147, 12434, 24471, 12427, 12383, 12417, 12395, 12289, 36215, 26989, 35336,
      30011, 12420, 23558, 26469, 12398, 12499, 12472, 12519, 12531, 12434, 20849, 26377, 12375,
      12414, 12375, 12423, 12358, 12290, 10, 12539, 23376, 32946, 12390, 19990, 24111, 21521,
      12369, 12398, 20844, 30340, 25903, 25588, 21046, 24230, 65288, 20816, 31461, 25163, 24403,
      12289, 21307, 30274, 36027, 21161, 25104, 12394, 12393, 65289, 12418, 27963, 29992, 12375,
      12390, 12289, 22266, 23450, 36027, 12434, 25233, 12360, 12427, 24037, 22827, 12434, 12375,
      12414, 12375, 12423, 12358, 12290, 10, 12539, 21516, 12376, 12367, 23376, 32946, 12390,
      20013, 12398, 36215, 26989, 23478, 12392, 12398, 12493, 12483, 12488, 12527, 12540, 12463,
      12434, 27083, 31689, 12375, 12289, 24773, 22577, 20132, 25563, 12420, 30456, 20114, 25903,
      25588, 12398, 38306, 20418, 12434, 20316, 12427, 12371, 12392, 12418, 26377, 21177, 12391,
      12377, 12290]"

text \<open>Lines 377-382: advice according to the family structure.\<close>

definition title_family :: jsstring where
  "title_family =
     [23478, 26063, 27083, 25104, 12395, 24540, 12376, 12383, 12450, 12489, 12496, 12452, 12473]"

definition body_family :: jsstring where
  "body_family =
     [12539, 23478, 26063, 12364, 12356, 12427, 22580, 21512, 12399, 12289, 29983, 21629, 20445,
      38522, 12420, 21307, 30274, 20445, 38522, 12398, 35211, 30452, 12375, 12434, 34892, 12356,
      12414, 12375, 12423, 12358, 12290, 10, 12539, 23478, 26063, 12392, 36215, 26989, 12395,
      12388, 12356, 12390, 12458, 12540, 12503, 12531, 12395, 35441, 12375, 21512, 12356, 12289,
      29702, 35299, 12392, 21332, 21147, 12434, 24471, 12427, 12371, 12392, 12364, 37325, 35201,
      12391, 12377, 12290, 10, 12539, 23478, 26063, 12398, 23558, 26469, 12398, 12521, 12452,
      12501, 12503, 12521, 12531, 12418, 32771, 24942, 12375, 12383, 36039, 37329, 35336, 30011,
      12434, 31435, 12390, 12414, 12375, 12423, 12358, 12290, 10, 12539, 37197, 20598, 32773,
      12398, 21454, 20837, 12364, 12354, 12427, 22580, 21512, 12399, 12289, 19968, 26178, 30340,
      12395, 23478, 35336, 12398, 20027, 12394, 25903, 12360, 25163, 12395, 12394, 12387, 12390,
      12418, 12425, 12358, 12371, 12392, 12418, 26908, 35342, 12391, 12365, 12414, 12377, 12290,
      10, 12539, 23478, 26063, 12398, 20581, 24247, 20445, 38522, 12420, 31038, 20250, 20445,
      38522, 12398, 20999, 12426, 26367, 12360, 12395, 12388, 12356, 12390, 12418, 20107, 21069,
      12395, 35519, 26619, 12375, 12390, 12362, 12365, 12414, 12375, 12423, 12358, 12290]"

text \<open>Lines 385-390: advice for single people.\<close>

definition title_single :: jsstring where
  "title_single =
     [21336, 36523, 32773, 21521, 12369, 12450, 12489, 12496, 12452, 12473]"

definition body_single :: jsstring where
  "body_single =
     [12539, 21336, 36523, 12398, 22580, 21512, 12399, 12289, 12522, 12473, 12463, 12434, 21462,
      12426, 12420, 12377, 12356, 29366, 27841, 12395, 12354, 12426, 12414, 12377, 12290, 12371,
      12398, 27231, 20250, 12434, 26368, 22823, 38480, 12395, 27963, 12363, 12375, 12414, 12375,
      12423, 12358, 12290, 10, 12539, 29983, 27963, 12467, 12473, 12488, 12434, 35211, 30452,
      12375, 12289, 22266, 23450, 36027, 12398, 21066, 28187, 12509, 12452, 12531, 12488, 12434,
      25506, 12375, 12390, 12415, 12414, 12375, 12423, 12358, 12290, 10, 12539, 19975, 12364,
      19968, 12398, 20107, 24907, 12395, 20633, 12360, 12383, 21307, 30274, 20445, 38522, 12398,
      21152, 20837, 12434, 26908, 35342, 12375, 12414, 12375, 12423, 12358, 12290, 10, 12539,
      21336, 36523, 12391, 12354, 12427, 12371, 12392, 12434, 27963, 12363, 12375, 12390, 12289,
      36215, 26989, 21021, 26399, 12399, 29983, 27963, 12467, 12473, 12488, 12434, 26368, 23567,
      38480, 12395, 25233, 12360, 12427, 12371, 12392, 12418, 26908, 35342, 12391, 12365, 12414,
      12377, 12290, 10, 12539, 23558, 26469, 30340, 12394, 12521, 12452, 12501, 12503, 12521,
      12531, 12398, 22793, 21270, 65288, 32080, 23130, 12289, 23478, 26063, 24418, 25104, 12394,
      12393, 65289, 12418, 35222, 37326, 12395, 20837, 12428, 12383, 38263, 26399, 30340, 12394,
      20107, 26989, 35336, 30011, 12434, 31435, 12390, 12414, 12375, 12423, 12358, 12290]"

text \<open>Lines 398-403 (\<open>getIncomeBasedAdvice\<close>): advice according to the monthly income; low income.\<close>

definition title_income :: jsstring where
  "title_income =
     [26376, 21454, 12395, 24540, 12376, 12383, 12450, 12489, 12496, 12452, 12473]"

definition body_income_low :: jsstring where
  "body_income_low =
     [12539, 29694, 22312, 12398, 26376, 21454, 12399, 27604, 36611, 30340, 20302, 12417, 12391,
      12377, 12364, 12289, 36215, 26989, 12395, 12424, 12387, 12390, 21454, 20837, 12434, 22679,
      12420, 12379, 12427, 21487, 33021, 24615, 12364, 12354, 12426, 12414, 12377, 12290, 10,
      12539, 12414, 12378, 12399, 21103, 26989, 12392, 12375, 12390, 23567, 35215, 27169, 12395,
      22987, 12417, 12289, 26376, 53, 19975, 20870, 12398, 21103, 21454, 20837, 12363, 12425,
      20316, 12426, 12414, 12375, 12423, 12358, 12290, 10, 12539, 12473, 12461, 12523, 12450,
      12483, 12503, 12395, 25237, 36039, 12375, 12289, 25552, 20379, 12391, 12365, 12427, 12469,
      12540, 12499, 12473, 12398, 20385, 20516, 12434, 39640, 12417, 12427, 12371, 12392, 12434,
      20778, 20808, 12375, 12390, 12367, 12384, 12373, 12356, 12290, 10, 12539, 21021, 26399,
      25237, 36039, 12434, 26368, 23567, 38480, 12395, 25233, 12360, 12383, 12499, 12472, 12493,
      12473, 12514, 12487, 12523, 65288, 12458, 12531, 12521, 12452, 12531, 12469, 12540, 12499,
      12473, 12289, 12467, 12531, 12469, 12523, 12486, 12451, 12531, 12464, 12394, 12393, 65289,
      12363, 12425, 22987, 12417, 12414, 12375, 12423, 12358, 12290, 10, 12539, 22266, 23450,
      36027, 12434, 24505, 24213, 30340, 12395, 35211, 30452, 12375, 12289, 29983, 27963, 38450,
      34907, 36039, 37329, 12434, 23569, 12375, 12378, 12388, 22679, 12420, 12375, 12390, 12356,
      12365, 12414, 12375, 12423, 12358, 12290]"

definition body_income_medium :: jsstring where
  "body_income_medium =
     [12539, 29694, 22312, 12398, 26376, 21454, 12399, 24179, 22343, 30340, 12391, 12289, 36215,
      26989, 12398, 22522, 30436, 12392, 12375, 12390, 12399, 33391, 12356, 12473, 12479, 12540,
      12488, 12509, 12452, 12531, 12488, 12391, 12377, 12290, 10, 12539, 26412, 26989, 12434,
      32154, 12369, 12394, 12364, 12425, 12289, 36913, 26411, 12420, 24179, 26085, 22812, 12395,
      21103, 26989, 12392, 12375, 12390, 20107, 26989, 12434, 22987, 12417, 12289, 26376, 49,
      48, 12316, 49, 53, 19975, 20870, 12398, 21103, 21454, 20837, 12434, 30446, 25351, 12375,
      12414, 12375, 12423, 12358, 12290, 10, 12539, 21103, 26989, 21454, 20837, 12364, 26412,
      26989, 12398, 21322, 20998, 12395, 36948, 12375, 12383, 12425, 12289, 29420, 31435, 12434,
      26908, 35342, 12377, 12427, 12479, 12452, 12511, 12531, 12464, 12363, 12418, 12375, 12428,
      12414, 12379, 12435, 12290, 10, 12539, 12354, 12394, 12383, 12398, 12473, 12461, 12523,
      12420, 32076, 39443, 12434, 27963, 12363, 12379, 12427, 20998, 37326, 12391, 12289, 24046,
      21029, 21270, 12391, 12365, 12427, 12469, 12540, 12499, 12473, 12434, 32771, 12360, 12414,
      12375, 12423, 12358, 12290, 10, 12539, 26412, 26989, 12391, 22521, 12387, 12383, 20154,
      33032, 12420, 12473, 12461, 12523, 12434, 26368, 22823, 38480, 12395, 27963, 29992, 12375,
      12289, 21021, 26399, 39015, 23458, 12398, 29554, 24471, 12395, 32331, 12370, 12414, 12375,
      12423, 12358, 12290]"

definition body_income_high :: jsstring where
  "body_income_high =
     [12539, 29694, 22312, 12398, 26376, 21454, 12399, 39640, 12417, 12391, 12289, 36215, 26989,
      12398, 12383, 12417, 12398, 33391, 12356, 36039, 37329, 22522, 30436, 12364, 12354, 12426,
      12414, 12377, 12290, 10, 12539, 39640, 21454, 20837, 12434, 27963, 12363, 12375, 12390,
      12289, 31309, 26997, 30340, 12395, 20107, 26989, 36039, 37329, 12434, 30906, 20445, 12375,
      12414, 12375, 12423, 12358, 12290, 10, 12539, 12354, 12394, 12383, 12398, 23554, 38272,
      24615, 12434, 27963, 12363, 12375, 12383, 39640, 21336, 20385, 12469, 12540, 12499, 12473,
      12398, 25552, 20379, 12434, 26908, 35342, 12375, 12390, 12367, 12384, 12373, 12356, 12290,
      10, 12539, 24517, 35201, 12395, 24540, 12376, 12390, 24467, 26989, 21729, 12420, 12501,
      12522, 12540, 12521, 12531, 12473, 12434, 38599, 29992, 12375, 12289, 26089, 26399, 12395,
      12499, 12472, 12493, 12473, 12434, 25313, 22823, 12377, 12427, 25126, 30053, 12418, 26377,
      21177, 12391, 12377, 12290, 10, 12539, 39640, 21454, 20837, 12398, 32076, 39443, 12434,
      27963, 12363, 12375, 12390, 12289, 12479, 12540, 12466, 12483, 12488, 39015, 23458, 12434,
      26126, 30906, 12395, 12375, 12289, 12503, 12524, 12511, 12450, 12512, 12469, 12540, 12499,
      12473, 12398, 25552, 20379, 12434, 26908, 35342, 12375, 12414, 12375, 12423, 12358, 12290,
      10, 12539, 25237, 36039, 12420, 36039, 29987, 36939, 29992, 12418, 20006, 34892, 12375,
      12390, 34892, 12356, 12289, 35079, 25968, 12398, 21454, 20837, 28304, 12434, 30906, 20445,
      12377, 12427, 12371, 12392, 12434, 12362, 12377, 12377, 12417, 12375, 12414, 12377, 12290]"

text \<open>Lines 543-546 (\<open>getEncouragementMessage\<close>): a special message for you; highest risk.\<close>

definition title_message :: jsstring where
  "title_message =
     [12354, 12394, 12383, 12408, 12398, 29305, 21029, 12394, 12513, 12483, 12475, 12540, 12472]"

definition body_message_highest :: jsstring where
  "body_message_highest =
     [23376, 32946, 12390, 12375, 12394, 12364, 12425, 12398, 36215, 26989, 12399, 30906, 12363,
      12395, 25361, 25126, 12391, 12377, 12364, 12289, 22810, 12367, 12398, 25104, 21151, 20363,
      12364, 12354, 12426, 12414, 12377, 12290, 23376, 20379, 12398, 23384, 22312, 12364, 12514,
      12481, 12505, 12540, 12471, 12519, 12531, 12392, 12394, 12426, 12289, 21177, 29575, 30340,
      12394, 20685, 12365, 26041, 12434, 27169, 32034, 12377, 12427, 12365, 12387, 12363, 12369,
      12395, 12418, 12394, 12426, 12414, 12377, 12290, 12414, 12378, 12399, 21103, 26989, 12363,
      12425, 22987, 12417, 12390, 12289, 23569, 12375, 12378, 12388, 12522, 12473, 12463, 12434,
      28187, 12425, 12375, 12394, 12364, 12425, 21069, 36914, 12375, 12414, 12375, 12423, 12358,
      12290, 23376, 20379, 12395, 12300, 22818, 12434, 36861, 12356, 12363, 12369, 12427, 35242,
      12301, 12398, 23039, 12434, 35211, 12379, 12427, 12371, 12392, 12399, 12289, 20309, 29289,
      12395, 12418, 20195, 12360, 12364, 12383, 12356, 25945, 32946, 12391, 12377, 12290, 10,
      10, 12354, 12394, 12383, 12398, 24773, 29105, 12392, 12450, 12452, 12487, 12450, 12399,
      12289, 26032, 12375, 12356, 20385, 20516, 12434, 29983, 12415, 20986, 12377, 21407, 21205,
      21147, 12391, 12377, 12290, 36215, 26989, 12399, 20154, 29983, 12434, 22793, 12360, 12427,
      22823, 12365, 12394, 12481, 12515, 12531, 12473, 12391, 12377, 12290, 19968, 27497, 36367,
      12415, 20986, 12377, 21191, 27671, 12434, 25345, 12385, 12414, 12375, 12423, 12358, 65281]"

definition body_message_high :: jsstring where
  "body_message_high =
     [23478, 26063, 12364, 12356, 12427, 12371, 12392, 12391, 24910, 37325, 12395, 12394, 12427,
      12398, 12399, 33258, 28982, 12394, 12371, 12392, 12391, 12377, 12364, 12289, 12381, 12428,
      12364, 22818, 12434, 35558, 12417, 12427, 29702, 30001, 12395, 12399, 12394, 12426, 12414,
      12379, 12435, 12290, 12416, 12375, 12429, 12289, 23478, 26063, 12398, 23384, 22312, 12364,
      38263, 26399, 30340, 12394, 35222, 28857, 12392, 36012, 20219, 24863, 12434, 32946, 12415,
      12289, 12499, 12472, 12493, 12473, 12398, 23433, 23450, 24615, 12395, 12388, 12394, 12364,
      12427, 12371, 12392, 12418, 12354, 12426, 12414, 12377, 12290, 35336, 30011, 30340, 12395,
      36914, 12417, 12428, 12400, 12289, 23478, 26063, 12398, 29702, 35299, 12392, 21332, 21147,
      12434, 24471, 12394, 12364, 12425, 12289, 30528, 23455, 12395, 22818, 12434, 23455, 29694,
      12391, 12365, 12427, 12391, 12375, 12423, 12358, 12290, 10, 10, 20170, 12371, 12381,
      34892, 21205, 12377, 12427, 12392, 12365, 12391, 12377, 12290, 12354, 12394, 12383, 12398,
      12473, 12461, 12523, 12392, 32076, 39443, 12399, 12289, 29420, 33258, 12398, 12499, 12472,
      12493, 12473, 12434, 25104, 21151, 12373, 12379, 12427, 22823, 12365, 12394, 27494, 22120,
      12395, 12394, 12426, 12414, 12377, 12290, 33258, 20998, 12398, 21487, 33021, 24615, 12434,
      20449, 12376, 12390, 12289, 19968, 27497, 21069, 12395, 36367, 12415, 20986, 12375, 12414,
      12375, 12423, 12358, 65281]"

definition body_message_children :: jsstring where
  "body_message_children =
     [23376, 32946, 12390, 12392, 36215, 26989, 12398, 20001, 31435, 12399, 12289, 26178, 38291,
      31649, 29702, 12392, 20778, 20808, 38918, 20301, 20184, 12369, 12398, 36948, 20154, 12395,
      12394, 12427, 12481, 12515, 12531, 12473, 12391, 12377, 12290, 22810, 12367, 12398, 35242,
      36215, 26989, 23478, 12364, 12289, 23376, 20379, 12398, 23384, 22312, 12395, 12424, 12387,
      12390, 21177, 29575, 30340, 12394, 20685, 12365, 26041, 12434, 23398, 12403, 12289, 12416,
      12375, 12429, 25104, 21151, 12395, 12388, 12394, 12370, 12390, 12356, 12414, 12377, 12290,
      23376, 20379, 12395, 12300, 33258, 20998, 12398, 20154, 29983, 12434, 33258, 20998, 12391,
      20999, 12426, 25299, 12367, 12301, 29983, 12365, 26041, 12434, 35211, 12379, 12427, 12371,
      12392, 12399, 12289, 26368, 39640, 12398, 25945, 32946, 12395, 12394, 12427, 12391, 12375,
      12423, 12358, 12290, 10, 10, 12354, 12394, 12383, 12398, 22818, 12434, 36861, 12356,
      12363, 12369, 12427, 23039, 12399, 12289, 23376, 20379, 12383, 12385, 12395, 12392, 12387,
      12390, 26368, 39640, 12398, 12525, 12540, 12523, 12514, 12487, 12523, 12395, 12394, 12426,
      12414, 12377, 12290, 20170, 26085, 12363, 12425, 23567, 12373, 12394, 19968, 27497, 12434,
      36367, 12415, 20986, 12375, 12289, 12381, 12398, 19968, 27497, 12434, 31309, 12415, 37325,
      12397, 12390, 12356, 12365, 12414, 12375, 12423, 12358, 65281]"

definition body_message_other :: jsstring where
  "body_message_other =
     [36215, 26989, 12399, 19981, 23433, 12418, 12354, 12426, 12414, 12377, 12364, 12289, 33258,
      20998, 12398, 24773, 29105, 12434, 20181, 20107, 12395, 12391, 12365, 12427, 32032, 26228,
      12425, 12375, 12356, 12481, 12515, 12531, 12473, 12391, 12377, 12290, 12354, 12394, 12383,
      12398, 12450, 12452, 12487, 12450, 12420, 12473, 12461, 12523, 12399, 12289, 19990, 30028,
      12395, 26032, 12375, 12356, 20385, 20516, 12434, 12418, 12383, 12425, 12377, 21487, 33021,
      24615, 12434, 31192, 12417, 12390, 12356, 12414, 12377, 12290, 10, 10, 20154, 29983,
      12399, 19968, 24230, 12365, 12426, 12290, 12300, 12420, 12425, 12394, 12363, 12387, 12383,
      24460, 24724, 12301, 12424, 12426, 12300, 12420, 12387, 12383, 32076, 39443, 12301, 12398,
      26041, 12364, 12289, 12354, 12394, 12383, 12434, 25104, 38263, 12373, 12379, 12390, 12367,
      12428, 12414, 12377, 12290, 20170, 26085, 12363, 12425, 23567, 12373, 12394, 19968, 27497,
      12434, 36367, 12415, 20986, 12375, 12289, 12354, 12394, 12383, 12398, 22818, 12395, 21521,
      12363, 12387, 12390, 36914, 12435, 12391, 12356, 12365, 12414, 12375, 12423, 12358, 65281]"

text \<open>Line 355 (\<open>getSavingsGoalAdvice\<close>): the goal is already met.\<close>

definition goal_met_1 :: jsstring where
  "goal_met_1 =
     [12377, 12391, 12395]"

definition goal_met_2 :: jsstring where
  "goal_met_2 =
     [20870, 12398, 30446, 27161, 12434, 36948, 25104, 12375, 12390, 12356, 12414, 12377, 12290,
      27425, 12398, 12473, 12486, 12483, 12503, 12392, 12375, 12390, 12289, 20107, 26989, 36039,
      37329, 12398, 30906, 20445, 12434, 26908, 35342, 12375, 12414, 12375, 12423, 12358, 12290]"

text \<open>Line 359: the amount still to save, a fifth of the income, the number of months.\<close>

definition goal_open_1 :: jsstring where
  "goal_open_1 =
     [12354, 12392]"

definition goal_open_2 :: jsstring where
  "goal_open_2 =
     [20870, 12398, 36015, 33988, 12364, 24517, 35201, 12391, 12377, 12290, 26376, 21454, 12398,
      50, 48, 37, 65288]"

definition goal_open_3 :: jsstring where
  "goal_open_3 =
     [20870, 65289, 12434, 36015, 33988, 12395, 22238, 12377, 12392, 12289, 32004]"

definition goal_open_4 :: jsstring where
  "goal_open_4 =
     [12534, 26376, 12391, 36948, 25104, 12391, 12365, 12414, 12377, 12290]"

text \<open>Lines 432-448 (\<open>incomeBasedSteps\<close>).\<close>

definition steps_low :: "jsstring list" where
  "steps_low =
    [[26368, 23567, 38480, 12398, 21021, 26399, 25237, 36039, 12391, 22987, 12417, 12425, 12428,
      12427, 12499, 12472, 12493, 12473, 12514, 12487, 12523, 12434, 36984, 12406],
     [12473, 12461, 12523, 12450, 12483, 12503, 12398, 12383, 12417, 12398, 12458, 12531, 12521,
      12452, 12531, 23398, 32722, 12395, 25237, 36039, 12377, 12427],
     [83, 78, 83, 12434, 27963, 29992, 12375, 12383, 28961, 26009, 12510, 12540, 12465, 12486,
      12451, 12531, 12464, 12363, 12425, 22987, 12417, 12427]]"

definition steps_medium :: "jsstring list" where
  "steps_medium =
    [[26412, 26989, 12392, 21103, 26989, 12398, 12496, 12521, 12531, 12473, 12434, 21462, 12426,
      12394, 12364, 12425, 12289, 27573, 38542, 30340, 12395, 31227, 34892, 12377, 12427, 35336,
      30011, 12434, 31435, 12390, 12427],
     [21021, 26399, 39015, 23458, 29554, 24471, 12398, 12383, 12417, 12395, 12289, 26082, 23384,
      12398, 20154, 33032, 12434, 27963, 29992, 12377, 12427],
     [26376, 27425, 12391, 21454, 25903, 12434, 20998, 26512, 12375, 12289, 20107, 26989, 12398,
      25505, 31639, 24615, 12434, 30906, 35469, 12377, 12427]]"

definition steps_high :: "jsstring list" where
  "steps_high =
    [[23554, 38272, 24615, 12434, 27963, 12363, 12375, 12383, 39640, 21336, 20385, 12469, 12540,
      12499, 12473, 12398, 38283, 30330, 12395, 27880, 21147, 12377, 12427],
     [24517, 35201, 12395, 24540, 12376, 12390, 22806, 37096, 20154, 26448, 12434, 27963, 29992,
      12375, 12289, 26089, 26399, 12395, 12499, 12472, 12493, 12473, 12434, 25313, 22823, 12377,
      12427],
     [20107, 26989, 12392, 36039, 29987, 36939, 29992, 12398, 20001, 38754, 12363, 12425, 21454,
      20837, 28304, 12434, 22810, 27096, 21270, 12377, 12427]]"

text \<open>Lines 451-455 (\<open>childrenSteps\<close>).\<close>

definition steps_children :: "jsstring list" where
  "steps_children =
    [[23376, 32946, 12390, 12392, 20001, 31435, 12391, 12365, 12427, 26580, 36575, 12394, 20685,
      12365, 26041, 12434, 20107, 26989, 35336, 30011, 12395, 32068, 12415, 36796, 12416],
     [23478, 26063, 12398, 26178, 38291, 12434, 30906, 20445, 12377, 12427, 12383, 12417, 12398,
      12479, 12452, 12512, 12510, 12493, 12472, 12513, 12531, 12488, 25126, 30053, 12434, 31435,
      12390, 12427],
     [23376, 32946, 12390, 19990, 24111, 21521, 12369, 12398, 25903, 25588, 21046, 24230, 12420,
      31246, 21046, 20778, 36935, 12434, 35519, 26619, 12375, 27963, 29992, 12377, 12427]]"

text \<open>Lines 462-486 (\<open>getAgeSteps\<close>).\<close>

definition steps_age20 :: "jsstring list" where
  "steps_age20 =
    [[33509, 25163, 36215, 26989, 23478, 21521, 12369, 12398, 12467, 12511, 12517, 12491, 12486,
      12451, 12420, 12452, 12505, 12531, 12488, 12395, 31309, 26997, 30340, 12395, 21442, 21152,
      12377, 12427],
     [12513, 12531, 12479, 12540, 12434, 35211, 12388, 12369, 12390, 23450, 26399, 30340, 12395,
      12450, 12489, 12496, 12452, 12473, 12434, 21463, 12369, 12427],
     [12487, 12472, 12479, 12523, 12473, 12461, 12523, 12434, 26368, 22823, 38480, 12395, 27963,
      29992, 12375, 12383, 12499, 12472, 12493, 12473, 12514, 12487, 12523, 12434, 26908, 35342,
      12377, 12427]]"

definition steps_age30 :: "jsstring list" where
  "steps_age30 =
    [[12371, 12428, 12414, 12391, 12398, 12461, 12515, 12522, 12450, 12391, 22521, 12387, 12383,
      23554, 38272, 30693, 35672, 12434, 27963, 12363, 12379, 12427, 20998, 37326, 12434, 36984,
      12406],
     [20181, 20107, 12392, 23478, 24237, 12398, 12496, 12521, 12531, 12473, 12434, 32771, 24942,
      12375, 12383, 20107, 26989, 35336, 30011, 12434, 31435, 12390, 12427],
     [21516, 19990, 20195, 12398, 36215, 26989, 23478, 12493, 12483, 12488, 12527, 12540, 12463,
      12434, 27083, 31689, 12377, 12427]]"

definition steps_age40 :: "jsstring list" where
  "steps_age40 =
    [[38263, 24180, 12398, 26989, 30028, 32076, 39443, 12434, 27963, 12363, 12375, 12383, 24046,
      21029, 21270, 25126, 30053, 12434, 31435, 12390, 12427],
     [26082, 23384, 12398, 20154, 33032, 12434, 27963, 29992, 12375, 12390, 21021, 26399, 39015,
      23458, 12434, 29554, 24471, 12377, 12427],
     [33509, 25163, 20154, 26448, 12398, 25505, 29992, 12539, 32946, 25104, 35336, 30011, 12434,
      26908, 35342, 12377, 12427]]"

definition steps_age50 :: "jsstring list" where
  "steps_age50 =
    [[35914, 23500, 12394, 32076, 39443, 12392, 30693, 35672, 12434, 27963, 12363, 12375, 12383,
      12467, 12531, 12469, 12523, 12486, 12451, 12531, 12464, 12420, 12513, 12531, 12479, 12522,
      12531, 12464, 12434, 26908, 35342, 12377, 12427],
     [12527, 12540, 12463, 12521, 12452, 12501, 12496, 12521, 12531, 12473, 12434, 37325, 35222,
      12375, 12383, 20107, 26989, 35373, 35336, 12434, 34892, 12358],
     [12487, 12472, 12479, 12523, 25216, 34899, 12434, 27963, 29992, 12375, 12390, 21177, 29575,
      30340, 12394, 12499, 12472, 12493, 12473, 12514, 12487, 12523, 12434, 27083, 31689, 12377,
      12427]]"

text \<open>Lines 489-493 (\<open>commonSteps\<close>).\<close>

definition steps_common :: "jsstring list" where
  "steps_common =
    [[21454, 25903, 31649, 29702, 12450, 12503, 12522, 12391, 27598, 26376, 12398, 25903, 20986,
      12434, 21487, 35222, 21270, 12377, 12427],
     [36215, 26989, 24460, 12398, 20107, 26989, 35336, 30011, 26360, 12434, 20316, 25104, 12375,
      12289, 24517, 35201, 36039, 37329, 12434, 26126, 30906, 12395, 12377, 12427],
     [36215, 26989, 20210, 38291, 12420, 12513, 12531, 12479, 12540, 12434, 35211, 12388, 12369,
      12390, 23450, 26399, 30340, 12395, 30456, 35527, 12377, 12427]]"

text \<open>Line 500: concrete action steps.\<close>

definition title_steps :: jsstring where
  "title_steps =
     [20855, 20307, 30340, 12394, 34892, 21205, 12473, 12486, 12483, 12503]"

text \<open>Lines 508-510 (\<open>getLowSavingsAdvice\<close>): the addendum for parents.\<close>

definition lowSavings_children :: jsstring where
  "lowSavings_children =
     [12539, 23376, 32946, 12390, 20013, 12391, 12418, 22987, 12417, 12425, 12428, 12427, 12289,
      26178, 38291, 12420, 22580, 25152, 12395, 32283, 12425, 12428, 12394, 12356, 21103, 26989,
      65288, 12502, 12525, 12464, 22519, 31558, 12289, 12458, 12531, 12521, 12452, 12531, 12467,
      12531, 12469, 12523, 12486, 12451, 12531, 12464, 12289, 12487, 12472, 12479, 12523, 21830,
      21697, 36009, 22770, 12394, 12393, 65289, 12434, 26908, 35342, 12375, 12414, 12375, 12423,
      12358, 12290, 10, 12539, 23376, 20379, 12398, 23517, 12390, 12356, 12427, 26178, 38291,
      12420, 20445, 32946, 22290, 12539, 23398, 26657, 12395, 34892, 12387, 12390, 12356, 12427,
      26178, 38291, 12434, 27963, 29992, 12375, 12390, 12289, 23569, 12375, 12378, 12388, 12499,
      12472, 12493, 12473, 12434, 27083, 31689, 12375, 12390, 12356, 12365, 12414, 12375, 12423,
      12358, 12290, 10, 12539, 37197, 20598, 32773, 12392, 21332, 21147, 12375, 12390, 26178,
      38291, 12434, 30906, 20445, 12377, 12427, 26041, 27861, 12434, 35441, 12375, 21512, 12356,
      12414, 12375, 12423, 12358, 12290]"

text \<open>Lines 513-518: little savings are no obstacle.\<close>

definition title_lowSavings :: jsstring where
  "title_lowSavings =
     [36015, 33988, 12364, 23569, 12394, 12367, 12390, 12418, 22823, 19976, 22827]"

definition lowSavings_1 :: jsstring where
  "lowSavings_1 =
     [12539, 12414, 12378, 12399, 26412, 26989, 12434, 32154, 12369, 12394, 12364, 12425, 12289,
      36913, 26411, 12420, 24179, 26085, 22812, 12395, 21103, 26989, 12392, 12375, 12390, 20107,
      26989, 12434, 12473, 12479, 12540, 12488, 12373, 12379, 12414, 12375, 12423, 12358, 12290,
      10, 12539, 26376, 12395]"

definition lowSavings_2 :: jsstring where
  "lowSavings_2 =
     [12398, 21103, 21454, 20837, 12434, 20316, 12427, 12371, 12392, 12363, 12425, 22987, 12417,
      12289, 24464, 12293, 12395, 25313, 22823, 12375, 12390, 12356, 12367, 12371, 12392, 12391,
      12289, 12522, 12473, 12463, 12434, 25233, 12360, 12425, 12428, 12414, 12377, 12290, 10,
      12539, 21103, 26989, 26399, 38291, 20013, 12395, 39015, 23458, 22522, 30436, 12420, 12473,
      12461, 12523, 12434, 27083, 31689, 12391, 12365, 12428, 12400, 12289, 29420, 31435, 26178,
      12398, 19981, 23433, 12418, 36605, 28187, 12391, 12365, 12414, 12377, 12290, 10, 12539,
      26368, 21021, 12399, 25237, 36039, 12434, 25233, 12360, 12383, 12499, 12472, 12493, 12473,
      12514, 12487, 12523, 65288]"

definition lowSavings_3 :: jsstring where
  "lowSavings_3 =
     [12394, 12393, 65289, 12363, 12425, 22987, 12417, 12427, 12398, 12418, 19968, 12388, 12398,
      26041, 27861, 12391, 12377, 12290]"

text \<open>Line 515: the monthly side income to aim at, by income level.\<close>

definition lowSavings_amount_low :: jsstring where
  "lowSavings_amount_low =
     [53, 12316, 49, 48, 19975, 20870]"

definition lowSavings_amount_medium :: jsstring where
  "lowSavings_amount_medium =
     [49, 48, 12316, 49, 53, 19975, 20870]"

definition lowSavings_amount_high :: jsstring where
  "lowSavings_amount_high =
     [49, 53, 12316, 50, 48, 19975, 20870]"

text \<open>Line 517: the business model to start with, by income level.\<close>

definition lowSavings_model_low :: jsstring where
  "lowSavings_model_low =
     [20491, 20154, 12469, 12540, 12499, 12473, 25552, 20379, 12420, 12458, 12531, 12521, 12452,
      12531, 12467, 12531, 12486, 12531, 12484, 36009, 22770]"

definition lowSavings_model_medium :: jsstring where
  "lowSavings_model_medium =
     [12467, 12531, 12469, 12523, 12486, 12451, 12531, 12464, 12420, 12467, 12540, 12481, 12531,
      12464]"

definition lowSavings_model_high :: jsstring where
  "lowSavings_model_high =
     [12503, 12524, 12511, 12450, 12512, 12467, 12531, 12469, 12523, 12486, 12451, 12531, 12464,
      12420, 23554, 38272, 12469, 12540, 12499, 12473]"

text \<open>Lines 526-528 (\<open>getCareerRiskComparison\<close>): the addendum for parents.\<close>

definition career_children :: jsstring where
  "career_children =
     [12539, 23376, 20379, 12398, 23558, 26469, 12398, 12383, 12417, 12395, 12418, 12289, 35242,
      12364, 33258, 20998, 12398, 22818, 12395, 25361, 25126, 12377, 12427, 23039, 12434, 35211,
      12379, 12427, 12371, 12392, 12399, 12289, 22823, 12365, 12394, 25945, 32946, 30340, 20385,
      20516, 12364, 12354, 12426, 12414, 12377, 12290, 10, 12539, 36215, 26989, 23478, 12392,
      12375, 12390, 25104, 21151, 12377, 12428, 12400, 12289, 23376, 20379, 12398, 25945, 32946,
      36039, 37329, 12420, 23558, 26469, 12398, 36984, 25246, 32930, 12434, 24195, 12370, 12427,
      12383, 12417, 12398, 32076, 28168, 30340, 22522, 30436, 12434, 31689, 12369, 12414, 12377,
      12290, 10, 12539, 20250, 31038, 21729, 12424, 12426, 12418, 26580, 36575, 12394, 20685,
      12365, 26041, 12364, 12391, 12365, 12427, 12383, 12417, 12289, 23376, 20379, 12398, 34892,
      20107, 12420, 32202, 24613, 26178, 12395, 12418, 23550, 24540, 12375, 12420, 12377, 12367,
      12394, 12426, 12414, 12377, 12290]"

text \<open>Lines 531-536: employees are not safe either.\<close>

definition title_career :: jsstring where
  "title_career =
     [12469, 12521, 12522, 12540, 12510, 12531, 12418, 23433, 27888, 12391, 12399, 12394, 12356]"

definition body_career :: jsstring where
  "body_career =
     [12539, 32066, 36523, 38599, 29992, 12398, 23849, 22730, 12289, 65, 73, 21488, 38957,
      12395, 12424, 12427, 20181, 20107, 12398, 22793, 21270, 12394, 12393, 12289, 12469, 12521,
      12522, 12540, 12510, 12531, 12395, 12418, 22823, 12365, 12394, 12522, 12473, 12463, 12364,
      12354, 12426, 12414, 12377, 12290, 10, 12539, 20250, 31038, 21729, 12399, 12300, 19968,
      12388, 12398, 20250, 31038, 12301, 12395, 20381, 23384, 12377, 12427, 12522, 12473, 12463,
      12364, 12354, 12426, 12414, 12377, 12364, 12289, 36215, 26989, 23478, 12399, 12300, 35079,
      25968, 12398, 39015, 23458, 12301, 12395, 25903, 12360, 12425, 12428, 12427, 24375, 12415,
      12364, 12354, 12426, 12414, 12377, 12290, 10, 12539, 36215, 26989, 12399, 33258, 20998,
      12398, 21147, 12391, 26410, 26469, 12434, 20999, 12426, 38283, 12369, 12427, 21487, 33021,
      24615, 12364, 12354, 12426, 12289, 21516, 12376, 12522, 12473, 12463, 12434, 21462, 12427,
      12394, 12425, 33258, 20998, 12398, 22818, 12395, 36077, 12369, 12427, 26041, 12364, 20805,
      23455, 24863, 12418, 22823, 12365, 12356, 12391, 12375, 12423, 12358, 12290, 10, 12539,
      20250, 31038, 21729, 26178, 20195, 12395, 22521, 12387, 12383, 12473, 12461, 12523, 12420,
      20154, 33032, 12399, 12289, 36215, 26989, 24460, 12418, 22823, 12365, 12394, 36039, 29987,
      12395, 12394, 12426, 12414, 12377, 12290]"

text \<open>Lines 570-573: the funding goal.\<close>

definition title_goal :: jsstring where
  "title_goal =
     [36039, 37329, 30446, 27161]"

definition goal_1 :: jsstring where
  "goal_1 =
     [26368, 20302, 12391, 12418]"

definition goal_2 :: jsstring where
  "goal_2 =
     [20870, 65288, 51, 12534, 26376, 20998, 65289, 12398, 29983, 27963, 36027, 12434, 30906,
      20445, 12377, 12427, 12371, 12392, 12434, 12362, 12377, 12377, 12417, 12375, 12414, 12377,
      12290, 10, 29702, 24819, 30340, 12395, 12399]"

definition goal_3 :: jsstring where
  "goal_3 =
     [20870, 65288, 54, 12534, 26376, 20998, 65289, 12354, 12428, 12400, 12289, 23433, 24515,
      12375, 12390, 36215, 26989, 12395, 38598, 20013, 12391, 12365, 12414, 12377, 12290]"

section \<open>The advice document (\<open>generateAdvice\<close>)\<close>

text \<open>Lines 234-237: the children fact, derived a second time.\<close>

definition advice_hasChildren ::
    "(jsstring \<Rightarrow> jsstring) \<Rightarrow> form_values \<Rightarrow> bool" where
  "advice_hasChildren toLowerCase form =
     (let familyStructure = toLowerCase (form_familyStructure form)
      in form_hasChildren form \<or>
         str_includes familyStructure marker_ko \<or>
         str_includes familyStructure marker_kodomo_kana \<or>
         str_includes familyStructure marker_kodomo)"

text \<open>Lines 240-256: the levels \<open>"low"\<close>, \<open>"medium"\<close>, \<open>"high"\<close>.\<close>

datatype level = Low | Medium | High

definition getIncomeLevel :: "int \<Rightarrow> level" where
  "getIncomeLevel income =
     (if income < 250000 then Low
      else if income < 500000 then Medium
      else High)"

definition getSavingsLevel :: "int \<Rightarrow> int \<Rightarrow> level" where
  "getSavingsLevel savings targetAmount =
     (let ratio = (of_int savings :: rat) / of_int targetAmount
      in if ratio < 1 / 2 then Low
         else if ratio < 1 then Medium
         else High)"

text \<open>Lines 259-278: \<open>"highest"\<close>, \<open>"high"\<close>, \<open>"medium"\<close>, \<open>"low"\<close>.\<close>

datatype risk_profile = RiskHighest | RiskHigh | RiskMedium | RiskLow

definition getRiskProfile ::
    "bool \<Rightarrow> level \<Rightarrow> level \<Rightarrow> risk_profile" where
  "getRiskProfile hasChildren savingsLevel incomeLevel =
     (if hasChildren \<and> savingsLevel = Low \<and> incomeLevel = Low then RiskHighest
      else if hasChildren \<and> (savingsLevel \<noteq> High \<or> incomeLevel \<noteq> High) then RiskHigh
      else if \<not> hasChildren \<and> savingsLevel = Low \<and> incomeLevel = Low then RiskMedium
      else if savingsLevel = High \<and> incomeLevel = High then RiskLow
      else RiskMedium)"

text \<open>
  Lines 283-349. \<open>!userAge || userAge === 0\<close> holds of the number 0 only (the schema
  gives \<open>age\<close> the default 0).
\<close>

definition getAgeBasedAdvice :: "form_values \<Rightarrow> jsstring" where
  "getAgeBasedAdvice form =
     (let userAge = form_age form
      in if userAge = 0 then []
         else if userAge < 30 then section_text title_age20 body_age20
         else if userAge < 40 then section_text title_age30 body_age30
         else if userAge < 50 then section_text title_age40 body_age40
         else if userAge < 60 then section_text title_age50 body_age50
         else section_text title_age60 body_age60)"

text \<open>
  Number to string, as a template literal does it (\<open>${monthsToSave}\<close>,
  \<open>${index + 1}\<close>): the decimal digits of an integer (below \<open>10^21\<close> in absolute
  value, beyond which JavaScript switches to the exponent notation).
\<close>

fun digits_of :: "nat \<Rightarrow> jsstring" where
  "digits_of n = (if n < 10 then [48 + n] else digits_of (n div 10) @ [48 + n mod 10])"

declare digits_of.simps [simp del]

definition numberToString :: "int \<Rightarrow> jsstring" where
  "numberToString n = (if n < 0 then 45 # digits_of (nat (- n)) else digits_of (nat n))"

text \<open>
  \<open>Number.prototype.toLocaleString\<close> depends on the locale of the runtime; it is
  the parameter \<open>toLocaleString\<close>. The function below is the rendering of integral
  amounts with a comma between groups of three digits (as \<open>ja-JP\<close> and \<open>en-US\<close>
  do), and instantiates the parameter on concrete inputs.
\<close>

fun group3 :: "jsstring \<Rightarrow> jsstring" where
  "group3 (a # b # c # d # r) = a # b # c # 44 # group3 (d # r)"
| "group3 r = r"

definition toLocaleString_comma :: "rat \<Rightarrow> jsstring" where
  "toLocaleString_comma q =
     (let n = \<lfloor>q\<rfloor>
      in (if n < 0 then [45] else []) @ rev (group3 (rev (digits_of (nat \<bar>n\<bar>)))))"

text \<open>
  Lines 352-361. \<open>monthlyIncome * 0.2\<close> is taken as the exact fifth of the income.
\<close>

definition getSavingsGoalAdvice ::
    "(rat \<Rightarrow> jsstring) \<Rightarrow> int \<Rightarrow> int \<Rightarrow> int \<Rightarrow>
     jsstring" where
  "getSavingsGoalAdvice toLocaleString monthlyIncome savings targetAmount =
     (let difference = targetAmount - savings
      in if difference \<le> 0 then
           goal_met_1 @ toLocaleString (of_int targetAmount) @ goal_met_2
         else
           (let monthsToSave = \<lceil>of_int difference / (of_int monthlyIncome * (1 / 5) :: rat)\<rceil>
            in goal_open_1 @ toLocaleString (of_int difference) @ goal_open_2 @
               toLocaleString (of_int monthlyIncome * (1 / 5)) @ goal_open_3 @
               numberToString monthsToSave @ goal_open_4))"

text \<open>Lines 364-391.\<close>

definition getFamilyAdvice :: "bool \<Rightarrow> int \<Rightarrow> jsstring" where
  "getFamilyAdvice hasChildren familyCount =
     (if hasChildren then section_text title_family_children body_family_children
      else if familyCount > 1 then section_text title_family body_family
      else section_text title_single body_single)"

text \<open>Lines 394-427.\<close>

definition getIncomeBasedAdvice :: "level \<Rightarrow> jsstring" where
  "getIncomeBasedAdvice incomeLevel =
     (case incomeLevel of
        Low \<Rightarrow> section_text title_income body_income_low
      | Medium \<Rightarrow> section_text title_income body_income_medium
      | High \<Rightarrow> section_text title_income body_income_high)"

text \<open>Lines 430-502: the action steps, numbered from 1 and joined by line feeds.\<close>

definition incomeBasedSteps :: "level \<Rightarrow> jsstring list" where
  "incomeBasedSteps incomeLevel =
     (case incomeLevel of Low \<Rightarrow> steps_low | Medium \<Rightarrow> steps_medium | High \<Rightarrow> steps_high)"

definition childrenSteps :: "bool \<Rightarrow> jsstring list" where
  "childrenSteps hasChildren = (if hasChildren then steps_children else [])"

definition getAgeSteps :: "form_values \<Rightarrow> jsstring list" where
  "getAgeSteps form =
     (let userAge = form_age form
      in if userAge = 0 then []
         else if userAge < 30 then steps_age20
         else if userAge < 40 then steps_age30
         else if userAge < 50 then steps_age40
         else steps_age50)"

fun js_join :: "jsstring \<Rightarrow> jsstring list \<Rightarrow> jsstring" where
  "js_join sep [] = []"
| "js_join sep [x] = x"
| "js_join sep (x # y # r) = x @ sep @ js_join sep (y # r)"

definition numbered :: "jsstring list \<Rightarrow> jsstring list" where
  "numbered allSteps =
     map (\<lambda>(index, step). numberToString (int index + 1) @ [46, 32] @ step)
       (enumerate 0 allSteps)"

definition allSteps ::
    "form_values \<Rightarrow> bool \<Rightarrow> level \<Rightarrow> jsstring list" where
  "allSteps form hasChildren incomeLevel =
     steps_common @ incomeBasedSteps incomeLevel @ childrenSteps hasChildren @ getAgeSteps form"

definition getActionSteps ::
    "form_values \<Rightarrow> bool \<Rightarrow> level \<Rightarrow> jsstring" where
  "getActionSteps form hasChildren incomeLevel =
     section_text title_steps (js_join [10] (numbered (allSteps form hasChildren incomeLevel)))"

text \<open>Lines 505-521.\<close>

definition lowSavings_amount :: "level \<Rightarrow> jsstring" where
  "lowSavings_amount incomeLevel =
     (if incomeLevel = Low then lowSavings_amount_low
      else if incomeLevel = Medium then lowSavings_amount_medium
      else lowSavings_amount_high)"

definition lowSavings_model :: "level \<Rightarrow> jsstring" where
  "lowSavings_model incomeLevel =
     (if incomeLevel = Low then lowSavings_model_low
      else if incomeLevel = Medium then lowSavings_model_medium
      else lowSavings_model_high)"

definition lowSavings_text :: "level \<Rightarrow> jsstring" where
  "lowSavings_text incomeLevel =
     lowSavings_1 @ lowSavings_amount incomeLevel @ lowSavings_2 @
     lowSavings_model incomeLevel @ lowSavings_3"

definition getLowSavingsAdvice ::
    "int \<Rightarrow> int \<Rightarrow> bool \<Rightarrow> level \<Rightarrow> jsstring" where
  "getLowSavingsAdvice savings threeMonthsCost hasChildren incomeLevel =
     (if savings < threeMonthsCost then
        (let childrenAdvice = (if hasChildren then lowSavings_children else [])
         in section_text title_lowSavings (lowSavings_text incomeLevel @ [10] @ childrenAdvice))
      else [])"

text \<open>Lines 524-537.\<close>

definition getCareerRiskComparison :: "bool \<Rightarrow> jsstring" where
  "getCareerRiskComparison hasChildren =
     (let childrenAdvice = (if hasChildren then career_children else [])
      in section_text title_career (body_career @ [10] @ childrenAdvice))"

text \<open>Lines 540-566.\<close>

definition getEncouragementMessage :: "risk_profile \<Rightarrow> bool \<Rightarrow> jsstring" where
  "getEncouragementMessage riskProfile hasChildren =
     (if riskProfile = RiskHighest then section_text title_message body_message_highest
      else if riskProfile = RiskHigh then section_text title_message body_message_high
      else if hasChildren then section_text title_message body_message_children
      else section_text title_message body_message_other)"

text \<open>
  \<open>String.prototype.trim\<close> removes the white space and the line terminators of
  ECMAScript at both ends: TAB, LF, VT, FF, CR, SP, NBSP, U+1680, U+2000 to U+200A, U+2028,
  U+2029, U+202F, U+205F, U+3000 and U+FEFF.
\<close>

definition js_whitespace :: "nat \<Rightarrow> bool" where
  "js_whitespace c \<longleftrightarrow>
     c \<in> {9, 10, 11, 12, 13, 32, 160, 5760, 8232, 8233, 8239, 8287, 12288, 65279} \<or>
     (8192 \<le> c \<and> c \<le> 8202)"

definition js_trim :: "jsstring \<Rightarrow> jsstring" where
  "js_trim s = rev (dropWhile js_whitespace (rev (dropWhile js_whitespace s)))"

text \<open>Lines 569-584: the template of the document, trimmed.\<close>

definition goal_text ::
    "(rat \<Rightarrow> jsstring) \<Rightarrow> int \<Rightarrow> int \<Rightarrow> int \<Rightarrow>
     int \<Rightarrow> jsstring" where
  "goal_text toLocaleString monthlyIncome savings threeMonthsCost sixMonthsCost =
     goal_1 @ toLocaleString (of_int threeMonthsCost) @ goal_2 @
     toLocaleString (of_int sixMonthsCost) @ goal_3 @ [10] @
     getSavingsGoalAdvice toLocaleString monthlyIncome savings threeMonthsCost"

definition generateAdvice ::
    "(jsstring \<Rightarrow> jsstring) \<Rightarrow> (rat \<Rightarrow> jsstring) \<Rightarrow>
     form_values \<Rightarrow> int \<Rightarrow> int \<Rightarrow> jsstring" where
  "generateAdvice toLowerCase toLocaleString form monthlyIncome familyCount =
     (let sixMonthsCost = monthlyIncome * familyCount * 6;
          threeMonthsCost = monthlyIncome * familyCount * 3;
          savings = form_savings form;
          hasChildren = advice_hasChildren toLowerCase form;
          incomeLevel = getIncomeLevel monthlyIncome;
          savingsLevel = getSavingsLevel savings threeMonthsCost;
          riskProfile = getRiskProfile hasChildren savingsLevel incomeLevel
      in js_trim
           (section_text title_goal
              (goal_text toLocaleString monthlyIncome savings threeMonthsCost sixMonthsCost) @
            [10, 10] @ getAgeBasedAdvice form @
            [10, 10] @ getIncomeBasedAdvice incomeLevel @
            [10, 10] @ getFamilyAdvice hasChildren familyCount @
            [10] @ getLowSavingsAdvice savings threeMonthsCost hasChildren incomeLevel @
            [10] @ getCareerRiskComparison hasChildren @
            [10] @ getEncouragementMessage riskProfile hasChildren @
            [10] @ getActionSteps form hasChildren incomeLevel @
            [10, 32, 32, 32, 32]))"

section \<open>The sections of the result page (\<open>renderAdviceSection\<close>)\<close>

text \<open>
  The line numbers of this section are those of \<^verbatim>\<open>src/components/risk-result.tsx\<close>.
\<close>

record advice_section =
  title :: jsstring
  content :: jsstring

text \<open>
  \<open>advice.split(/\<dots>/)\<close> with the pattern U+3010 \<open>(.+?)\<close> U+3011. At a position
  the pattern matches when the code unit there is U+3010 and the shortest run of one or
  more code units other than line terminators that is followed by U+3011 exists; the
  run is the capture. \<open>scan_title\<close> walks over the run, \<open>acc\<close> holding it reversed.
\<close>

definition line_terminator :: "nat \<Rightarrow> bool" where
  "line_terminator c \<longleftrightarrow> c = 10 \<or> c = 13 \<or> c = 8232 \<or> c = 8233"

fun scan_title ::
    "jsstring \<Rightarrow> jsstring \<Rightarrow> (jsstring \<times> jsstring) option" where
  "scan_title acc [] = None"
| "scan_title acc (c # cs) =
     (if acc \<noteq> [] \<and> c = rbr then Some (rev acc, cs)
      else if line_terminator c then None
      else scan_title (c # acc) cs)"

definition match_marker :: "jsstring \<Rightarrow> (jsstring \<times> jsstring) option" where
  "match_marker s = (case s of [] \<Rightarrow> None | c # cs \<Rightarrow> if c = lbr then scan_title [] cs else None)"

text \<open>
  The split itself: the text before each match, then the capture, and at the end the
  rest of the text (\<open>acc\<close> holds the text since the last match, reversed). A match is
  never empty, so the search goes on behind it.
\<close>

function split_sections :: "jsstring \<Rightarrow> jsstring \<Rightarrow> jsstring list" where
  "split_sections acc [] = [rev acc]"
| "split_sections acc (c # cs) =
     (case match_marker (c # cs) of
        Some (ttl, rest) \<Rightarrow> rev acc # ttl # split_sections [] rest
      | None \<Rightarrow> split_sections (c # acc) cs)"
  by pat_completeness auto
termination
proof (relation "measure (\<lambda>(acc, s). length s)")
  fix acc :: jsstring and c cs x ttl rest
  assume m: "match_marker (c # cs) = Some x" and x: "(ttl, rest) = x"
  have scan: "scan_title a s = Some (t, r) \<Longrightarrow> length r < length s" for a s t r
  proof (induction s arbitrary: a)
    case Nil
    then show ?case by simp
  next
    case (Cons u us)
    show ?case
    proof (cases "a \<noteq> [] \<and> u = rbr")
      case True
      with Cons.prems show ?thesis by simp
    next
      case False
      with Cons.prems have "scan_title (u # a) us = Some (t, r)"
        by (simp split: if_splits)
      then have "length r < length us"
        by (rule Cons.IH)
      then show ?thesis by simp
    qed
  qed
  from m x have "scan_title [] cs = Some (ttl, rest)"
    by (auto simp: match_marker_def split: if_splits)
  then have "length rest < length cs"
    by (rule scan)
  then show "(([], rest), (acc, c # cs)) \<in> measure (\<lambda>(acc, s). length s)"
    by simp
qed simp_all

declare split_sections.simps [simp del]

text \<open>
  Lines 40-50: the split, \<open>filter(Boolean)\<close> (which drops the empty
  strings), and the loop that pairs a title with the trimmed text behind it.
\<close>

fun pair_sections :: "jsstring list \<Rightarrow> advice_section list" where
  "pair_sections (t # b # rest) = \<lparr>title = t, content = js_trim b\<rparr> # pair_sections rest"
| "pair_sections rest = []"

definition formattedSections :: "jsstring \<Rightarrow> advice_section list" where
  "formattedSections advice =
     (let sections = filter (\<lambda>s. s \<noteq> []) (split_sections [] advice)
      in pair_sections sections)"

text \<open>
  Lines 74-93: the display order. The keys of \<open>orderMap\<close> in the order of the
  object literal, which is the order in which \<open>for ... in\<close> visits them:
  \<^item> U+3042 U+306A U+305F U+3078 U+306E U+7279 U+5225 (a special ... for you), 1;
  \<^item> U+8CC7 U+91D1 U+76EE U+6A19 (funding goal), 2;
  \<^item> U+6708 U+53CE U+306B U+5FDC U+3058 U+305F (according to the monthly income), 3;
  \<^item> U+5B50 U+80B2 U+3066 U+4E16 U+5E2F U+5411 U+3051 (for households raising children), 4;
  \<^item> U+5BB6 U+65CF U+69CB U+6210 (family structure), 4;
  \<^item> U+5358 U+8EAB U+8005 U+5411 U+3051 (for single people), 4;
  \<^item> U+8CAF U+84C4 U+304C U+5C11 U+306A U+304F U+3066 U+3082 (even with little savings), 5;
  \<^item> U+30B5 U+30E9 U+30EA U+30FC U+30DE U+30F3 (salaried employee), 6;
  \<^item> U+5177 U+4F53 U+7684 U+306A U+884C U+52D5 (concrete action), 7.
  A title that contains none of them has the order 99.
\<close>

definition key_message :: jsstring where
  "key_message = [12354, 12394, 12383, 12408, 12398, 29305, 21029]"

definition key_goal :: jsstring where
  "key_goal = [36039, 37329, 30446, 27161]"

definition key_income :: jsstring where
  "key_income = [26376, 21454, 12395, 24540, 12376, 12383]"

definition key_family_children :: jsstring where
  "key_family_children = [23376, 32946, 12390, 19990, 24111, 21521, 12369]"

definition key_family :: jsstring where
  "key_family = [23478, 26063, 27083, 25104]"

definition key_single :: jsstring where
  "key_single = [21336, 36523, 32773, 21521, 12369]"

definition key_lowSavings :: jsstring where
  "key_lowSavings = [36015, 33988, 12364, 23569, 12394, 12367, 12390, 12418]"

definition key_career :: jsstring where
  "key_career = [12469, 12521, 12522, 12540, 12510, 12531]"

definition key_steps :: jsstring where
  "key_steps = [20855, 20307, 30340, 12394, 34892, 21205]"

definition orderMap :: "(jsstring \<times> int) list" where
  "orderMap =
     [(key_message, 1),
      (key_goal, 2),
      (key_income, 3),
      (key_family_children, 4),
      (key_family, 4),
      (key_single, 4),
      (key_lowSavings, 5),
      (key_career, 6),
      (key_steps, 7)]"

fun lookup_order :: "(jsstring \<times> int) list \<Rightarrow> jsstring \<Rightarrow> int" where
  "lookup_order [] ttl = 99"
| "lookup_order ((key, v) # rest) ttl = (if str_includes ttl key then v else lookup_order rest ttl)"

definition getDisplayOrder :: "jsstring \<Rightarrow> int" where
  "getDisplayOrder ttl = lookup_order orderMap ttl"

text \<open>
  Lines 96-98: \<open>[...formattedSections].sort((a, b) => getDisplayOrder(a.title) -
  getDisplayOrder(b.title))\<close>. \<open>Array.prototype.sort\<close> is stable; so is the
  insertion sort \<open>sort_key\<close>.
\<close>

definition sortedSections :: "jsstring \<Rightarrow> advice_section list" where
  "sortedSections advice = sort_key (\<lambda>s. getDisplayOrder (title s)) (formattedSections advice)"

section \<open>The notions of the specification\<close>

text \<open>A string occurs in a text: some text before it, some text behind it.\<close>

definition is_substring :: "jsstring \<Rightarrow> jsstring \<Rightarrow> bool" where
  "is_substring m s \<longleftrightarrow> (\<exists>pre post. s = pre @ m @ post)"

definition child_markers :: "jsstring list" where
  "child_markers = [marker_ko, marker_kodomo_kana, marker_kodomo]"

definition spouse_markers :: "jsstring list" where
  "spouse_markers = [marker_tsuma, marker_otto, marker_haigusha]"

text \<open>
  The children fact of the specification: the flag, or a marker occurring in the text
  with the case of its letters ignored (the markers themselves have no case).
\<close>

definition spec_hasChildren ::
    "(jsstring \<Rightarrow> jsstring) \<Rightarrow> form_values \<Rightarrow> bool" where
  "spec_hasChildren toLowerCase form \<longleftrightarrow>
     form_hasChildren form \<or>
     (\<exists>m \<in> set child_markers. is_substring m (toLowerCase (form_familyStructure form)))"

text \<open>
  The first maximal run of digits of a text: no digit before it, digits only, and no
  digit right behind it. Its value as a decimal numeral.
\<close>

definition first_digit_run :: "jsstring \<Rightarrow> jsstring \<Rightarrow> bool" where
  "first_digit_run s run \<longleftrightarrow>
     (\<exists>pre post. s = pre @ run @ post \<and> (\<forall>c \<in> set pre. \<not> is_digit c) \<and>
        run \<noteq> [] \<and> (\<forall>c \<in> set run. is_digit c) \<and> (post = [] \<or> \<not> is_digit (hd post)))"

definition decimal_value :: "jsstring \<Rightarrow> nat" where
  "decimal_value run = (\<Sum>i < length run. (run ! i - 48) * 10 ^ (length run - 1 - i))"

text \<open>
  Lowercasing leaves the digits and the spouse markers of a text alone: it has the same
  first run of digits, and the same markers occur in it. (No case mapping of Unicode
  has an ASCII digit or one of these ideographs on either side.)
\<close>

definition case_neutral ::
    "(jsstring \<Rightarrow> jsstring) \<Rightarrow> jsstring \<Rightarrow> bool" where
  "case_neutral toLowerCase s \<longleftrightarrow>
     (\<forall>run. first_digit_run (toLowerCase s) run = first_digit_run s run) \<and>
     (\<forall>m \<in> set spouse_markers. is_substring m (toLowerCase s) = is_substring m s)"

text \<open>
  The blocks the composer emits, in the order of construction: funding goal, age bracket
  (if the age is given), income, family situation (one of three), little savings (if the
  savings are below three months of cost), career risk, encouragement, action steps. The
  content of a block is its text behind the title line; the line breaks between blocks
  do not belong to it.
\<close>

definition age_block :: "form_values \<Rightarrow> advice_section list" where
  "age_block form =
     (let userAge = form_age form
      in if userAge = 0 then []
         else if userAge < 30 then [\<lparr>title = title_age20, content = body_age20\<rparr>]
         else if userAge < 40 then [\<lparr>title = title_age30, content = body_age30\<rparr>]
         else if userAge < 50 then [\<lparr>title = title_age40, content = body_age40\<rparr>]
         else if userAge < 60 then [\<lparr>title = title_age50, content = body_age50\<rparr>]
         else [\<lparr>title = title_age60, content = body_age60\<rparr>])"

definition income_block :: "level \<Rightarrow> advice_section" where
  "income_block incomeLevel =
     \<lparr>title = title_income,
      content = (case incomeLevel of Low \<Rightarrow> body_income_low | Medium \<Rightarrow> body_income_medium
                 | High \<Rightarrow> body_income_high)\<rparr>"

definition family_block :: "bool \<Rightarrow> int \<Rightarrow> advice_section" where
  "family_block hasChildren familyCount =
     (if hasChildren then \<lparr>title = title_family_children, content = body_family_children\<rparr>
      else if familyCount > 1 then \<lparr>title = title_family, content = body_family\<rparr>
      else \<lparr>title = title_single, content = body_single\<rparr>)"

definition lowSavings_block ::
    "int \<Rightarrow> int \<Rightarrow> bool \<Rightarrow> level \<Rightarrow>
     advice_section list" where
  "lowSavings_block savings threeMonthsCost hasChildren incomeLevel =
     (if savings < threeMonthsCost then
        [\<lparr>title = title_lowSavings,
          content = lowSavings_text incomeLevel @
            (if hasChildren then [10] @ lowSavings_children else [])\<rparr>]
      else [])"

definition career_block :: "bool \<Rightarrow> advice_section" where
  "career_block hasChildren =
     \<lparr>title = title_career,
      content = body_career @ (if hasChildren then [10] @ career_children else [])\<rparr>"

definition message_block :: "risk_profile \<Rightarrow> bool \<Rightarrow> advice_section" where
  "message_block riskProfile hasChildren =
     \<lparr>title = title_message,
      content = (if riskProfile = RiskHighest then body_message_highest
                 else if riskProfile = RiskHigh then body_message_high
                 else if hasChildren then body_message_children
                 else body_message_other)\<rparr>"

definition goal_block ::
    "(rat \<Rightarrow> jsstring) \<Rightarrow> int \<Rightarrow> int \<Rightarrow> int \<Rightarrow>
     int \<Rightarrow> advice_section" where
  "goal_block toLocaleString monthlyIncome savings threeMonthsCost sixMonthsCost =
     \<lparr>title = title_goal,
      content = goal_text toLocaleString monthlyIncome savings threeMonthsCost sixMonthsCost\<rparr>"

definition steps_block ::
    "form_values \<Rightarrow> bool \<Rightarrow> level \<Rightarrow> advice_section" where
  "steps_block form hasChildren incomeLevel =
     \<lparr>title = title_steps,
      content = js_join [10] (numbered (allSteps form hasChildren incomeLevel))\<rparr>"

definition emitted_blocks ::
    "(jsstring \<Rightarrow> jsstring) \<Rightarrow> (rat \<Rightarrow> jsstring) \<Rightarrow> form_values \<Rightarrow> int \<Rightarrow> int \<Rightarrow>
      advice_section list" where
  "emitted_blocks toLowerCase toLocaleString form monthlyIncome familyCount =
     (let sixMonthsCost = monthlyIncome * familyCount * 6;
          threeMonthsCost = monthlyIncome * familyCount * 3;
          savings = form_savings form;
          hasChildren = advice_hasChildren toLowerCase form;
          incomeLevel = getIncomeLevel monthlyIncome;
          riskProfile = getRiskProfile hasChildren (getSavingsLevel savings threeMonthsCost)
                          incomeLevel
      in [goal_block toLocaleString monthlyIncome savings threeMonthsCost sixMonthsCost] @
         age_block form @
         [income_block incomeLevel, family_block hasChildren familyCount] @
         lowSavings_block savings threeMonthsCost hasChildren incomeLevel @
         [career_block hasChildren, message_block riskProfile hasChildren,
          steps_block form hasChildren incomeLevel])"

text \<open>
  The same blocks, each with the white space that the template and the literals put
  between it and the next title (or the end of the text): the line feeds of the template,
  the line feed in front of the next literal, and the line feed that the little savings
  and the career literals end with when there is no addendum for parents.
\<close>

definition document_layout ::
    "(jsstring \<Rightarrow> jsstring) \<Rightarrow> (rat \<Rightarrow> jsstring) \<Rightarrow> form_values \<Rightarrow> int \<Rightarrow> int \<Rightarrow>
      (advice_section \<times> jsstring) list" where
  "document_layout toLowerCase toLocaleString form monthlyIncome familyCount =
     (let sixMonthsCost = monthlyIncome * familyCount * 6;
          threeMonthsCost = monthlyIncome * familyCount * 3;
          savings = form_savings form;
          hasChildren = advice_hasChildren toLowerCase form;
          incomeLevel = getIncomeLevel monthlyIncome;
          riskProfile = getRiskProfile hasChildren (getSavingsLevel savings threeMonthsCost)
                          incomeLevel;
          lowSavings = lowSavings_block savings threeMonthsCost hasChildren incomeLevel;
          gap = (if hasChildren then [] else [10])
      in [(goal_block toLocaleString monthlyIncome savings threeMonthsCost sixMonthsCost,
           [10, 10] @ (if age_block form = [] then [10, 10, 10] else [10]))] @
         map (\<lambda>b. (b, [10, 10, 10])) (age_block form) @
         [(income_block incomeLevel, [10, 10, 10]),
          (family_block hasChildren familyCount,
           [10] @ (if lowSavings = [] then [10, 10] else [10]))] @
         map (\<lambda>b. (b, gap @ [10, 10])) lowSavings @
         [(career_block hasChildren, gap @ [10, 10]),
          (message_block riskProfile hasChildren, [10, 10]),
          (steps_block form hasChildren incomeLevel, [10, 32, 32, 32, 32])])"

text \<open>
  The renderings of numbers never contain the opening bracket U+3010 of a title line.
\<close>

definition bracket_free :: "(rat \<Rightarrow> jsstring) \<Rightarrow> bool" where
  "bracket_free toLocaleString \<longleftrightarrow> (\<forall>q. lbr \<notin> set (toLocaleString q))"

section \<open>Example profiles\<close>

text \<open>
  A single person, U+72EC U+8EAB, without savings (the first example of the
  specification).
\<close>

definition profile_single :: form_values where
  "profile_single =
     \<lparr>form_familyStructure = [29420, 36523], form_familyCount = 1, form_hasChildren = False,
      form_age = 0, form_savings = 0, form_monthlyIncome = 300000\<rparr>"

text \<open>
  A wife and one child, U+59BB U+3068 U+5B50 "1" U+4EBA, the flag not set (the second
  example of the specification).
\<close>

definition profile_family :: form_values where
  "profile_family =
     \<lparr>form_familyStructure = [22971, 12392, 23376, 49, 20154], form_familyCount = 3,
      form_hasChildren = False, form_age = 32, form_savings = 1000000,
      form_monthlyIncome = 300000\<rparr>"

text \<open>Three children, U+5B50 "3" U+4EBA, at the age of 60, low income and no savings.\<close>

definition profile_lowest :: form_values where
  "profile_lowest =
     \<lparr>form_familyStructure = [23376, 51, 20154], form_familyCount = 4, form_hasChildren = True,
      form_age = 60, form_savings = 0, form_monthlyIncome = 100000\<rparr>"

text \<open>
  A child count of 23 digits, U+5B50 "99999999999999999999999" U+4EBA, and one of 310
  digits.
\<close>

definition profile_nines23 :: form_values where
  "profile_nines23 =
     \<lparr>form_familyStructure = [23376] @ replicate 23 57 @ [20154],
      form_familyCount = 2, form_hasChildren = False, form_age = 40, form_savings = 0,
      form_monthlyIncome = 300000\<rparr>"

definition profile_nines310 :: form_values where
  "profile_nines310 =
     \<lparr>form_familyStructure = [23376] @ replicate 310 57 @ [20154],
      form_familyCount = 2, form_hasChildren = False, form_age = 40, form_savings = 0,
      form_monthlyIncome = 300000\<rparr>"

text \<open>A single person of 25 with a high income and six months of cost saved.\<close>

definition profile_highest :: form_values where
  "profile_highest =
     \<lparr>form_familyStructure = [29420, 36523], form_familyCount = 1, form_hasChildren = False,
      form_age = 25, form_savings = 3000000, form_monthlyIncome = 500000\<rparr>"

section \<open>The format of the document\<close>

text \<open>
  A title that the pattern captures whole: not empty, without line terminator and without
  U+3011. A text without U+3010 (\<open>plain\<close>), and one that moreover is not empty and
  neither starts nor ends with white space (\<open>solid\<close>).
\<close>

definition good_title :: "jsstring \<Rightarrow> bool" where
  "good_title ttl \<longleftrightarrow> ttl \<noteq> [] \<and> (\<forall>c \<in> set ttl. \<not> line_terminator c \<and> c \<noteq> rbr)"

definition plain :: "jsstring \<Rightarrow> bool" where
  "plain s \<longleftrightarrow> lbr \<notin> set s"

definition solid :: "jsstring \<Rightarrow> bool" where
  "solid s \<longleftrightarrow> s \<noteq> [] \<and> \<not> js_whitespace (hd s) \<and> \<not> js_whitespace (last s) \<and> plain s"

definition good_block :: "advice_section \<Rightarrow> bool" where
  "good_block b \<longleftrightarrow> good_title (title b) \<and> solid (content b)"

definition blank :: "jsstring \<Rightarrow> bool" where
  "blank s \<longleftrightarrow> (\<forall>c \<in> set s. js_whitespace c)"

text \<open>
  The text of a sequence of blocks, each followed by a separator: U+3010, title, U+3011,
  line feed, content, separator. \<open>marked\<close> is the same for a title and the whole text
  up to the next title.
\<close>

fun marked :: "(jsstring \<times> jsstring) list \<Rightarrow> jsstring" where
  "marked [] = []"
| "marked ((ttl, txt) # rest) = lbr # ttl @ rbr # txt @ marked rest"

fun flat :: "(jsstring \<times> jsstring) list \<Rightarrow> jsstring list" where
  "flat [] = []"
| "flat ((ttl, txt) # rest) = ttl # txt # flat rest"

definition layout :: "(advice_section \<times> jsstring) list \<Rightarrow> jsstring" where
  "layout xs = marked (map (\<lambda>(b, sep). (title b, 10 # content b @ sep)) xs)"

text \<open>The titles of the age bracket sections.\<close>

definition age_titles :: "jsstring list" where
  "age_titles = [title_age20, title_age30, title_age40, title_age50, title_age60]"

section \<open>Properties of the risk score\<close>

subsection \<open>Evaluation\<close>

lemma js_round_of_int: "js_round (of_int n) = n"
  by (simp add: js_round_def) linarith

lemma js_round_frac:
  assumes "0 < b"
  shows "js_round (of_int a / of_int b) = (2 * a + b) div (2 * b)"
proof -
  have "(of_int a / of_int b + 1 / 2 :: rat) = of_int (2 * a + b) / of_int (2 * b)"
    using assms by (simp add: field_simps)
  then show ?thesis
    unfolding js_round_def by (simp only: floor_divide_of_int_eq)
qed

lemma score_scaled0_eval:
  assumes "0 < monthlyIncome * familyCount"
  shows "score_scaled0 savings monthlyIncome familyCount =
    max 40 (min ((200 * savings + 3 * (monthlyIncome * familyCount)) div
                   (6 * (monthlyIncome * familyCount))) 100)"
proof -
  have "score_baseScore savings monthlyIncome familyCount * 100 / 3 =
      of_int (100 * savings) / of_int (3 * (monthlyIncome * familyCount))"
    by (simp add: score_baseScore_def)
  moreover have "js_round (of_int (100 * savings) / of_int (3 * (monthlyIncome * familyCount))) =
      (2 * (100 * savings) + 3 * (monthlyIncome * familyCount)) div
        (2 * (3 * (monthlyIncome * familyCount)))"
    using assms by (intro js_round_frac) simp
  ultimately show ?thesis
    unfolding score_scaled0_def by (simp only:) simp
qed

lemma score_savingsBonus_eval:
  "score_savingsBonus savings monthlyIncome familyCount =
     (if savings \<ge> monthlyIncome * familyCount * 6 then 10
      else if savings \<ge> monthlyIncome * familyCount * 3 then 7
      else if 2 * savings \<ge> monthlyIncome * familyCount * 3 then 5
      else 2)"
proof -
  have half: "((of_int savings :: rat) \<ge> of_int (monthlyIncome * familyCount * 6) / 2)
      = (savings \<ge> monthlyIncome * familyCount * 3)"
  proof -
    have "(of_int (monthlyIncome * familyCount * 6) / 2 :: rat) =
        of_int (monthlyIncome * familyCount * 3)"
      by simp
    then show ?thesis by (simp only: of_int_le_iff)
  qed
  have quarter: "((of_int savings :: rat) \<ge> of_int (monthlyIncome * familyCount * 6) / 4)
      = (2 * savings \<ge> monthlyIncome * familyCount * 3)"
  proof -
    have "((of_int savings :: rat) \<ge> of_int (monthlyIncome * familyCount * 6) / 4)
      = ((of_int (2 * savings) :: rat) \<ge> of_int (monthlyIncome * familyCount * 3))"
      by (simp add: field_simps)
    then show ?thesis by (simp only: of_int_le_iff)
  qed
  show ?thesis
    unfolding score_savingsBonus_def Let_def half quarter by simp
qed

lemma round_to_double_small: "n < 2 ^ 53 \<Longrightarrow> round_to_double n = Finite (int n)"
  by (simp add: round_to_double_def)

lemma match_digits_Nil: "match_digits [] = []"
  by (simp add: match_digits.simps)

lemma match_digits_Cons:
  "match_digits (c # cs) =
     (if is_digit c then (c # takeWhile is_digit cs) # match_digits (dropWhile is_digit cs)
      else match_digits cs)"
  by (subst match_digits.simps, subst (2) match_digits.simps) simp

lemmas score_eval =
  score_sum_def score_hasChildren_def toLowerCase_latin_def latin_lower_def Let_def
  marker_ko_def marker_kodomo_kana_def marker_kodomo_def marker_tsuma_def marker_otto_def
  marker_haigusha_def score_scaled_def score_scaled0_eval
  score_userAge_def score_ageBonus_def score_familyAdjustment_def
  score_incomeBonus_def score_savingsBonus_eval score_childrenCount_def calculateRiskScore_def
  js_round_of_int match_digits_Nil match_digits_Cons is_digit_def parseInt10_def digits_value_def
  round_to_double_small js_min3_def valid_input_def

subsection \<open>Bounds\<close>

text \<open>The number of bits of a positive number.\<close>

lemma bit_length_bounds:
  "0 < n \<Longrightarrow> 2 ^ (bit_length n - 1) \<le> n \<and> n < 2 ^ bit_length n"
proof (induction n rule: bit_length.induct)
  case (1 n)
  from "1.prems" have len: "bit_length n = 1 + bit_length (n div 2)"
    by (subst bit_length.simps) simp
  show ?case
  proof (cases "n div 2 = 0")
    case True
    with "1.prems" have "n = 1"
      by (simp add: div_eq_0_iff)
    moreover have "bit_length 0 = 0"
      by (subst bit_length.simps) simp
    ultimately show ?thesis
      using len by simp
  next
    case False
    with "1.prems" "1.IH" have low: "2 ^ (bit_length (n div 2) - 1) \<le> n div 2"
      and high: "n div 2 < 2 ^ bit_length (n div 2)"
      by simp_all
    have pos: "0 < bit_length (n div 2)"
    proof (rule ccontr)
      assume "\<not> 0 < bit_length (n div 2)"
      with high False show False by simp
    qed
    then have "(2::nat) ^ bit_length (n div 2) = 2 * 2 ^ (bit_length (n div 2) - 1)"
      by (cases "bit_length (n div 2)") simp_all
    with low have "2 ^ bit_length (n div 2) \<le> 2 * (n div 2)"
      by simp
    then have "2 ^ (bit_length n - 1) \<le> n"
      unfolding len by simp
    moreover from high have "n < 2 * 2 ^ bit_length (n div 2)"
      by linarith
    then have "n < 2 ^ bit_length n"
      unfolding len by simp
    ultimately show ?thesis
      by simp
  qed
qed

lemma bit_length_eqI:
  assumes "2 ^ (k - 1) \<le> n" and "n < 2 ^ k" and "0 < k"
  shows "bit_length n = k"
proof -
  have n: "0 < n"
    using assms(1) by (cases "n = 0") simp_all
  note b = bit_length_bounds [OF n]
  have "(2::nat) ^ (k - 1) < 2 ^ bit_length n"
    using assms(1) b by linarith
  then have "k - 1 < bit_length n"
    by simp
  moreover have "(2::nat) ^ (bit_length n - 1) < 2 ^ k"
    using assms(2) b by linarith
  then have "bit_length n - 1 < k"
    by simp
  ultimately show ?thesis
    using assms(3) by linarith
qed

text \<open>
  Beyond \<open>2^53\<close> the rounded value is a multiple \<open>m * ulp\<close> of the unit in the last
  place with at least 53 bits in \<open>m\<close>, at most half a unit away from the number.
\<close>

lemma round_to_double_large:
  assumes "2 ^ 53 \<le> n"
  obtains m where "2 ^ (bit_length n - 1) \<le> m * 2 ^ (bit_length n - 53)"
    and "2 * n \<le> 2 * (m * 2 ^ (bit_length n - 53)) + 2 ^ (bit_length n - 53)"
    and "2 * (m * 2 ^ (bit_length n - 53)) \<le> 2 * n + 2 ^ (bit_length n - 53)"
    and "round_to_double n =
      (if m * 2 ^ (bit_length n - 53) < 2 ^ 1024 then Finite (int (m * 2 ^ (bit_length n - 53)))
       else PosInfinity)"
proof -
  define ulp :: nat where "ulp = 2 ^ (bit_length n - 53)"
  define q where "q = n div ulp"
  define r where "r = n mod ulp"
  define m where "m = (if 2 * r < ulp then q else if ulp < 2 * r then q + 1
    else if even q then q else q + 1)"
  have n: "0 < n"
    using assms by (cases "n = 0") simp_all
  note b = bit_length_bounds [OF n]
  have "(2::nat) ^ 53 < 2 ^ bit_length n"
    using assms b by linarith
  then have len: "53 < bit_length n"
    by (rule power_less_imp_less_exp [rotated]) simp
  then have "bit_length n - 1 = 52 + (bit_length n - 53)"
    by simp
  then have top: "(2::nat) ^ (bit_length n - 1) = 2 ^ 52 * ulp"
    by (simp only: ulp_def power_add)
  have ulp: "0 < ulp"
    by (simp add: ulp_def)
  have split: "n = q * ulp + r"
    by (simp add: q_def r_def)
  have r: "r < ulp"
    using ulp by (simp add: r_def)
  have "2 ^ 52 * ulp \<le> n"
    using b top by simp
  then have "(2 ^ 52 * ulp) div ulp \<le> n div ulp"
    by (rule div_le_mono)
  then have q: "2 ^ 52 \<le> q"
    using ulp by (simp add: q_def)
  have m: "q \<le> m"
    by (simp add: m_def)
  have "2 ^ 52 * ulp \<le> m * ulp"
    using q m by (intro mult_le_mono1) simp
  then have low: "2 ^ (bit_length n - 1) \<le> m * ulp"
    by (simp only: top)
  have cases: "(m = q \<and> 2 * r \<le> ulp) \<or> (m = q + 1 \<and> ulp \<le> 2 * r)"
    by (auto simp: m_def)
  have near1: "2 * n \<le> 2 * (m * ulp) + ulp"
    using cases r by (auto simp: split algebra_simps)
  have near2: "2 * (m * ulp) \<le> 2 * n + ulp"
    using cases r by (auto simp: split algebra_simps)
  have "round_to_double n =
      (if m * ulp < 2 ^ 1024 then Finite (int (m * ulp)) else PosInfinity)"
    using assms by (simp add: round_to_double_def Let_def m_def q_def r_def ulp_def)
  with low near1 near2 show ?thesis
    unfolding ulp_def by (rule that)
qed

lemma round_to_double_infinite:
  assumes "2 ^ 1024 \<le> n"
  shows "round_to_double n = PosInfinity"
proof -
  have big: "(2::nat) ^ 53 \<le> 2 ^ 1024"
    by (intro power_increasing) simp_all
  with assms have large: "2 ^ 53 \<le> n"
    by linarith
  then have n: "0 < n"
    by (cases "n = 0") simp_all
  from large obtain m where low: "2 ^ (bit_length n - 1) \<le> m * 2 ^ (bit_length n - 53)"
    and eq: "round_to_double n =
      (if m * 2 ^ (bit_length n - 53) < 2 ^ 1024 then Finite (int (m * 2 ^ (bit_length n - 53)))
       else PosInfinity)"
    by (rule round_to_double_large)
  have "(2::nat) ^ 1024 < 2 ^ bit_length n"
    using assms bit_length_bounds [OF n] by linarith
  then have "1024 < bit_length n"
    by (rule power_less_imp_less_exp [rotated]) simp
  then have "1024 \<le> bit_length n - 1"
    by simp
  then have "(2::nat) ^ 1024 \<le> 2 ^ (bit_length n - 1)"
    by (intro power_increasing) simp_all
  with low have "\<not> m * 2 ^ (bit_length n - 53) < 2 ^ 1024"
    by linarith
  with eq show ?thesis
    by (simp only: if_False)
qed

text \<open>Capping at three forgets the rounding.\<close>

lemma js_min3_round_to_double: "js_min3 (round_to_double n) = min 3 (int n)"
proof (cases "n < 2 ^ 53")
  case True
  then show ?thesis
    by (simp add: round_to_double_small js_min3_def)
next
  case False
  then have large: "2 ^ 53 \<le> n"
    by simp
  then obtain m where low: "2 ^ (bit_length n - 1) \<le> m * 2 ^ (bit_length n - 53)"
    and eq: "round_to_double n =
      (if m * 2 ^ (bit_length n - 53) < 2 ^ 1024 then Finite (int (m * 2 ^ (bit_length n - 53)))
       else PosInfinity)"
    by (rule round_to_double_large)
  have "(3::nat) \<le> 2 ^ 53"
    by simp
  with large have three: "3 \<le> n"
    by linarith
  then have n: "0 < n"
    by simp
  have "(2::nat) ^ 53 < 2 ^ bit_length n"
    using large bit_length_bounds [OF n] by linarith
  then have "53 < bit_length n"
    by (rule power_less_imp_less_exp [rotated]) simp
  then have "2 \<le> bit_length n - 1"
    by simp
  then have "(2::nat) ^ 2 \<le> 2 ^ (bit_length n - 1)"
    by (intro power_increasing) simp_all
  with low have "3 \<le> m * 2 ^ (bit_length n - 53)"
    by simp
  then have "(3::int) \<le> int (m * 2 ^ (bit_length n - 53))"
    by (simp only: of_nat_le_iff [symmetric, where ?'a = int] of_nat_numeral)
  then have "min 3 (int (m * 2 ^ (bit_length n - 53))) = 3"
    by (rule min_absorb1)
  then have "js_min3 (round_to_double n) = 3"
    unfolding eq by (simp only: js_min3_def jsnumber.case split: if_split) simp
  with three show ?thesis
    by simp
qed

lemma js_min3_parseInt10: "0 \<le> js_min3 (parseInt10 s) \<and> js_min3 (parseInt10 s) \<le> 3"
  by (simp add: parseInt10_def js_min3_round_to_double)

lemma score_childrenCount_min3:
  "0 \<le> js_min3 (score_childrenCount lc form familyCount) \<and>
   js_min3 (score_childrenCount lc form familyCount) \<le> 3"
proof -
  have "0 \<le> js_min3 (Finite k) \<and> js_min3 (Finite k) \<le> 3" if "0 \<le> k" for k
    using that by (simp add: js_min3_def)
  then show ?thesis
    using js_min3_parseInt10
    by (auto simp: score_childrenCount_def Let_def split: list.splits)
qed

lemma score_scaled0_range: "40 \<le> score_scaled0 s m f \<and> score_scaled0 s m f \<le> 100"
  by (simp add: score_scaled0_def)

lemma score_ageBonus_range: "3 \<le> score_ageBonus a \<and> score_ageBonus a \<le> 15"
  by (simp add: score_ageBonus_def)

lemma score_incomeBonus_range: "3 \<le> score_incomeBonus m \<and> score_incomeBonus m \<le> 10"
  by (simp add: score_incomeBonus_def)

lemma score_savingsBonus_range:
  "2 \<le> score_savingsBonus s m f \<and> score_savingsBonus s m f \<le> 10"
  by (simp add: score_savingsBonus_def Let_def)

text \<open>
  With children the adjustment enters twice, inside the re-floored scaled score and as a
  summand: together they lie between \<open>65 - 10 * Math.min(3, childrenCount)\<close> and 100.
\<close>

lemma scaled_plus_adjustment_children:
  assumes "0 \<le> js_min3 cc \<and> js_min3 cc \<le> 3" "40 \<le> sc" "sc \<le> 100"
  shows "35 \<le> score_scaled True cc f sc + score_familyAdjustment True cc f"
    and "score_scaled True cc f sc + score_familyAdjustment True cc f \<le> 100"
  using assms
  by (auto simp: score_scaled_def score_familyAdjustment_def Let_def min_def max_def)

lemma score_sum_children:
  assumes "score_hasChildren lc form"
  shows "43 \<le> score_sum lc form s m f \<and> score_sum lc form s m f \<le> 135"
proof -
  let ?cc = "score_childrenCount lc form f"
  let ?x = "score_scaled True ?cc f (score_scaled0 s m f) + score_familyAdjustment True ?cc f"
  have x: "35 \<le> ?x" "?x \<le> 100"
    using scaled_plus_adjustment_children [OF score_childrenCount_min3, of "score_scaled0 s m f"]
      score_scaled0_range [of s m f] by blast+
  have eq: "score_sum lc form s m f =
      ?x + score_ageBonus (score_userAge form) + score_incomeBonus m + score_savingsBonus s m f"
    using assms by (simp add: score_sum_def Let_def)
  show ?thesis
    unfolding eq
    using x score_ageBonus_range [of "score_userAge form"] score_incomeBonus_range [of m]
      score_savingsBonus_range [of s m f]
    by linarith
qed

lemma score_sum_no_children:
  assumes "\<not> score_hasChildren lc form"
  shows "53 \<le> score_sum lc form s m f \<and> score_sum lc form s m f \<le> 145"
proof -
  have fa: "5 \<le> score_familyAdjustment False cc f \<and> score_familyAdjustment False cc f \<le> 10"
    for cc
    by (simp add: score_familyAdjustment_def)
  have eq: "score_sum lc form s m f =
      score_scaled0 s m f + score_ageBonus (score_userAge form)
      + score_familyAdjustment False (score_childrenCount lc form f) f
      + score_incomeBonus m + score_savingsBonus s m f"
    using assms by (simp add: score_sum_def Let_def score_scaled_def)
  show ?thesis
    unfolding eq
    using fa [of "score_childrenCount lc form f"] score_scaled0_range [of s m f]
      score_ageBonus_range [of "score_userAge form"] score_incomeBonus_range [of m]
      score_savingsBonus_range [of s m f]
    by linarith
qed

lemma calculateRiskScore_eq:
  "calculateRiskScore lc form s m f =
     (if score_hasChildren lc form then min 100 (score_sum lc form s m f)
      else min 100 (max 80 (score_sum lc form s m f)))"
  by (simp add: calculateRiskScore_def Let_def js_round_of_int)

lemma calculateRiskScore_range:
  "43 \<le> calculateRiskScore lc form s m f \<and> calculateRiskScore lc form s m f \<le> 100"
  using score_sum_children [of lc form s m f]
  by (auto simp: calculateRiskScore_eq)

text \<open>
  Claim C1. For every input that satisfies the input contract (a family of at least one,
  a monthly income of at least 1, savings of at least 0, an age of 0 or between 18 and
  100) the score returned by \<open>calculateRiskScore\<close> lies between 40 and 100, and it is at
  least 80 whenever the derived children fact is false.
\<close>

theorem C1_score_range:
  assumes "valid_input form savings monthlyIncome familyCount"
  shows "40 \<le> calculateRiskScore toLowerCase form savings monthlyIncome familyCount \<and>
    calculateRiskScore toLowerCase form savings monthlyIncome familyCount \<le> 100 \<and>
    (\<not> score_hasChildren toLowerCase form \<longrightarrow>
       80 \<le> calculateRiskScore toLowerCase form savings monthlyIncome familyCount)"
proof -
  have "43 \<le> calculateRiskScore toLowerCase form savings monthlyIncome familyCount"
    and "calculateRiskScore toLowerCase form savings monthlyIncome familyCount \<le> 100"
    using calculateRiskScore_range [of toLowerCase form savings monthlyIncome familyCount]
    by blast+
  moreover have "80 \<le> calculateRiskScore toLowerCase form savings monthlyIncome familyCount"
    if "\<not> score_hasChildren toLowerCase form"
    using that by (simp add: calculateRiskScore_eq)
  ultimately show ?thesis by simp
qed

theorem C1_score_range_witness:
  "valid_input profile_single 0 300000 1 \<and>
   \<not> score_hasChildren toLowerCase_latin profile_single \<and>
   calculateRiskScore toLowerCase_latin profile_single 0 300000 1 = 80 \<and>
   40 \<le> calculateRiskScore toLowerCase_latin profile_single 0 300000 1 \<and>
   calculateRiskScore toLowerCase_latin profile_single 0 300000 1 \<le> 100"
proof -
  have v: "valid_input profile_single 0 300000 1"
    by (simp add: valid_input_def profile_single_def)
  have n: "\<not> score_hasChildren toLowerCase_latin profile_single"
    by (simp add: score_eval profile_single_def)
  have e: "calculateRiskScore toLowerCase_latin profile_single 0 300000 1 = 80"
    by (simp add: score_eval profile_single_def)
  from C1_score_range [OF v, of toLowerCase_latin] v n e show ?thesis
    by simp
qed

text \<open>
  Claim C2. For the profile with a family of three, the age 32, savings of 1000000, a
  monthly income of 300000, the family text U+59BB U+3068 U+5B50 "1" U+4EBA and the flag
  not set, the children fact is derived true with one child, the score is exactly 74 and
  the status is the label of the best timing. The family adjustment of -5 enters twice:
  in the re-floor of the scaled score (\<open>max 60 (40 - 5) = 60\<close>) and again in the sum
  \<open>60 + 10 + (-5) + 7 + 2\<close>. The text has no cased letter, so lowercasing returns it
  unchanged; this is the hypothesis on \<open>toLowerCase\<close>.
\<close>

theorem C2_example_family:
  assumes "toLowerCase (form_familyStructure profile_family) = form_familyStructure profile_family"
  shows "score_hasChildren toLowerCase profile_family \<and>
    score_childrenCount toLowerCase profile_family 3 = Finite 1 \<and>
    score_scaled0 1000000 300000 3 = 40 \<and>
    score_familyAdjustment True (Finite 1) 3 = - 5 \<and>
    score_scaled True (Finite 1) 3 40 = 60 \<and>
    score_sum toLowerCase profile_family 1000000 300000 3 = 60 + 10 + (- 5) + 7 + 2 \<and>
    calculateRiskScore toLowerCase profile_family 1000000 300000 3 = 74 \<and>
    getRiskStatus (calculateRiskScore toLowerCase profile_family 1000000 300000 3) = status_zekkou"
proof -
  have t: "toLowerCase [22971, 12392, 23376, 49, 20154] = [22971, 12392, 23376, 49, 20154]"
    using assms by (simp add: profile_family_def)
  have h: "score_hasChildren toLowerCase profile_family"
    by (simp add: score_hasChildren_def profile_family_def t marker_ko_def)
  have c: "score_childrenCount toLowerCase profile_family 3 = Finite 1"
    unfolding score_childrenCount_def using h
    by (simp add: profile_family_def t match_digits_Cons match_digits_Nil is_digit_def
        parseInt10_def digits_value_def round_to_double_small)
  have s0: "score_scaled0 1000000 300000 3 = 40"
    by (simp add: score_scaled0_eval)
  have fa: "score_familyAdjustment True (Finite 1) 3 = - 5"
    by (simp add: score_familyAdjustment_def js_min3_def)
  have sc: "score_scaled True (Finite 1) 3 40 = 60"
    by (simp add: score_scaled_def score_familyAdjustment_def js_min3_def)
  have sum: "score_sum toLowerCase profile_family 1000000 300000 3 = 74"
    unfolding score_sum_def Let_def c s0 using h
    by (simp add: sc fa score_userAge_def profile_family_def score_ageBonus_def
        score_incomeBonus_def score_savingsBonus_eval)
  have r: "calculateRiskScore toLowerCase profile_family 1000000 300000 3 = 74"
    using h by (simp add: calculateRiskScore_eq sum)
  show ?thesis
    using h c s0 fa sc sum r by (simp add: getRiskStatus_def)
qed

theorem C2_example_family_witness:
  "toLowerCase_latin (form_familyStructure profile_family) = form_familyStructure profile_family \<and>
   score_hasChildren toLowerCase_latin profile_family \<and>
   score_childrenCount toLowerCase_latin profile_family 3 = Finite 1 \<and>
   calculateRiskScore toLowerCase_latin profile_family 1000000 300000 3 = 74"
proof -
  have t: "toLowerCase_latin (form_familyStructure profile_family) =
      form_familyStructure profile_family"
    by (simp add: toLowerCase_latin_def latin_lower_def profile_family_def)
  from C2_example_family [of toLowerCase_latin, OF t] t show ?thesis
    by simp
qed

text \<open>
  Claim C4, as stated: the sum of the scaled score and the bonuses, before the floor of 80
  and the cap of 100, lies between 40 and 100, and between 80 and 100 when there are no
  children. It does not: for a single person of 25 with a monthly income of 500000 and
  savings of 3000000 the sum is \<open>100 + 15 + 10 + 10 + 10 = 145\<close>, and for the single
  person without savings of the first example it is \<open>40 + 10 + 10 + 7 + 2 = 69\<close>.
\<close>

theorem C4_sum_counterexample:
  "valid_input profile_highest 3000000 500000 1 \<and>
   \<not> score_hasChildren toLowerCase_latin profile_highest \<and>
   score_sum toLowerCase_latin profile_highest 3000000 500000 1 = 145 \<and>
   \<not> score_sum toLowerCase_latin profile_highest 3000000 500000 1 \<le> 100 \<and>
   valid_input profile_single 0 300000 1 \<and>
   \<not> score_hasChildren toLowerCase_latin profile_single \<and>
   score_sum toLowerCase_latin profile_single 0 300000 1 = 69 \<and>
   \<not> 80 \<le> score_sum toLowerCase_latin profile_single 0 300000 1"
proof -
  have a: "score_sum toLowerCase_latin profile_highest 3000000 500000 1 = 145"
    by (simp add: score_eval profile_highest_def)
  have b: "score_sum toLowerCase_latin profile_single 0 300000 1 = 69"
    by (simp add: score_eval profile_single_def)
  have "valid_input profile_highest 3000000 500000 1"
    and "valid_input profile_single 0 300000 1"
    by (simp_all add: valid_input_def profile_highest_def profile_single_def)
  moreover have "\<not> score_hasChildren toLowerCase_latin profile_highest"
    and "\<not> score_hasChildren toLowerCase_latin profile_single"
    by (simp_all add: score_eval profile_highest_def profile_single_def)
  ultimately show ?thesis
    by (simp add: a b)
qed

text \<open>
  Claim C4, amended. Before the floor and the cap the sum lies between 43 and 145, and
  between 53 and 145 when there are no children; it is the floor and the cap that bring
  it into range: after the floor a profile without children has at least 80, and the
  returned score lies between 0 and 100 (between 80 and 100 without children).
\<close>

theorem C4_sum_range:
  assumes "valid_input form savings monthlyIncome familyCount"
  shows "43 \<le> score_sum toLowerCase form savings monthlyIncome familyCount \<and>
    score_sum toLowerCase form savings monthlyIncome familyCount \<le> 145 \<and>
    (\<not> score_hasChildren toLowerCase form \<longrightarrow>
       53 \<le> score_sum toLowerCase form savings monthlyIncome familyCount \<and>
       80 \<le> max 80 (score_sum toLowerCase form savings monthlyIncome familyCount) \<and>
       80 \<le> calculateRiskScore toLowerCase form savings monthlyIncome familyCount) \<and>
    0 \<le> calculateRiskScore toLowerCase form savings monthlyIncome familyCount \<and>
    calculateRiskScore toLowerCase form savings monthlyIncome familyCount \<le> 100"
proof (cases "score_hasChildren toLowerCase form")
  case True
  then show ?thesis
    using score_sum_children [of toLowerCase form savings monthlyIncome familyCount]
    by (simp add: calculateRiskScore_eq)
next
  case False
  then show ?thesis
    using score_sum_no_children [of toLowerCase form savings monthlyIncome familyCount]
    by (simp add: calculateRiskScore_eq)
qed

theorem C4_sum_range_witness:
  "valid_input profile_family 1000000 300000 3 \<and>
   43 \<le> score_sum toLowerCase_latin profile_family 1000000 300000 3 \<and>
   score_sum toLowerCase_latin profile_family 1000000 300000 3 \<le> 145 \<and>
   calculateRiskScore toLowerCase_latin profile_family 1000000 300000 3 \<le> 100"
proof -
  have v: "valid_input profile_family 1000000 300000 3"
    by (simp add: valid_input_def profile_family_def)
  from C4_sum_range [OF v, of toLowerCase_latin] v show ?thesis
    by simp
qed

text \<open>
  Claim C9. For every input with a family of at least one, a monthly income of at least 1
  and savings of at least 0 the score is greater than 40; the least score is 43, reached
  by a profile with three children. So the status is never the label of the considering
  stage: it is the label of readiness or that of the best timing.
\<close>

theorem C9_never_considering:
  assumes "familyCount \<ge> 1" and "monthlyIncome \<ge> 1" and "savings \<ge> 0"
  shows "40 < calculateRiskScore toLowerCase form savings monthlyIncome familyCount \<and>
    43 \<le> calculateRiskScore toLowerCase form savings monthlyIncome familyCount \<and>
    calculateRiskScore toLowerCase_latin profile_lowest 0 100000 4 = 43 \<and>
    getRiskStatus (calculateRiskScore toLowerCase form savings monthlyIncome familyCount)
      \<noteq> status_kentou \<and>
    (getRiskStatus (calculateRiskScore toLowerCase form savings monthlyIncome familyCount)
       = status_junbi_ok \<or>
     getRiskStatus (calculateRiskScore toLowerCase form savings monthlyIncome familyCount)
       = status_zekkou)"
proof -
  have low: "43 \<le> calculateRiskScore toLowerCase form savings monthlyIncome familyCount"
    using calculateRiskScore_range [of toLowerCase form savings monthlyIncome familyCount]
    by blast
  have least: "calculateRiskScore toLowerCase_latin profile_lowest 0 100000 4 = 43"
    by (simp add: score_eval profile_lowest_def)
  have labels: "status_junbi_ok \<noteq> status_kentou" "status_zekkou \<noteq> status_kentou"
    by (simp_all add: status_junbi_ok_def status_kentou_def status_zekkou_def)
  show ?thesis
    using low least labels by (simp add: getRiskStatus_def)
qed

theorem C9_never_considering_witness:
  "(4::int) \<ge> 1 \<and> (100000::int) \<ge> 1 \<and> (0::int) \<ge> 0 \<and>
   40 < calculateRiskScore toLowerCase_latin profile_lowest 0 100000 4 \<and>
   getRiskStatus (calculateRiskScore toLowerCase_latin profile_lowest 0 100000 4) = status_junbi_ok"
proof -
  have "getRiskStatus 43 = status_junbi_ok"
    by (simp add: getRiskStatus_def)
  with C9_never_considering [of 4 100000 0 toLowerCase_latin profile_lowest] show ?thesis
    by simp
qed

section \<open>Properties of the derived facts\<close>

subsection \<open>Substrings\<close>

lemma starts_with_iff: "starts_with s m \<longleftrightarrow> (\<exists>post. s = m @ post)"
  by (induction s m rule: starts_with.induct) auto

lemma str_includes_iff: "str_includes s m \<longleftrightarrow> is_substring m s"
proof (induction s)
  case Nil
  then show ?case by (auto simp: is_substring_def)
next
  case (Cons c cs)
  have "is_substring m (c # cs) \<longleftrightarrow> (\<exists>post. c # cs = m @ post) \<or> is_substring m cs"
  proof
    assume "is_substring m (c # cs)"
    then obtain pre post where eq: "c # cs = pre @ m @ post"
      by (auto simp: is_substring_def)
    show "(\<exists>post. c # cs = m @ post) \<or> is_substring m cs"
    proof (cases pre)
      case Nil
      with eq show ?thesis by auto
    next
      case (Cons p ps)
      with eq have "cs = ps @ m @ post" by simp
      then show ?thesis by (auto simp: is_substring_def)
    qed
  next
    assume "(\<exists>post. c # cs = m @ post) \<or> is_substring m cs"
    then show "is_substring m (c # cs)"
    proof
      assume "\<exists>post. c # cs = m @ post"
      then obtain post where "c # cs = [] @ m @ post" by auto
      then show ?thesis unfolding is_substring_def by blast
    next
      assume "is_substring m cs"
      then obtain pre post where "cs = pre @ m @ post"
        by (auto simp: is_substring_def)
      then have "c # cs = (c # pre) @ m @ post" by simp
      then show ?thesis unfolding is_substring_def by blast
    qed
  qed
  with Cons show ?case by (simp add: starts_with_iff)
qed

text \<open>
  Claim C5. For every profile the derived children fact is the flag, or a match of the
  lowercased family text against one of the three child markers; both derivations of the
  source (in \<open>calculateRiskScore\<close> and in \<open>generateAdvice\<close>) give it. A flag that is
  not set does not suppress a match in the text, and with the flag set the fact holds
  whatever the text.
\<close>

theorem C5_hasChildren:
  "score_hasChildren toLowerCase form = spec_hasChildren toLowerCase form \<and>
   advice_hasChildren toLowerCase form = spec_hasChildren toLowerCase form \<and>
   (form_hasChildren form \<longrightarrow> score_hasChildren toLowerCase form) \<and>
   (\<not> form_hasChildren form \<longrightarrow>
      score_hasChildren toLowerCase form =
        (\<exists>m \<in> set child_markers. is_substring m (toLowerCase (form_familyStructure form))))"
  by (auto simp: score_hasChildren_def advice_hasChildren_def spec_hasChildren_def
      child_markers_def Let_def str_includes_iff)

theorem C5_hasChildren_witness:
  "\<not> form_hasChildren profile_family \<and>
   is_substring marker_ko (toLowerCase_latin (form_familyStructure profile_family)) \<and>
   score_hasChildren toLowerCase_latin profile_family \<and>
   advice_hasChildren toLowerCase_latin profile_family"
proof -
  have f: "\<not> form_hasChildren profile_family"
    by (simp add: profile_family_def)
  have "str_includes (toLowerCase_latin (form_familyStructure profile_family)) marker_ko"
    by (simp add: toLowerCase_latin_def latin_lower_def profile_family_def marker_ko_def)
  then have m: "is_substring marker_ko (toLowerCase_latin (form_familyStructure profile_family))"
    by (simp add: str_includes_iff)
  then have "spec_hasChildren toLowerCase_latin profile_family"
    by (auto simp: spec_hasChildren_def child_markers_def)
  with C5_hasChildren [of toLowerCase_latin profile_family] f m show ?thesis
    by simp
qed

subsection \<open>Runs of digits\<close>

lemma match_digits_no_digit:
  assumes "\<forall>c \<in> set s. \<not> is_digit c"
  shows "match_digits s = []"
proof -
  have none: "dropWhile (\<lambda>c. \<not> is_digit c) s = []"
    using assms by simp
  show ?thesis
    by (subst match_digits.simps) (simp only: none list.case)
qed

lemma match_digits_first:
  assumes "first_digit_run s run"
  shows "\<exists>rest. match_digits s = run # rest"
proof -
  from assms obtain pre post where s: "s = pre @ run @ post"
    and pre: "\<forall>c \<in> set pre. \<not> is_digit c"
    and run: "run \<noteq> []" "\<forall>c \<in> set run. is_digit c"
    and post: "post = [] \<or> \<not> is_digit (hd post)"
    unfolding first_digit_run_def by blast
  from run obtain d r where dr: "run = d # r"
    by (cases run) auto
  with run have d: "is_digit d" and r: "\<forall>c \<in> set r. is_digit c"
    by auto
  have "dropWhile (\<lambda>c. \<not> is_digit c) s = d # (r @ post)"
    unfolding s dr using pre d by (simp add: dropWhile_append3)
  moreover have "takeWhile is_digit (r @ post) = r"
    using r post by (cases post) (simp_all add: takeWhile_append2 takeWhile_tail)
  ultimately show ?thesis
    by (subst match_digits.simps) (simp add: dr)
qed

lemma first_digit_run_exists:
  assumes "\<exists>c \<in> set s. is_digit c"
  shows "\<exists>run. first_digit_run s run"
proof -
  let ?pre = "takeWhile (\<lambda>c. \<not> is_digit c) s"
  let ?rest = "dropWhile (\<lambda>c. \<not> is_digit c) s"
  let ?run = "takeWhile is_digit ?rest"
  let ?post = "dropWhile is_digit ?rest"
  have "?rest \<noteq> []"
    using assms by (simp add: dropWhile_eq_Nil_conv)
  then have "is_digit (hd ?rest)"
    using hd_dropWhile [of "\<lambda>c. \<not> is_digit c" s] by simp
  with \<open>?rest \<noteq> []\<close> have "?run \<noteq> []"
    by (cases ?rest) auto
  moreover have "s = ?pre @ ?run @ ?post"
    by simp
  moreover have "\<forall>c \<in> set ?pre. \<not> is_digit c"
    by (auto dest: set_takeWhileD)
  moreover have "\<forall>c \<in> set ?run. is_digit c"
    by (auto dest: set_takeWhileD)
  moreover have "?post = [] \<or> \<not> is_digit (hd ?post)"
    using hd_dropWhile [of is_digit ?rest] by blast
  ultimately show ?thesis
    unfolding first_digit_run_def by blast
qed

lemma first_digit_run_digit:
  assumes "first_digit_run s run"
  shows "\<exists>c \<in> set s. is_digit c"
proof -
  from assms obtain pre post where "s = pre @ run @ post" "run \<noteq> []" "\<forall>c \<in> set run. is_digit c"
    unfolding first_digit_run_def by blast
  then show ?thesis
    by (cases run) auto
qed

text \<open>
  Every match of \<open>\d+\<close> is a non-empty run of digits, so \<open>parseInt\<close> never returns
  \<open>NaN\<close> on it.
\<close>

lemma match_digits_runs:
  "run \<in> set (match_digits s) \<Longrightarrow> run \<noteq> [] \<and> (\<forall>c \<in> set run. is_digit c)"
proof (induction s arbitrary: run rule: match_digits.induct)
  case (1 s)
  show ?case
  proof (cases "dropWhile (\<lambda>c. \<not> is_digit c) s")
    case Nil
    with "1.prems" show ?thesis
      by (subst (asm) match_digits.simps) simp
  next
    case (Cons d r)
    then have d: "is_digit d"
      using hd_dropWhile [of "\<lambda>c. \<not> is_digit c" s] by simp
    from "1.prems" Cons
    have "run = d # takeWhile is_digit r \<or> run \<in> set (match_digits (dropWhile is_digit r))"
      by (subst (asm) match_digits.simps) simp
    then show ?thesis
    proof
      assume "run = d # takeWhile is_digit r"
      with d show ?thesis by (auto dest: set_takeWhileD)
    next
      assume "run \<in> set (match_digits (dropWhile is_digit r))"
      with "1.IH" [OF Cons] show ?thesis by blast
    qed
  qed
qed

lemma decimal_value_Cons:
  "decimal_value (d # ds) = (d - 48) * 10 ^ length ds + decimal_value ds"
  unfolding decimal_value_def
  by (simp add: sum.lessThan_Suc_shift del: sum.lessThan_Suc)

lemma foldl_decimal:
  "foldl (\<lambda>a c. 10 * a + (c - 48)) a ds = a * 10 ^ length ds + decimal_value ds"
proof (induction ds arbitrary: a)
  case Nil
  then show ?case by (simp add: decimal_value_def)
next
  case (Cons d ds)
  then show ?case by (simp add: decimal_value_Cons algebra_simps)
qed

lemma parseInt10_decimal:
  assumes "\<forall>c \<in> set run. is_digit c"
  shows "parseInt10 run = round_to_double (decimal_value run)"
proof -
  have all: "takeWhile is_digit run = run"
    using assms by simp
  show ?thesis
    unfolding parseInt10_def digits_value_def all foldl_decimal by simp
qed

text \<open>
  With the children fact, the number of children of a text with digits is the Number
  that \<open>parseInt\<close> gives for its first run.
\<close>

lemma score_childrenCount_run:
  assumes "score_hasChildren toLowerCase form"
    and "first_digit_run (toLowerCase (form_familyStructure form)) run"
  shows "score_childrenCount toLowerCase form familyCount = round_to_double (decimal_value run)"
proof -
  from assms(2) obtain rest
    where "match_digits (toLowerCase (form_familyStructure form)) = run # rest"
    using match_digits_first by blast
  moreover from assms(2) have "\<forall>c \<in> set run. is_digit c"
    unfolding first_digit_run_def by blast
  ultimately show ?thesis
    using assms(1) by (simp add: score_childrenCount_def parseInt10_decimal)
qed

text \<open>
  The lowercasing of Basic Latin is neutral on every text: it maps no code unit to or
  from a digit, and none to or from a code unit of a spouse marker.
\<close>

lemma latin_map_same:
  fixes vs m :: jsstring
  assumes "map latin_lower vs = m" and "\<forall>x \<in> set m. x < 97 \<or> 122 < x"
  shows "vs = m"
proof -
  have "latin_lower c = c" if "c \<in> set vs" for c
  proof (rule ccontr)
    assume "latin_lower c \<noteq> c"
    then have upper: "65 \<le> c \<and> c \<le> 90"
      by (simp add: latin_lower_def split: if_splits)
    from that assms(1) have "latin_lower c \<in> set m"
      by force
    with assms(2) have "latin_lower c < 97 \<or> 122 < latin_lower c"
      by blast
    with upper show False
      by (simp add: latin_lower_def)
  qed
  then have "map latin_lower vs = vs"
    by (intro map_idI)
  with assms(1) show ?thesis
    by simp
qed

lemma latin_split3:
  assumes "toLowerCase_latin s = pre @ mid @ post"
  obtains us vs ws where "s = us @ vs @ ws" and "map latin_lower us = pre"
    and "map latin_lower vs = mid" and "map latin_lower ws = post"
proof
  let ?us = "take (length pre) s"
  let ?vs = "take (length mid) (drop (length pre) s)"
  let ?ws = "drop (length mid) (drop (length pre) s)"
  have eq: "map latin_lower s = pre @ mid @ post"
    using assms by (simp add: toLowerCase_latin_def)
  have "?vs @ ?ws = drop (length pre) s"
    by (rule append_take_drop_id)
  then show "s = ?us @ ?vs @ ?ws"
    by (simp only: append_take_drop_id)
  have "map latin_lower ?us = take (length pre) (map latin_lower s)"
    by (simp only: take_map)
  then show "map latin_lower ?us = pre"
    by (simp add: eq)
  have "map latin_lower ?vs = take (length mid) (drop (length pre) (map latin_lower s))"
    by (simp only: take_map drop_map)
  then show "map latin_lower ?vs = mid"
    by (simp add: eq)
  have "map latin_lower ?ws = drop (length mid) (drop (length pre) (map latin_lower s))"
    by (simp only: drop_map)
  then show "map latin_lower ?ws = post"
    by (simp add: eq)
qed

lemma latin_is_substring:
  assumes "\<forall>x \<in> set m. (x < 65 \<or> 90 < x) \<and> (x < 97 \<or> 122 < x)"
  shows "is_substring m (toLowerCase_latin s) = is_substring m s"
proof
  assume "is_substring m (toLowerCase_latin s)"
  then obtain pre post where "toLowerCase_latin s = pre @ m @ post"
    by (auto simp: is_substring_def)
  then obtain us vs ws where s: "s = us @ vs @ ws" and vs: "map latin_lower vs = m"
    by (rule latin_split3)
  have "\<forall>x \<in> set m. x < 97 \<or> 122 < x"
    using assms by blast
  with vs have "vs = m"
    by (rule latin_map_same)
  with s show "is_substring m s"
    unfolding is_substring_def by blast
next
  assume "is_substring m s"
  then obtain pre post where s: "s = pre @ m @ post"
    by (auto simp: is_substring_def)
  have "latin_lower x = x" if "x \<in> set m" for x
  proof -
    from that assms have "x < 65 \<or> 90 < x"
      by blast
    then show ?thesis
      by (auto simp: latin_lower_def)
  qed
  then have "map latin_lower m = m"
    by (intro map_idI)
  then have "toLowerCase_latin s = toLowerCase_latin pre @ m @ toLowerCase_latin post"
    by (simp add: s toLowerCase_latin_def)
  then show "is_substring m (toLowerCase_latin s)"
    unfolding is_substring_def by blast
qed

lemma latin_is_digit: "is_digit (latin_lower c) = is_digit c"
  by (auto simp: is_digit_def latin_lower_def)

lemma latin_first_digit_run:
  "first_digit_run (toLowerCase_latin s) run = first_digit_run s run"
proof
  assume "first_digit_run (toLowerCase_latin s) run"
  then obtain pre post where eq: "toLowerCase_latin s = pre @ run @ post"
    and pre: "\<forall>c \<in> set pre. \<not> is_digit c"
    and run: "run \<noteq> []" "\<forall>c \<in> set run. is_digit c"
    and post: "post = [] \<or> \<not> is_digit (hd post)"
    unfolding first_digit_run_def by blast
  from eq obtain us vs ws where s: "s = us @ vs @ ws"
    and us: "map latin_lower us = pre" and vs: "map latin_lower vs = run"
    and ws: "map latin_lower ws = post"
    by (rule latin_split3)
  have "\<forall>x \<in> set run. x < 97 \<or> 122 < x"
    using run(2) by (auto simp: is_digit_def)
  with vs have "vs = run"
    by (rule latin_map_same)
  moreover have "\<forall>c \<in> set us. \<not> is_digit c"
  proof
    fix c
    assume "c \<in> set us"
    with us have "latin_lower c \<in> set pre"
      by force
    with pre show "\<not> is_digit c"
      by (auto simp: latin_is_digit)
  qed
  moreover have "ws = [] \<or> \<not> is_digit (hd ws)"
  proof (cases ws)
    case Nil
    then show ?thesis by simp
  next
    case (Cons w ws')
    with ws post have "\<not> is_digit (latin_lower w)"
      by auto
    with Cons show ?thesis
      by (simp add: latin_is_digit)
  qed
  ultimately show "first_digit_run s run"
    unfolding first_digit_run_def using s run by blast
next
  assume "first_digit_run s run"
  then obtain pre post where s: "s = pre @ run @ post"
    and pre: "\<forall>c \<in> set pre. \<not> is_digit c"
    and run: "run \<noteq> []" "\<forall>c \<in> set run. is_digit c"
    and post: "post = [] \<or> \<not> is_digit (hd post)"
    unfolding first_digit_run_def by blast
  have "latin_lower x = x" if "x \<in> set run" for x
    using that run(2) by (auto simp: is_digit_def latin_lower_def)
  then have "map latin_lower run = run"
    by (intro map_idI)
  then have "toLowerCase_latin s = toLowerCase_latin pre @ run @ toLowerCase_latin post"
    by (simp add: s toLowerCase_latin_def)
  moreover have "\<forall>c \<in> set (toLowerCase_latin pre). \<not> is_digit c"
    using pre by (auto simp: toLowerCase_latin_def latin_is_digit)
  moreover have "toLowerCase_latin post = [] \<or> \<not> is_digit (hd (toLowerCase_latin post))"
    using post by (cases post) (auto simp: toLowerCase_latin_def latin_is_digit)
  ultimately show "first_digit_run (toLowerCase_latin s) run"
    unfolding first_digit_run_def using run by blast
qed

lemma toLowerCase_latin_neutral: "case_neutral toLowerCase_latin s"
proof -
  have "is_substring m (toLowerCase_latin s) = is_substring m s" if "m \<in> set spouse_markers" for m
  proof (rule latin_is_substring)
    from that show "\<forall>x \<in> set m. (x < 65 \<or> 90 < x) \<and> (x < 97 \<or> 122 < x)"
      by (auto simp: spouse_markers_def marker_tsuma_def marker_otto_def marker_haigusha_def)
  qed
  then show ?thesis
    by (simp add: case_neutral_def latin_first_digit_run)
qed


subsection \<open>Long runs of digits\<close>

lemma round_to_double_nonneg: "round_to_double n = Finite v \<Longrightarrow> 0 \<le> v"
  by (auto simp: round_to_double_def Let_def split: if_splits)

lemma decimal_value_nines: "decimal_value (replicate k 57) + 1 = 10 ^ k"
proof (induction k)
  case 0
  show ?case
    by (simp add: decimal_value_def)
next
  case (Suc k)
  have "decimal_value (replicate (Suc k) 57) + 1 =
      9 * 10 ^ k + (decimal_value (replicate k 57) + 1)"
    by (simp add: decimal_value_Cons)
  also have "\<dots> = 10 ^ Suc k"
    by (simp only: Suc) simp
  finally show ?case .
qed

lemma first_digit_run_nines:
  assumes "0 < k"
  shows "first_digit_run ([23376] @ replicate k 57 @ [20154]) (replicate k 57)"
proof -
  have "\<forall>c \<in> set [23376]. \<not> is_digit c" and "\<forall>c \<in> set (replicate k 57). is_digit c"
    and "\<not> is_digit (hd [20154])" and "replicate k (57::nat) \<noteq> []"
    using assms by (simp_all add: is_digit_def)
  then show ?thesis
    unfolding first_digit_run_def by blast
qed

lemma children_text:
  assumes "form_familyStructure form = [23376] @ rest"
  shows "score_hasChildren toLowerCase_latin form"
proof -
  have "form_familyStructure form = [] @ marker_ko @ rest"
    by (simp add: assms marker_ko_def)
  then have "is_substring marker_ko (form_familyStructure form)"
    unfolding is_substring_def by blast
  then have "is_substring marker_ko (toLowerCase_latin (form_familyStructure form))"
    by (simp add: latin_is_substring marker_ko_def)
  then show ?thesis
    by (simp add: score_hasChildren_def Let_def str_includes_iff)
qed

text \<open>
  The number \<open>10^23 - 1\<close> has 77 bits, so its unit in the last place is \<open>2^24\<close>; it
  lies less than half a unit above the multiple \<open>5960464477539062 * 2^24\<close>.
\<close>

lemma round_to_double_nines23:
  "round_to_double 99999999999999999999999 = Finite 99999999999999991611392"
proof -
  have len: "bit_length 99999999999999999999999 = 77"
    by (rule bit_length_eqI) simp_all
  show ?thesis
    by (simp add: round_to_double_def len Let_def)
qed

text \<open>
  Claim C6, as the specification words it, fails on long runs of digits. The family
  text U+5B50 "99999999999999999999999" U+4EBA passes the validation of the form and has
  the children fact; its first run of digits denotes \<open>10^23 - 1\<close>, and the number of
  children is the Number nearest to it, \<open>99999999999999991611392\<close>. With a run of 310
  nines the number of children is \<open>Infinity\<close>, no integer at all.
\<close>

theorem C6_parse_counterexample:
  "valid_input profile_nines23 0 300000 2 \<and>
   score_hasChildren toLowerCase_latin profile_nines23 \<and>
   first_digit_run (form_familyStructure profile_nines23) (replicate 23 57) \<and>
   decimal_value (replicate 23 57) = 99999999999999999999999 \<and>
   score_childrenCount toLowerCase_latin profile_nines23 2 = Finite 99999999999999991611392 \<and>
   valid_input profile_nines310 0 300000 2 \<and>
   score_hasChildren toLowerCase_latin profile_nines310 \<and>
   first_digit_run (form_familyStructure profile_nines310) (replicate 310 57) \<and>
   score_childrenCount toLowerCase_latin profile_nines310 2 = PosInfinity"
proof -
  have t23: "form_familyStructure profile_nines23 = [23376] @ replicate 23 57 @ [20154]"
    by (simp add: profile_nines23_def)
  have t310: "form_familyStructure profile_nines310 = [23376] @ replicate 310 57 @ [20154]"
    by (simp add: profile_nines310_def)
  have v23: "valid_input profile_nines23 0 300000 2"
    by (simp add: valid_input_def profile_nines23_def)
  have v310: "valid_input profile_nines310 0 300000 2"
    by (simp add: valid_input_def profile_nines310_def)
  have h23: "score_hasChildren toLowerCase_latin profile_nines23"
    using t23 by (rule children_text)
  have h310: "score_hasChildren toLowerCase_latin profile_nines310"
    using t310 by (rule children_text)
  have r23: "first_digit_run (form_familyStructure profile_nines23) (replicate 23 57)"
    unfolding t23 by (rule first_digit_run_nines) simp
  have r310: "first_digit_run (form_familyStructure profile_nines310) (replicate 310 57)"
    unfolding t310 by (rule first_digit_run_nines) simp
  have "decimal_value (replicate 23 57) + 1 = 10 ^ 23"
    by (rule decimal_value_nines)
  then have d23: "decimal_value (replicate 23 57) = 99999999999999999999999"
    by simp
  have "decimal_value (replicate 310 57) + 1 = 10 ^ 310"
    by (rule decimal_value_nines)
  moreover have "(2::nat) ^ 1024 < 10 ^ 310"
    by simp
  ultimately have d310: "2 ^ 1024 \<le> decimal_value (replicate 310 57)"
    by linarith
  from r23 have "first_digit_run (toLowerCase_latin (form_familyStructure profile_nines23))
      (replicate 23 57)"
    by (simp only: latin_first_digit_run)
  with h23 have c23: "score_childrenCount toLowerCase_latin profile_nines23 2 =
      Finite 99999999999999991611392"
    by (simp only: score_childrenCount_run d23 round_to_double_nines23)
  from r310 have "first_digit_run (toLowerCase_latin (form_familyStructure profile_nines310))
      (replicate 310 57)"
    by (simp only: latin_first_digit_run)
  with h310 have c310: "score_childrenCount toLowerCase_latin profile_nines310 2 = PosInfinity"
    by (simp only: score_childrenCount_run round_to_double_infinite [OF d310])
  from v23 h23 r23 d23 c23 v310 h310 r310 c310 show ?thesis
    by (intro conjI)
qed

text \<open>
  Claim C6, amended. For every profile whose children fact is derived true: if the
  family text contains a run of digits, the number of children is the Number that
  \<open>parseInt\<close> gives for the first such run: the decimal value of the run when that is
  below \<open>2^53\<close>, in general the double nearest to it, which is \<open>Infinity\<close> from
  \<open>2^1024\<close> on; it is never negative, and capped at three, its only use, it is the
  decimal value capped at three. If the text contains no digit, the number of children is
  \<open>max 1 (familyCount - K)\<close> with \<open>K = 2\<close> when the text contains one of the spouse
  markers and \<open>K = 1\<close> when not. The source looks at the lowercased text; lowercasing
  leaves digits and these markers alone, which is the hypothesis \<open>case_neutral\<close>.
\<close>

theorem C6_childrenCount:
  assumes children: "score_hasChildren toLowerCase form"
    and neutral: "case_neutral toLowerCase (form_familyStructure form)"
  shows "(\<forall>run. first_digit_run (form_familyStructure form) run \<longrightarrow>
            score_childrenCount toLowerCase form familyCount =
              round_to_double (decimal_value run) \<and>
            (decimal_value run < 2 ^ 53 \<longrightarrow>
               score_childrenCount toLowerCase form familyCount =
                 Finite (int (decimal_value run))) \<and>
            (2 ^ 1024 \<le> decimal_value run \<longrightarrow>
               score_childrenCount toLowerCase form familyCount = PosInfinity) \<and>
            (\<forall>v. score_childrenCount toLowerCase form familyCount = Finite v \<longrightarrow> 0 \<le> v) \<and>
            js_min3 (score_childrenCount toLowerCase form familyCount) =
              min 3 (int (decimal_value run))) \<and>
         ((\<forall>c \<in> set (form_familyStructure form). \<not> is_digit c) \<longrightarrow>
            score_childrenCount toLowerCase form familyCount =
              Finite (max 1 (familyCount -
                (if \<exists>m \<in> set spouse_markers. is_substring m (form_familyStructure form)
                 then 2 else 1))))"
proof (intro conjI allI impI)
  fix run
  assume "first_digit_run (form_familyStructure form) run"
  with neutral have "first_digit_run (toLowerCase (form_familyStructure form)) run"
    by (simp add: case_neutral_def)
  with children
  show eq: "score_childrenCount toLowerCase form familyCount =
      round_to_double (decimal_value run)"
    by (rule score_childrenCount_run)
  show "score_childrenCount toLowerCase form familyCount = Finite (int (decimal_value run))"
    if "decimal_value run < 2 ^ 53"
    using that by (simp only: eq round_to_double_small)
  show "score_childrenCount toLowerCase form familyCount = PosInfinity"
    if "2 ^ 1024 \<le> decimal_value run"
    using that by (simp only: eq round_to_double_infinite)
  show "0 \<le> v" if "score_childrenCount toLowerCase form familyCount = Finite v" for v
    using that unfolding eq by (rule round_to_double_nonneg)
  show "js_min3 (score_childrenCount toLowerCase form familyCount) =
      min 3 (int (decimal_value run))"
    by (simp only: eq js_min3_round_to_double)
next
  assume none: "\<forall>c \<in> set (form_familyStructure form). \<not> is_digit c"
  have "\<forall>c \<in> set (toLowerCase (form_familyStructure form)). \<not> is_digit c"
  proof (rule ccontr)
    assume "\<not> ?thesis"
    then obtain run where "first_digit_run (toLowerCase (form_familyStructure form)) run"
      using first_digit_run_exists by blast
    with neutral have "first_digit_run (form_familyStructure form) run"
      by (simp add: case_neutral_def)
    with none show False
      using first_digit_run_digit by blast
  qed
  then have "match_digits (toLowerCase (form_familyStructure form)) = []"
    by (rule match_digits_no_digit)
  moreover have "(str_includes (toLowerCase (form_familyStructure form)) marker_tsuma \<or>
      str_includes (toLowerCase (form_familyStructure form)) marker_otto \<or>
      str_includes (toLowerCase (form_familyStructure form)) marker_haigusha) =
    (\<exists>m \<in> set spouse_markers. is_substring m (form_familyStructure form))"
    using neutral by (auto simp: case_neutral_def spouse_markers_def str_includes_iff)
  ultimately show "score_childrenCount toLowerCase form familyCount =
      Finite (max 1 (familyCount -
        (if \<exists>m \<in> set spouse_markers. is_substring m (form_familyStructure form) then 2 else 1)))"
    using children by (simp add: score_childrenCount_def)
qed

theorem C6_childrenCount_witness:
  "score_hasChildren toLowerCase_latin profile_family \<and>
   case_neutral toLowerCase_latin (form_familyStructure profile_family) \<and>
   first_digit_run (form_familyStructure profile_family) [49] \<and>
   decimal_value [49] = 1 \<and>
   score_childrenCount toLowerCase_latin profile_family 3 = Finite 1 \<and>
   js_min3 (score_childrenCount toLowerCase_latin profile_family 3) = 1"
proof -
  have h: "score_hasChildren toLowerCase_latin profile_family"
    by (simp add: score_eval profile_family_def)
  have n: "case_neutral toLowerCase_latin (form_familyStructure profile_family)"
    by (rule toLowerCase_latin_neutral)
  have "form_familyStructure profile_family = [22971, 12392, 23376] @ [49] @ [20154]"
    by (simp add: profile_family_def)
  moreover have "\<forall>c \<in> set [22971, 12392, 23376]. \<not> is_digit c"
    and "\<forall>c \<in> set [49]. is_digit c" and "\<not> is_digit (hd [20154])"
    by (simp_all add: is_digit_def)
  ultimately have r: "first_digit_run (form_familyStructure profile_family) [49]"
    unfolding first_digit_run_def by blast
  have d: "decimal_value [49] = 1"
    by (simp add: decimal_value_def)
  have one: "round_to_double 1 = Finite 1"
    by (simp add: round_to_double_def)
  from C6_childrenCount [OF h n, of 3] r
  have "score_childrenCount toLowerCase_latin profile_family 3 =
      round_to_double (decimal_value [49])"
    by blast
  then have c: "score_childrenCount toLowerCase_latin profile_family 3 = Finite 1"
    by (simp only: d one)
  then have m: "js_min3 (score_childrenCount toLowerCase_latin profile_family 3) = 1"
    by (simp add: js_min3_def)
  from h n r d c m show ?thesis
    by (intro conjI)
qed

section \<open>Properties of the literal texts\<close>

lemma plain_Nil: "plain []"
  by (simp add: plain_def)

lemma plain_Cons: "plain (c # cs) \<longleftrightarrow> c \<noteq> lbr \<and> plain cs"
  by (auto simp: plain_def)

lemma last_single: "last [x] = x"
  by simp

lemma last_Cons2: "last (x # y # zs) = last (y # zs)"
  by simp

lemmas literal_simps =
  solid_def plain_Nil plain_Cons last_single last_Cons2 js_whitespace_def lbr_def

text \<open>Every title of the source is captured whole by the pattern.\<close>

lemma titles_good:
  "good_title title_age20"
  "good_title title_age30"
  "good_title title_age40"
  "good_title title_age50"
  "good_title title_age60"
  "good_title title_family_children"
  "good_title title_family"
  "good_title title_single"
  "good_title title_income"
  "good_title title_message"
  "good_title title_steps"
  "good_title title_lowSavings"
  "good_title title_career"
  "good_title title_goal"
  by (simp_all add: good_title_def line_terminator_def rbr_def
      title_age20_def title_age30_def title_age40_def title_age50_def
      title_age60_def title_family_children_def title_family_def title_single_def
      title_income_def title_message_def title_steps_def title_lowSavings_def
      title_career_def title_goal_def)

text \<open>
  No literal text of the source contains U+3010, and none starts or ends with white
  space.
\<close>

lemma texts_solid_1:
  "solid body_age20"
  "solid body_age30"
  "solid body_age40"
  "solid body_age50"
  "solid body_age60"
  "solid body_family_children"
  by (simp_all del: last.simps add: literal_simps
      body_age20_def body_age30_def body_age40_def body_age50_def
      body_age60_def body_family_children_def)

lemma texts_solid_2:
  "solid body_family"
  "solid body_single"
  "solid body_income_low"
  "solid body_income_medium"
  "solid body_income_high"
  "solid body_message_highest"
  by (simp_all del: last.simps add: literal_simps
      body_family_def body_single_def body_income_low_def body_income_medium_def
      body_income_high_def body_message_highest_def)

lemma texts_solid_3:
  "solid body_message_high"
  "solid body_message_children"
  "solid body_message_other"
  "solid goal_met_1"
  "solid goal_met_2"
  "solid goal_open_1"
  by (simp_all del: last.simps add: literal_simps
      body_message_high_def body_message_children_def body_message_other_def goal_met_1_def
      goal_met_2_def goal_open_1_def)

lemma texts_solid_4:
  "solid goal_open_2"
  "solid goal_open_3"
  "solid goal_open_4"
  "solid lowSavings_children"
  "solid lowSavings_1"
  "solid lowSavings_2"
  by (simp_all del: last.simps add: literal_simps
      goal_open_2_def goal_open_3_def goal_open_4_def lowSavings_children_def
      lowSavings_1_def lowSavings_2_def)

lemma texts_solid_5:
  "solid lowSavings_3"
  "solid lowSavings_amount_low"
  "solid lowSavings_amount_medium"
  "solid lowSavings_amount_high"
  "solid lowSavings_model_low"
  "solid lowSavings_model_medium"
  by (simp_all del: last.simps add: literal_simps
      lowSavings_3_def lowSavings_amount_low_def lowSavings_amount_medium_def lowSavings_amount_high_def
      lowSavings_model_low_def lowSavings_model_medium_def)

lemma texts_solid_6:
  "solid lowSavings_model_high"
  "solid career_children"
  "solid body_career"
  "solid goal_1"
  "solid goal_2"
  "solid goal_3"
  by (simp_all del: last.simps add: literal_simps
      lowSavings_model_high_def career_children_def body_career_def goal_1_def
      goal_2_def goal_3_def)

lemmas texts_solid = texts_solid_1 texts_solid_2 texts_solid_3 texts_solid_4 texts_solid_5 texts_solid_6

lemma steps_solid:
  "\<forall>s \<in> set steps_low. solid s"
  "\<forall>s \<in> set steps_medium. solid s"
  "\<forall>s \<in> set steps_high. solid s"
  "\<forall>s \<in> set steps_children. solid s"
  "\<forall>s \<in> set steps_age20. solid s"
  "\<forall>s \<in> set steps_age30. solid s"
  "\<forall>s \<in> set steps_age40. solid s"
  "\<forall>s \<in> set steps_age50. solid s"
  "\<forall>s \<in> set steps_common. solid s"
  by (simp_all del: last.simps add: literal_simps
      steps_low_def steps_medium_def steps_high_def steps_children_def
      steps_age20_def steps_age30_def steps_age40_def steps_age50_def
      steps_common_def)

section \<open>Parsing a document\<close>

subsection \<open>Trimming\<close>

lemma js_trim_pad:
  assumes p: "blank p" and q: "blank q"
    and b: "b \<noteq> []" "\<not> js_whitespace (hd b)" "\<not> js_whitespace (last b)"
  shows "js_trim (p @ b @ q) = b"
proof -
  from b obtain x xs where bx: "b = x # xs" and x: "\<not> js_whitespace x"
    by (cases b) auto
  have "dropWhile js_whitespace (p @ b @ q) = dropWhile js_whitespace (b @ q)"
    using p by (intro dropWhile_append2) (simp add: blank_def)
  also have "\<dots> = b @ q"
    using x by (simp add: bx)
  finally have front: "dropWhile js_whitespace (p @ b @ q) = b @ q" .
  have rb: "rev b \<noteq> []" "\<not> js_whitespace (hd (rev b))"
    using b by (simp_all add: hd_rev)
  then obtain y ys where ry: "rev b = y # ys" and y: "\<not> js_whitespace y"
    by (cases "rev b") auto
  have "dropWhile js_whitespace (rev (b @ q)) = dropWhile js_whitespace (rev b)"
    unfolding rev_append using q by (intro dropWhile_append2) (simp add: blank_def)
  also have "\<dots> = rev b"
    using y by (simp add: ry)
  finally have rear: "dropWhile js_whitespace (rev (b @ q)) = rev b" .
  show ?thesis
    unfolding js_trim_def front rear by simp
qed

subsection \<open>Splitting at the titles\<close>

lemma scan_title_good:
  assumes "\<forall>c \<in> set t. \<not> line_terminator c \<and> c \<noteq> rbr" and "acc \<noteq> [] \<or> t \<noteq> []"
  shows "scan_title acc (t @ rbr # rest) = Some (rev acc @ t, rest)"
  using assms by (induction t arbitrary: acc) auto

lemma match_marker_good:
  assumes "good_title t"
  shows "match_marker (lbr # t @ rbr # rest) = Some (t, rest)"
  using assms scan_title_good [of t "[]" rest]
  by (simp add: match_marker_def good_title_def)

lemma split_skip:
  assumes "plain p"
  shows "split_sections acc (p @ s) = split_sections (rev p @ acc) s"
  using assms
proof (induction p arbitrary: acc)
  case Nil
  then show ?case by simp
next
  case (Cons c p)
  then have "c \<noteq> lbr" and p: "plain p"
    by (simp_all add: plain_Cons)
  then have "match_marker (c # p @ s) = None"
    by (simp add: match_marker_def)
  then have "split_sections acc ((c # p) @ s) = split_sections (c # acc) (p @ s)"
    by (simp add: split_sections.simps)
  also have "\<dots> = split_sections (rev p @ c # acc) s"
    using p by (rule Cons.IH)
  finally show ?case by simp
qed

lemma split_marked:
  assumes "\<forall>(t, r) \<in> set segs. good_title t \<and> plain r"
  shows "split_sections acc (marked segs) = rev acc # flat segs"
  using assms
proof (induction segs arbitrary: acc)
  case Nil
  then show ?case by (simp add: split_sections.simps)
next
  case (Cons seg segs)
  obtain t r where seg: "seg = (t, r)"
    by (cases seg)
  with Cons.prems have t: "good_title t" and r: "plain r"
    and rest: "\<forall>(t, r) \<in> set segs. good_title t \<and> plain r"
    by auto
  have "split_sections acc (marked (seg # segs)) =
      split_sections acc (lbr # t @ rbr # (r @ marked segs))"
    by (simp add: seg)
  also have "\<dots> = rev acc # t # split_sections [] (r @ marked segs)"
    using match_marker_good [OF t, of "r @ marked segs"]
    by (simp add: split_sections.simps)
  also have "split_sections [] (r @ marked segs) = split_sections (rev r) (marked segs)"
    using split_skip [OF r, of "[]" "marked segs"] by simp
  also have "\<dots> = rev (rev r) # flat segs"
    using rest by (rule Cons.IH)
  finally show ?case by (simp add: seg)
qed

lemma pair_flat:
  "pair_sections (flat segs) = map (\<lambda>(t, r). \<lparr>title = t, content = js_trim r\<rparr>) segs"
  by (induction segs) auto

lemma filter_flat:
  assumes "\<forall>(t, r) \<in> set segs. t \<noteq> [] \<and> r \<noteq> []"
  shows "filter (\<lambda>s. s \<noteq> []) (flat segs) = flat segs"
  using assms by (induction segs) auto

lemma formatted_marked:
  assumes "\<forall>(t, r) \<in> set segs. good_title t \<and> plain r \<and> r \<noteq> []"
  shows "formattedSections (marked segs) =
    map (\<lambda>(t, r). \<lparr>title = t, content = js_trim r\<rparr>) segs"
proof -
  have "split_sections [] (marked segs) = [] # flat segs"
    using assms split_marked [of segs "[]"] by fastforce
  moreover have "filter (\<lambda>s. s \<noteq> []) (flat segs) = flat segs"
    using assms by (intro filter_flat) (auto simp: good_title_def)
  ultimately show ?thesis
    by (simp add: formattedSections_def pair_flat)
qed

subsection \<open>Blocks and separators\<close>

lemma blank_plain: "blank s \<Longrightarrow> plain s"
  by (auto simp: blank_def plain_def js_whitespace_def lbr_def)

lemma plain_append: "plain (a @ b) \<longleftrightarrow> plain a \<and> plain b"
  by (auto simp: plain_def)

lemma layout_append: "layout (xs @ ys) = layout xs @ layout ys"
proof -
  have "marked (a @ b) = marked a @ marked b" for a b
    by (induction a) auto
  then show ?thesis by (simp add: layout_def)
qed

lemma layout_single: "layout [(b, sep)] = lbr # title b @ rbr # 10 # content b @ sep"
  by (simp add: layout_def)

lemma layout_Cons: "layout ((b, sep) # xs) = lbr # title b @ rbr # 10 # content b @ sep @ layout xs"
  by (simp add: layout_def)

lemma layout_parse:
  assumes xs: "xs \<noteq> []"
    and good: "\<forall>(b, sep) \<in> set xs. good_block b \<and> blank sep"
    and p: "blank p"
  shows "formattedSections (js_trim (p @ layout xs)) = map fst xs"
proof -
  from xs obtain ys b sep where split: "xs = ys @ [(b, sep)]"
    by (cases xs rule: rev_cases) auto
  define zs where "zs = ys @ [(b, [])]"
  define core where "core = layout zs"
  have b: "good_block b" and sep: "blank sep"
    using good split by auto
  have ys: "\<forall>(b, sep) \<in> set ys. good_block b \<and> blank sep"
    using good split by auto
  have zs: "\<forall>(b, sep) \<in> set zs. good_block b \<and> blank sep"
    using ys b by (auto simp: zs_def blank_def)
  have whole: "layout xs = core @ sep"
    by (simp add: split core_def zs_def layout_append layout_single)
  have "core = layout ys @ lbr # title b @ rbr # 10 # content b"
    by (simp add: core_def zs_def layout_append layout_single)
  moreover have "content b \<noteq> []"
    using b by (simp add: good_block_def solid_def)
  ultimately have last_core: "last core = last (content b)"
    by simp
  have hd_core: "core \<noteq> [] \<and> hd core = lbr"
    by (cases ys) (auto simp: core_def zs_def layout_Cons layout_single)
  have "\<not> js_whitespace lbr"
    by (simp add: js_whitespace_def lbr_def)
  moreover have "\<not> js_whitespace (last (content b))"
    using b by (simp add: good_block_def solid_def)
  ultimately have trimmed: "js_trim (p @ layout xs) = core"
    unfolding whole using hd_core last_core p sep
    by (intro js_trim_pad) simp_all
  let ?segs = "map (\<lambda>(b, sep). (title b, 10 # content b @ sep)) zs"
  have segs: "\<forall>(t, r) \<in> set ?segs. good_title t \<and> plain r \<and> r \<noteq> []"
    using zs by (auto simp: good_block_def solid_def plain_Cons plain_append blank_plain lbr_def)
  have "formattedSections core =
      map (\<lambda>(t, r). \<lparr>title = t, content = js_trim r\<rparr>) ?segs"
    unfolding core_def layout_def using segs by (rule formatted_marked)
  also have "\<dots> = map (\<lambda>(b, sep). \<lparr>title = title b, content = js_trim ([10] @ content b @ sep)\<rparr>) zs"
    by (simp add: case_prod_unfold)
  also have "\<dots> = map fst zs"
  proof (rule map_cong [OF refl])
    fix z
    assume z: "z \<in> set zs"
    obtain c s where cs: "z = (c, s)"
      by (cases z)
    with z zs have "good_block c" and "blank s"
      by auto
    then have "js_trim ([10] @ content c @ s) = content c"
      by (intro js_trim_pad) (simp_all add: good_block_def solid_def blank_def js_whitespace_def)
    then show "(case z of (b, sep) \<Rightarrow> \<lparr>title = title b, content = js_trim ([10] @ content b @ sep)\<rparr>)
        = fst z"
      by (simp add: cs)
  qed
  also have "\<dots> = map fst xs"
    by (simp add: zs_def split)
  finally show ?thesis
    by (simp add: trimmed)
qed

section \<open>The composed document\<close>

subsection \<open>The contents of the blocks\<close>

lemma solid_append: "solid a \<Longrightarrow> solid b \<Longrightarrow> solid (a @ b)"
  by (auto simp: solid_def plain_def)

lemma solid_append_plain: "solid a \<Longrightarrow> plain p \<Longrightarrow> solid b \<Longrightarrow> solid (a @ p @ b)"
  by (auto simp: solid_def plain_def)

lemma digits_of_digits: "digits_of n \<noteq> [] \<and> (\<forall>c \<in> set (digits_of n). is_digit c)"
proof (induction n rule: digits_of.induct)
  case (1 n)
  show ?case
  proof (cases "n < 10")
    case True
    then show ?thesis
      by (subst (1 2) digits_of.simps) (simp add: is_digit_def)
  next
    case False
    have "n mod 10 < 10" by simp
    then have "is_digit (48 + n mod 10)"
      unfolding is_digit_def by linarith
    with False "1.IH" show ?thesis
      by (subst (1 2) digits_of.simps) simp
  qed
qed

lemma numberToString_solid: "solid (numberToString n)"
proof -
  have all: "\<forall>c \<in> set (numberToString n). \<not> js_whitespace c \<and> c \<noteq> lbr"
    using digits_of_digits [of "nat n"] digits_of_digits [of "nat (- n)"]
    by (auto simp: numberToString_def is_digit_def js_whitespace_def lbr_def)
  have ne: "numberToString n \<noteq> []"
    using digits_of_digits [of "nat n"] by (simp add: numberToString_def)
  then have "hd (numberToString n) \<in> set (numberToString n)"
    and "last (numberToString n) \<in> set (numberToString n)"
    by simp_all
  with all ne show ?thesis
    unfolding solid_def plain_def by blast
qed

lemmas texts_facts = texts_solid [unfolded solid_def]

lemmas numberToString_facts = numberToString_solid [unfolded solid_def]

lemma getSavingsGoalAdvice_solid:
  assumes "bracket_free toLocaleString"
  shows "solid (getSavingsGoalAdvice toLocaleString monthlyIncome savings targetAmount)"
proof -
  have fmt: "plain (toLocaleString q)" for q
    using assms by (simp add: bracket_free_def plain_def)
  show ?thesis
    by (simp add: getSavingsGoalAdvice_def Let_def solid_def plain_append texts_facts
        numberToString_facts fmt)
qed

lemma goal_text_solid:
  assumes "bracket_free toLocaleString"
  shows "solid (goal_text toLocaleString monthlyIncome savings threeMonthsCost sixMonthsCost)"
proof -
  have fmt: "plain (toLocaleString q)" for q
    using assms by (simp add: bracket_free_def plain_def)
  note advice = getSavingsGoalAdvice_solid [OF assms, unfolded solid_def]
  show ?thesis
    by (simp add: goal_text_def solid_def plain_append plain_Cons plain_Nil lbr_def
        texts_facts [unfolded lbr_def] advice [unfolded lbr_def] fmt [unfolded lbr_def])
qed

lemma lowSavings_text_solid: "solid (lowSavings_text incomeLevel)"
proof -
  have "solid (lowSavings_amount incomeLevel)" and "solid (lowSavings_model incomeLevel)"
    by (simp_all add: lowSavings_amount_def lowSavings_model_def texts_solid)
  then show ?thesis
    unfolding lowSavings_text_def using texts_solid by (intro solid_append)
qed

lemma with_addendum_solid:
  assumes "solid a" and "solid b"
  shows "solid (a @ (if hasChildren then [10] @ b else []))"
proof -
  have "plain [10]"
    by (simp add: plain_Cons plain_Nil lbr_def)
  with assms have "solid (a @ [10] @ b)"
    by (intro solid_append_plain)
  with assms show ?thesis
    by simp
qed

lemma js_join_solid:
  assumes "xs \<noteq> []" and "\<forall>s \<in> set xs. solid s" and "plain sep"
  shows "solid (js_join sep xs)"
  using assms
proof (induction sep xs rule: js_join.induct)
  case (1 sep)
  then show ?case by simp
next
  case (2 sep x)
  then show ?case by simp
next
  case (3 sep x y r)
  then have "solid (js_join sep (y # r))" and "solid x"
    by simp_all
  with "3.prems" show ?case
    by (simp add: solid_append_plain)
qed

lemma numbered_solid:
  assumes "\<forall>s \<in> set xs. solid s"
  shows "\<forall>s \<in> set (numbered xs). solid s"
proof
  fix s
  assume "s \<in> set (numbered xs)"
  then obtain i where "i < length xs"
    and s: "s = numberToString (int i + 1) @ [46, 32] @ xs ! i"
    by (auto simp: numbered_def in_set_enumerate_eq)
  with assms have "solid (xs ! i)"
    by simp
  moreover have "plain [46, 32]"
    by (simp add: plain_Cons plain_Nil lbr_def)
  ultimately show "solid s"
    unfolding s using numberToString_solid by (intro solid_append_plain)
qed

lemma numbered_length: "length (numbered xs) = length xs"
  by (simp add: numbered_def)

lemma allSteps_solid:
  "allSteps form hasChildren incomeLevel \<noteq> [] \<and>
   (\<forall>s \<in> set (allSteps form hasChildren incomeLevel). solid s)"
proof -
  have "steps_common \<noteq> []"
    by (simp add: steps_common_def)
  moreover have "\<forall>s \<in> set (incomeBasedSteps incomeLevel). solid s"
    using steps_solid by (cases incomeLevel) (simp_all add: incomeBasedSteps_def)
  moreover have "\<forall>s \<in> set (childrenSteps hasChildren). solid s"
    using steps_solid by (simp add: childrenSteps_def)
  moreover have "\<forall>s \<in> set (getAgeSteps form). solid s"
    using steps_solid by (simp add: getAgeSteps_def Let_def)
  ultimately show ?thesis
    using steps_solid by (auto simp: allSteps_def)
qed

lemma steps_content_solid:
  "solid (js_join [10] (numbered (allSteps form hasChildren incomeLevel)))"
proof (rule js_join_solid)
  show "numbered (allSteps form hasChildren incomeLevel) \<noteq> []"
    using allSteps_solid [of form hasChildren incomeLevel]
      numbered_length [of "allSteps form hasChildren incomeLevel"]
    by (metis length_0_conv)
  show "\<forall>s \<in> set (numbered (allSteps form hasChildren incomeLevel)). solid s"
    using allSteps_solid [of form hasChildren incomeLevel] by (intro numbered_solid) blast
  show "plain [10]"
    by (simp add: plain_Cons plain_Nil lbr_def)
qed

subsection \<open>Every block is well formed\<close>

lemma goal_block_good:
  "bracket_free toLocaleString \<Longrightarrow>
    good_block (goal_block toLocaleString monthlyIncome savings threeMonthsCost sixMonthsCost)"
  by (simp add: good_block_def goal_block_def titles_good goal_text_solid)

lemma age_block_good: "\<forall>b \<in> set (age_block form). good_block b"
  by (simp add: age_block_def Let_def good_block_def titles_good texts_solid)

lemma income_block_good: "good_block (income_block incomeLevel)"
  by (cases incomeLevel) (simp_all add: income_block_def good_block_def titles_good texts_solid)

lemma family_block_good: "good_block (family_block hasChildren familyCount)"
  by (simp add: family_block_def good_block_def titles_good texts_solid)

lemma lowSavings_block_good:
  "\<forall>b \<in> set (lowSavings_block savings threeMonthsCost hasChildren incomeLevel). good_block b"
  using with_addendum_solid [OF lowSavings_text_solid texts_solid(22)]
  by (simp add: lowSavings_block_def good_block_def titles_good)

lemma career_block_good: "good_block (career_block hasChildren)"
  using with_addendum_solid [of body_career career_children hasChildren]
  by (simp add: career_block_def good_block_def titles_good texts_solid)

lemma message_block_good: "good_block (message_block riskProfile hasChildren)"
  by (simp add: message_block_def good_block_def titles_good texts_solid)

lemma steps_block_good: "good_block (steps_block form hasChildren incomeLevel)"
  by (simp add: steps_block_def good_block_def titles_good steps_content_solid)

subsection \<open>The template as blocks and separators\<close>

lemma getAgeBasedAdvice_block:
  "getAgeBasedAdvice form = concat (map (\<lambda>b. section_text (title b) (content b)) (age_block form))"
  by (simp add: getAgeBasedAdvice_def age_block_def Let_def)

lemma getIncomeBasedAdvice_block:
  "getIncomeBasedAdvice incomeLevel =
     section_text (title (income_block incomeLevel)) (content (income_block incomeLevel))"
  by (cases incomeLevel) (simp_all add: getIncomeBasedAdvice_def income_block_def)

lemma getFamilyAdvice_block:
  "getFamilyAdvice hasChildren familyCount =
     section_text (title (family_block hasChildren familyCount))
       (content (family_block hasChildren familyCount))"
  by (simp add: getFamilyAdvice_def family_block_def)

lemma getLowSavingsAdvice_block:
  "getLowSavingsAdvice savings threeMonthsCost hasChildren incomeLevel =
     concat (map (\<lambda>b. section_text (title b) (content b) @ (if hasChildren then [] else [10]))
       (lowSavings_block savings threeMonthsCost hasChildren incomeLevel))"
  by (simp add: getLowSavingsAdvice_def lowSavings_block_def section_text_def)

lemma getCareerRiskComparison_block:
  "getCareerRiskComparison hasChildren =
     section_text (title (career_block hasChildren)) (content (career_block hasChildren)) @
     (if hasChildren then [] else [10])"
  by (simp add: getCareerRiskComparison_def career_block_def section_text_def)

lemma getEncouragementMessage_block:
  "getEncouragementMessage riskProfile hasChildren =
     section_text (title (message_block riskProfile hasChildren))
       (content (message_block riskProfile hasChildren))"
  by (simp add: getEncouragementMessage_def message_block_def)

lemma getActionSteps_block:
  "getActionSteps form hasChildren incomeLevel =
     section_text (title (steps_block form hasChildren incomeLevel))
       (content (steps_block form hasChildren incomeLevel))"
  by (simp add: getActionSteps_def steps_block_def)

lemma age_block_cases: "age_block form = [] \<or> (\<exists>b. age_block form = [b])"
  by (simp add: age_block_def Let_def)

lemma lowSavings_block_cases:
  "lowSavings_block savings threeMonthsCost hasChildren incomeLevel = [] \<or>
   (\<exists>b. lowSavings_block savings threeMonthsCost hasChildren incomeLevel = [b])"
  by (simp add: lowSavings_block_def)

lemma generateAdvice_layout:
  "generateAdvice toLowerCase toLocaleString form monthlyIncome familyCount =
     js_trim ([10] @ layout (document_layout toLowerCase toLocaleString form monthlyIncome
       familyCount))"
proof -
  let ?three = "monthlyIncome * familyCount * 3"
  let ?h = "advice_hasChildren toLowerCase form"
  let ?low = "lowSavings_block (form_savings form) ?three ?h (getIncomeLevel monthlyIncome)"
  let ?r = "getRiskProfile ?h (getSavingsLevel (form_savings form) ?three)
    (getIncomeLevel monthlyIncome)"
  have pieces: "generateAdvice toLowerCase toLocaleString form monthlyIncome familyCount =
      js_trim ([10, lbr] @ title_goal @ [rbr, 10] @
        goal_text toLocaleString monthlyIncome (form_savings form) ?three
          (monthlyIncome * familyCount * 6) @
        [10, 10] @ concat (map (\<lambda>b. section_text (title b) (content b)) (age_block form)) @
        [10, 10] @ section_text (title (income_block (getIncomeLevel monthlyIncome)))
          (content (income_block (getIncomeLevel monthlyIncome))) @
        [10, 10] @ section_text (title (family_block ?h familyCount))
          (content (family_block ?h familyCount)) @
        [10] @ concat (map (\<lambda>b. section_text (title b) (content b) @ (if ?h then [] else [10]))
          ?low) @
        [10] @ (section_text (title (career_block ?h)) (content (career_block ?h)) @
          (if ?h then [] else [10])) @
        [10] @ section_text (title (message_block ?r ?h)) (content (message_block ?r ?h)) @
        [10] @ section_text (title (steps_block form ?h (getIncomeLevel monthlyIncome)))
          (content (steps_block form ?h (getIncomeLevel monthlyIncome))) @
        [10, 32, 32, 32, 32])"
    unfolding generateAdvice_def Let_def
      getAgeBasedAdvice_block getIncomeBasedAdvice_block getFamilyAdvice_block
      getLowSavingsAdvice_block getCareerRiskComparison_block getEncouragementMessage_block
      getActionSteps_block
    by (simp add: section_text_def)
  from age_block_cases [of form]
    lowSavings_block_cases [of "form_savings form" ?three ?h "getIncomeLevel monthlyIncome"]
  consider "age_block form = []" "?low = []"
    | b where "age_block form = []" "?low = [b]"
    | a where "age_block form = [a]" "?low = []"
    | a b where "age_block form = [a]" "?low = [b]"
    by blast
  then show ?thesis
  proof cases
    case 1
    then show ?thesis
      unfolding pieces document_layout_def Let_def
      by (simp add: layout_Cons section_text_def goal_block_def layout_def)
  next
    case 2
    then show ?thesis
      unfolding pieces document_layout_def Let_def
      by (simp add: layout_Cons section_text_def goal_block_def layout_def)
  next
    case 3
    then show ?thesis
      unfolding pieces document_layout_def Let_def
      by (simp add: layout_Cons section_text_def goal_block_def layout_def)
  next
    case 4
    then show ?thesis
      unfolding pieces document_layout_def Let_def
      by (simp add: layout_Cons section_text_def goal_block_def layout_def)
  qed
qed

lemma document_layout_blocks:
  "map fst (document_layout toLowerCase toLocaleString form monthlyIncome familyCount) =
     emitted_blocks toLowerCase toLocaleString form monthlyIncome familyCount"
  by (simp add: document_layout_def emitted_blocks_def Let_def comp_def)

lemma emitted_blocks_good:
  assumes "bracket_free toLocaleString"
  shows "\<forall>b \<in> set (emitted_blocks toLowerCase toLocaleString form monthlyIncome familyCount).
    good_block b"
  using goal_block_good [OF assms] age_block_good lowSavings_block_good
  by (auto simp: emitted_blocks_def Let_def income_block_good family_block_good career_block_good
      message_block_good steps_block_good)

lemma document_layout_good:
  assumes "bracket_free toLocaleString"
  shows "\<forall>(b, sep) \<in> set (document_layout toLowerCase toLocaleString form monthlyIncome
    familyCount). good_block b \<and> blank sep"
proof -
  have "\<forall>(b, sep) \<in> set (document_layout toLowerCase toLocaleString form monthlyIncome
    familyCount). blank sep"
    by (auto simp: document_layout_def Let_def blank_def js_whitespace_def)
  moreover have "\<forall>x \<in> set (document_layout toLowerCase toLocaleString form monthlyIncome
    familyCount). good_block (fst x)"
    using emitted_blocks_good [OF assms, of toLowerCase form monthlyIncome familyCount]
    unfolding document_layout_blocks [symmetric] by simp
  ultimately show ?thesis
    by auto
qed

lemma formattedSections_generateAdvice:
  assumes "bracket_free toLocaleString"
  shows "formattedSections (generateAdvice toLowerCase toLocaleString form monthlyIncome familyCount)
    = emitted_blocks toLowerCase toLocaleString form monthlyIncome familyCount"
proof -
  have "document_layout toLowerCase toLocaleString form monthlyIncome familyCount \<noteq> []"
    by (simp add: document_layout_def Let_def)
  moreover have "blank [10]"
    by (simp add: blank_def js_whitespace_def)
  ultimately have "formattedSections (js_trim ([10] @
      layout (document_layout toLowerCase toLocaleString form monthlyIncome familyCount))) =
    map fst (document_layout toLowerCase toLocaleString form monthlyIncome familyCount)"
    using document_layout_good [OF assms] by (intro layout_parse)
  then show ?thesis
    by (simp only: generateAdvice_layout document_layout_blocks)
qed

section \<open>The round trip\<close>

text \<open>The rendering with commas contains digits, commas and a minus sign only.\<close>

lemma group3_set: "set (group3 s) \<subseteq> insert 44 (set s)"
  by (induction s rule: group3.induct) auto

lemma toLocaleString_comma_bracket_free: "bracket_free toLocaleString_comma"
proof -
  have "c \<noteq> lbr" if "c \<in> set (toLocaleString_comma q)" for c q
  proof -
    from that have "c = 45 \<or> c \<in> set (group3 (rev (digits_of (nat \<bar>\<lfloor>q\<rfloor>\<bar>))))"
      by (auto simp: toLocaleString_comma_def Let_def split: if_splits)
    then have "c = 45 \<or> c = 44 \<or> c \<in> set (digits_of (nat \<bar>\<lfloor>q\<rfloor>\<bar>))"
      using group3_set by fastforce
    then have "c = 45 \<or> c = 44 \<or> is_digit c"
      using digits_of_digits by blast
    then show ?thesis
      by (auto simp: is_digit_def lbr_def)
  qed
  then show ?thesis
    unfolding bracket_free_def by blast
qed

subsection \<open>The titles of the blocks\<close>

lemmas title_defs =
  title_goal_def title_age20_def title_age30_def title_age40_def title_age50_def title_age60_def
  title_income_def title_family_children_def title_family_def title_single_def
  title_lowSavings_def title_career_def title_message_def title_steps_def

lemma block_titles:
  "title (goal_block toLocaleString monthlyIncome savings threeMonthsCost sixMonthsCost) = title_goal"
  "title (income_block incomeLevel) = title_income"
  "title (career_block hasChildren) = title_career"
  "title (message_block riskProfile hasChildren) = title_message"
  "title (steps_block form hasChildren incomeLevel) = title_steps"
  by (simp_all add: goal_block_def income_block_def career_block_def message_block_def
      steps_block_def)

lemma family_block_title:
  "title (family_block hasChildren familyCount) \<in> {title_family_children, title_family, title_single}"
  by (simp add: family_block_def)

lemma age_block_title: "b \<in> set (age_block form) \<Longrightarrow> title b \<in> set age_titles"
  by (auto simp: age_block_def age_titles_def Let_def split: if_splits)

lemma lowSavings_block_title:
  "b \<in> set (lowSavings_block savings threeMonthsCost hasChildren incomeLevel) \<Longrightarrow>
    title b = title_lowSavings"
  by (auto simp: lowSavings_block_def split: if_splits)

lemma emitted_blocks_titles:
  "map title (emitted_blocks toLowerCase toLocaleString form monthlyIncome familyCount) =
     [title_goal] @ map title (age_block form) @
     [title_income, title (family_block (advice_hasChildren toLowerCase form) familyCount)] @
     map title (lowSavings_block (form_savings form) (monthlyIncome * familyCount * 3)
       (advice_hasChildren toLowerCase form) (getIncomeLevel monthlyIncome)) @
     [title_career, title_message, title_steps]"
  by (simp add: emitted_blocks_def Let_def block_titles)

text \<open>No two blocks of a document have the same title, and there are six to eight blocks.\<close>

lemma title_heads:
  "hd title_goal = 36039" "hd title_age20 = 50" "hd title_age30 = 51" "hd title_age40 = 52"
  "hd title_age50 = 53" "hd title_age60 = 54" "hd title_income = 26376"
  "hd title_family_children = 23376" "hd title_family = 23478" "hd title_single = 21336"
  "hd title_lowSavings = 36015" "hd title_career = 12469" "hd title_message = 12354"
  "hd title_steps = 20855"
  by (simp_all add: title_defs)

lemma emitted_blocks_distinct:
  "distinct (map title (emitted_blocks toLowerCase toLocaleString form monthlyIncome familyCount))"
proof -
  let ?h = "advice_hasChildren toLowerCase form"
  let ?low = "lowSavings_block (form_savings form) (monthlyIncome * familyCount * 3) ?h
    (getIncomeLevel monthlyIncome)"
  have age: "map title (age_block form) = [] \<or>
      (\<exists>t \<in> set age_titles. map title (age_block form) = [t])"
    using age_block_cases [of form] age_block_title [of _ form] by force
  have low: "map title ?low = [] \<or> map title ?low = [title_lowSavings]"
    by (simp add: lowSavings_block_def)
  have family: "title (family_block ?h familyCount) = title_family_children \<or>
      title (family_block ?h familyCount) = title_family \<or>
      title (family_block ?h familyCount) = title_single"
    using family_block_title [of ?h familyCount] by simp
  have "distinct (map hd ([title_goal] @ ages @ [title_income, fam] @ lows @
      [title_career, title_message, title_steps]))"
    if "ages = [] \<or> (\<exists>t \<in> set age_titles. ages = [t])"
      and "lows = [] \<or> lows = [title_lowSavings]"
      and "fam = title_family_children \<or> fam = title_family \<or> fam = title_single"
    for ages lows fam
    using that
    by (elim disjE bexE; simp add: age_titles_def; elim disjE; simp add: title_heads)
  from this [OF age low family] have "distinct (map hd (map title
      (emitted_blocks toLowerCase toLocaleString form monthlyIncome familyCount)))"
    by (simp only: emitted_blocks_titles)
  then show ?thesis
    unfolding distinct_map [of hd] by (rule conjunct1)
qed

lemma emitted_blocks_length:
  "6 \<le> length (emitted_blocks toLowerCase toLocaleString form monthlyIncome familyCount) \<and>
   length (emitted_blocks toLowerCase toLocaleString form monthlyIncome familyCount) \<le> 8"
  by (simp add: emitted_blocks_def Let_def age_block_def lowSavings_block_def)

text \<open>
  Claim C3. For every document that \<open>generateAdvice\<close> composes from an input
  satisfying the input contract, the parser of the result page (the split at the title
  pattern, without the empty strings, paired and trimmed) returns exactly the blocks
  that the composer emitted, in their order: the same titles, the same contents, none
  lost and none added. The titles are pairwise different, and there are between six and
  eight blocks. The rendering of numbers by the locale is assumed never to produce the
  bracket U+3010.
\<close>

theorem C3_round_trip:
  assumes "valid_input form (form_savings form) monthlyIncome familyCount"
    and "bracket_free toLocaleString"
  shows "formattedSections
      (generateAdvice toLowerCase toLocaleString form monthlyIncome familyCount) =
      emitted_blocks toLowerCase toLocaleString form monthlyIncome familyCount \<and>
    set (formattedSections
      (generateAdvice toLowerCase toLocaleString form monthlyIncome familyCount)) =
      set (emitted_blocks toLowerCase toLocaleString form monthlyIncome familyCount) \<and>
    distinct (map title (formattedSections
      (generateAdvice toLowerCase toLocaleString form monthlyIncome familyCount))) \<and>
    6 \<le> length (formattedSections
      (generateAdvice toLowerCase toLocaleString form monthlyIncome familyCount)) \<and>
    length (formattedSections
      (generateAdvice toLowerCase toLocaleString form monthlyIncome familyCount)) \<le> 8"
proof -
  have parsed: "formattedSections
      (generateAdvice toLowerCase toLocaleString form monthlyIncome familyCount) =
      emitted_blocks toLowerCase toLocaleString form monthlyIncome familyCount"
    using assms(2) by (rule formattedSections_generateAdvice)
  show ?thesis
    unfolding parsed
    using emitted_blocks_distinct [of toLowerCase toLocaleString form monthlyIncome familyCount]
      emitted_blocks_length [of toLowerCase toLocaleString form monthlyIncome familyCount]
    by simp
qed

lemmas advice_eval =
  emitted_blocks_def Let_def advice_hasChildren_def toLowerCase_latin_def latin_lower_def
  marker_ko_def marker_kodomo_kana_def marker_kodomo_def
  goal_block_def age_block_def income_block_def family_block_def lowSavings_block_def
  career_block_def message_block_def steps_block_def getIncomeLevel_def

theorem C3_round_trip_witness:
  "valid_input profile_family (form_savings profile_family) 300000 3 \<and>
   bracket_free toLocaleString_comma \<and>
   map title (formattedSections
     (generateAdvice toLowerCase_latin toLocaleString_comma profile_family 300000 3)) =
     [title_goal, title_age30, title_income, title_family_children, title_lowSavings,
      title_career, title_message, title_steps]"
proof -
  have v: "valid_input profile_family (form_savings profile_family) 300000 3"
    by (simp add: valid_input_def profile_family_def)
  have "map title (emitted_blocks toLowerCase_latin toLocaleString_comma profile_family 300000 3) =
     [title_goal, title_age30, title_income, title_family_children, title_lowSavings,
      title_career, title_message, title_steps]"
    by (simp add: advice_eval profile_family_def)
  with C3_round_trip [OF v toLocaleString_comma_bracket_free, of toLowerCase_latin]
    v toLocaleString_comma_bracket_free
  show ?thesis
    by simp
qed

section \<open>The display order\<close>

lemmas order_eval =
  getDisplayOrder_def orderMap_def key_message_def key_goal_def key_income_def
  key_family_children_def key_family_def key_single_def key_lowSavings_def key_career_def
  key_steps_def

lemma display_order_titles:
  "getDisplayOrder title_message = 1"
  "getDisplayOrder title_goal = 2"
  "getDisplayOrder title_income = 3"
  "getDisplayOrder title_family_children = 4"
  "getDisplayOrder title_family = 4"
  "getDisplayOrder title_single = 4"
  "getDisplayOrder title_lowSavings = 5"
  "getDisplayOrder title_career = 6"
  "getDisplayOrder title_steps = 7"
  "getDisplayOrder title_age20 = 99"
  "getDisplayOrder title_age30 = 99"
  "getDisplayOrder title_age40 = 99"
  "getDisplayOrder title_age50 = 99"
  "getDisplayOrder title_age60 = 99"
  by (simp_all add: order_eval title_defs)

text \<open>The titles that occur in a composed document.\<close>

lemma emitted_titles:
  assumes "b \<in> set (emitted_blocks toLowerCase toLocaleString form monthlyIncome familyCount)"
  shows "title b \<in> {title_goal, title_age20, title_age30, title_age40, title_age50, title_age60,
    title_income, title_family_children, title_family, title_single, title_lowSavings,
    title_career, title_message, title_steps}"
proof -
  let ?h = "advice_hasChildren toLowerCase form"
  let ?three = "monthlyIncome * familyCount * 3"
  let ?level = "getIncomeLevel monthlyIncome"
  from assms consider
      "b = goal_block toLocaleString monthlyIncome (form_savings form) ?three
         (monthlyIncome * familyCount * 6)"
    | "b \<in> set (age_block form)"
    | "b = income_block ?level"
    | "b = family_block ?h familyCount"
    | "b \<in> set (lowSavings_block (form_savings form) ?three ?h ?level)"
    | "b = career_block ?h"
    | "b = message_block (getRiskProfile ?h (getSavingsLevel (form_savings form) ?three) ?level) ?h"
    | "b = steps_block form ?h ?level"
    by (auto simp: emitted_blocks_def Let_def)
  then show ?thesis
  proof cases
    case 2
    then show ?thesis
      using age_block_title [of b form] by (auto simp: age_titles_def)
  next
    case 4
    then show ?thesis
      using family_block_title [of ?h familyCount] by auto
  next
    case 5
    then show ?thesis
      using lowSavings_block_title by simp
  qed (simp_all add: block_titles)
qed

lemma key_in_titles:
  assumes "t \<in> {title_goal, title_age20, title_age30, title_age40, title_age50, title_age60,
    title_income, title_family_children, title_family, title_single, title_lowSavings,
    title_career, title_message, title_steps}"
  shows "str_includes t key_message \<longrightarrow> getDisplayOrder t = 1"
    and "str_includes t key_goal \<longrightarrow> getDisplayOrder t = 2"
    and "str_includes t key_income \<longrightarrow> getDisplayOrder t = 3"
proof -
  have "t = title_goal \<or> t = title_age20 \<or> t = title_age30 \<or> t = title_age40 \<or>
    t = title_age50 \<or> t = title_age60 \<or> t = title_income \<or> t = title_family_children \<or>
    t = title_family \<or> t = title_single \<or> t = title_lowSavings \<or> t = title_career \<or>
    t = title_message \<or> t = title_steps"
    using assms by blast
  then show "str_includes t key_message \<longrightarrow> getDisplayOrder t = 1"
    and "str_includes t key_goal \<longrightarrow> getDisplayOrder t = 2"
    and "str_includes t key_income \<longrightarrow> getDisplayOrder t = 3"
    by (elim disjE; simp add: order_eval title_defs)+
qed

lemma sortedSections_sorted:
  "sorted (map (\<lambda>s. getDisplayOrder (title s)) (sortedSections advice))"
  by (simp add: sortedSections_def)

lemma sortedSections_set: "set (sortedSections advice) = set (formattedSections advice)"
  by (simp add: sortedSections_def)

lemma sortedSections_before:
  assumes "i < length (sortedSections advice)" and "j < length (sortedSections advice)"
    and "getDisplayOrder (title (sortedSections advice ! i)) <
         getDisplayOrder (title (sortedSections advice ! j))"
  shows "i < j"
proof (rule ccontr)
  let ?prio = "map (\<lambda>s. getDisplayOrder (title s)) (sortedSections advice)"
  assume "\<not> i < j"
  then have "j \<le> i" by simp
  moreover have "i < length ?prio"
    using assms(1) by simp
  ultimately have "?prio ! j \<le> ?prio ! i"
    using sortedSections_sorted [of advice] by (intro sorted_nth_mono)
  then have "getDisplayOrder (title (sortedSections advice ! j)) \<le>
      getDisplayOrder (title (sortedSections advice ! i))"
    using assms(1,2) by simp
  with assms(3) show False by simp
qed

text \<open>
  The law for any text whatever: the first key of the table that a title contains
  decides, so a title with the first key stands before one with the second key only,
  and that before one with the third key only.
\<close>

lemma display_order_first_keys:
  "str_includes t key_message \<Longrightarrow> getDisplayOrder t = 1"
  "\<not> str_includes t key_message \<Longrightarrow> str_includes t key_goal \<Longrightarrow> getDisplayOrder t = 2"
  "\<not> str_includes t key_message \<Longrightarrow> \<not> str_includes t key_goal \<Longrightarrow>
    str_includes t key_income \<Longrightarrow> getDisplayOrder t = 3"
  by (simp_all add: getDisplayOrder_def orderMap_def)

lemma ordering_law_any_text:
  assumes "i < length (sortedSections advice)" and "j < length (sortedSections advice)"
    and "str_includes (title (sortedSections advice ! i)) key_message"
    and "\<not> str_includes (title (sortedSections advice ! j)) key_message"
    and "str_includes (title (sortedSections advice ! j)) key_goal"
  shows "i < j"
  using assms display_order_first_keys(1,2)
  by (intro sortedSections_before [of i advice j]) simp_all

text \<open>
  Claim C7. In the parsed and ordered sections of every composed document, a section whose
  title contains U+3042 U+306A U+305F U+3078 U+306E U+7279 U+5225 (the special message)
  stands before every section whose title contains U+8CC7 U+91D1 U+76EE U+6A19 (the funding
  goal), and such a section stands before every section whose title contains U+6708 U+53CE
  U+306B U+5FDC U+3058 U+305F (according to the income). All three are there.
\<close>

theorem C7_ordering_law:
  assumes "valid_input form (form_savings form) monthlyIncome familyCount"
    and "bracket_free toLocaleString"
  shows "(\<forall>i j. i < length (sortedSections
              (generateAdvice toLowerCase toLocaleString form monthlyIncome familyCount)) \<and>
           j < length (sortedSections
              (generateAdvice toLowerCase toLocaleString form monthlyIncome familyCount)) \<and>
           str_includes (title (sortedSections
              (generateAdvice toLowerCase toLocaleString form monthlyIncome familyCount) ! i))
              key_message \<and>
           str_includes (title (sortedSections
              (generateAdvice toLowerCase toLocaleString form monthlyIncome familyCount) ! j))
              key_goal \<longrightarrow> i < j) \<and>
         (\<forall>i j. i < length (sortedSections
              (generateAdvice toLowerCase toLocaleString form monthlyIncome familyCount)) \<and>
           j < length (sortedSections
              (generateAdvice toLowerCase toLocaleString form monthlyIncome familyCount)) \<and>
           str_includes (title (sortedSections
              (generateAdvice toLowerCase toLocaleString form monthlyIncome familyCount) ! i))
              key_goal \<and>
           str_includes (title (sortedSections
              (generateAdvice toLowerCase toLocaleString form monthlyIncome familyCount) ! j))
              key_income \<longrightarrow> i < j) \<and>
         (\<forall>key \<in> {key_message, key_goal, key_income}.
           \<exists>s \<in> set (sortedSections
              (generateAdvice toLowerCase toLocaleString form monthlyIncome familyCount)).
             str_includes (title s) key)"
proof -
  let ?doc = "generateAdvice toLowerCase toLocaleString form monthlyIncome familyCount"
  let ?ss = "sortedSections ?doc"
  let ?blocks = "emitted_blocks toLowerCase toLocaleString form monthlyIncome familyCount"
  have set_ss: "set ?ss = set ?blocks"
    using formattedSections_generateAdvice [OF assms(2)] by (simp add: sortedSections_set)
  have titles: "title (?ss ! i) \<in> {title_goal, title_age20, title_age30, title_age40,
      title_age50, title_age60, title_income, title_family_children, title_family, title_single,
      title_lowSavings, title_career, title_message, title_steps}" if "i < length ?ss" for i
  proof -
    from that have "?ss ! i \<in> set ?blocks"
      using set_ss nth_mem by blast
    then show ?thesis by (rule emitted_titles)
  qed
  have first: "i < j" if "i < length ?ss" "j < length ?ss"
    "str_includes (title (?ss ! i)) key_message" "str_includes (title (?ss ! j)) key_goal" for i j
  proof -
    have "getDisplayOrder (title (?ss ! i)) = 1" and "getDisplayOrder (title (?ss ! j)) = 2"
      using key_in_titles [OF titles] that by blast+
    then show ?thesis
      using that by (intro sortedSections_before [of i ?doc j]) simp_all
  qed
  have second: "i < j" if "i < length ?ss" "j < length ?ss"
    "str_includes (title (?ss ! i)) key_goal" "str_includes (title (?ss ! j)) key_income" for i j
  proof -
    have "getDisplayOrder (title (?ss ! i)) = 2" and "getDisplayOrder (title (?ss ! j)) = 3"
      using key_in_titles [OF titles] that by blast+
    then show ?thesis
      using that by (intro sortedSections_before [of i ?doc j]) simp_all
  qed
  have "message_block
      (getRiskProfile (advice_hasChildren toLowerCase form)
        (getSavingsLevel (form_savings form) (monthlyIncome * familyCount * 3))
        (getIncomeLevel monthlyIncome))
      (advice_hasChildren toLowerCase form) \<in> set ?blocks"
    and "goal_block toLocaleString monthlyIncome (form_savings form)
      (monthlyIncome * familyCount * 3) (monthlyIncome * familyCount * 6) \<in> set ?blocks"
    and "income_block (getIncomeLevel monthlyIncome) \<in> set ?blocks"
    by (simp_all add: emitted_blocks_def Let_def)
  moreover have "str_includes (title (message_block r h)) key_message" for r h
    by (simp add: message_block_def title_message_def key_message_def)
  moreover have "str_includes (title (goal_block toLocaleString m s t6 t3)) key_goal" for m s t6 t3
    by (simp add: goal_block_def title_goal_def key_goal_def)
  moreover have "str_includes (title (income_block l)) key_income" for l
    by (simp add: income_block_def title_income_def key_income_def)
  ultimately have present: "\<forall>key \<in> {key_message, key_goal, key_income}.
      \<exists>s \<in> set ?ss. str_includes (title s) key"
    unfolding set_ss by blast
  from first second present show ?thesis
    by blast
qed

theorem C7_ordering_law_witness:
  "valid_input profile_family (form_savings profile_family) 300000 3 \<and>
   bracket_free toLocaleString_comma \<and>
   (\<exists>s \<in> set (sortedSections
        (generateAdvice toLowerCase_latin toLocaleString_comma profile_family 300000 3)).
      str_includes (title s) key_message)"
proof -
  have v: "valid_input profile_family (form_savings profile_family) 300000 3"
    by (simp add: valid_input_def profile_family_def)
  from C7_ordering_law [OF v toLocaleString_comma_bracket_free, of toLowerCase_latin]
    v toLocaleString_comma_bracket_free
  show ?thesis
    by blast
qed

section \<open>The age bracket section\<close>

lemma block_orders:
  "getDisplayOrder (title (goal_block toLocaleString monthlyIncome savings threeMonthsCost
     sixMonthsCost)) = 2"
  "getDisplayOrder (title (income_block incomeLevel)) = 3"
  "getDisplayOrder (title (family_block hasChildren familyCount)) = 4"
  "getDisplayOrder (title (career_block hasChildren)) = 6"
  "getDisplayOrder (title (message_block riskProfile hasChildren)) = 1"
  "getDisplayOrder (title (steps_block form hasChildren incomeLevel)) = 7"
  by (simp_all add: block_titles display_order_titles family_block_def)

lemma age_block_order: "b \<in> set (age_block form) \<Longrightarrow> getDisplayOrder (title b) = 99"
  using age_block_title [of b form] by (auto simp: age_titles_def display_order_titles)

lemma lowSavings_block_order:
  "b \<in> set (lowSavings_block savings threeMonthsCost hasChildren incomeLevel) \<Longrightarrow>
    getDisplayOrder (title b) = 5"
  using lowSavings_block_title [of b savings threeMonthsCost hasChildren incomeLevel]
  by (simp add: display_order_titles)

text \<open>
  The ordered sections of a composed document: the message, the funding goal, the income,
  the family situation, little savings (if present), the career risk, the action steps,
  and last the age bracket (if present).
\<close>

lemma sortedSections_generateAdvice:
  assumes "bracket_free toLocaleString"
  shows "sortedSections
      (generateAdvice toLowerCase toLocaleString form monthlyIncome familyCount) =
    (let threeMonthsCost = monthlyIncome * familyCount * 3;
         savings = form_savings form;
         hasChildren = advice_hasChildren toLowerCase form;
         incomeLevel = getIncomeLevel monthlyIncome
     in [message_block (getRiskProfile hasChildren (getSavingsLevel savings threeMonthsCost)
           incomeLevel) hasChildren,
         goal_block toLocaleString monthlyIncome savings threeMonthsCost
           (monthlyIncome * familyCount * 6),
         income_block incomeLevel, family_block hasChildren familyCount] @
        lowSavings_block savings threeMonthsCost hasChildren incomeLevel @
        [career_block hasChildren, steps_block form hasChildren incomeLevel] @
        age_block form)"
proof -
  let ?three = "monthlyIncome * familyCount * 3"
  let ?h = "advice_hasChildren toLowerCase form"
  let ?low = "lowSavings_block (form_savings form) ?three ?h (getIncomeLevel monthlyIncome)"
  from age_block_cases [of form]
    lowSavings_block_cases [of "form_savings form" ?three ?h "getIncomeLevel monthlyIncome"]
  consider "age_block form = []" "?low = []"
    | b where "age_block form = []" "?low = [b]"
    | a where "age_block form = [a]" "?low = []"
    | a b where "age_block form = [a]" "?low = [b]"
    by blast
  then have "sort_key (\<lambda>s. getDisplayOrder (title s))
      (emitted_blocks toLowerCase toLocaleString form monthlyIncome familyCount) =
    [message_block (getRiskProfile ?h (getSavingsLevel (form_savings form) ?three)
       (getIncomeLevel monthlyIncome)) ?h,
     goal_block toLocaleString monthlyIncome (form_savings form) ?three
       (monthlyIncome * familyCount * 6),
     income_block (getIncomeLevel monthlyIncome), family_block ?h familyCount] @
    ?low @ [career_block ?h, steps_block form ?h (getIncomeLevel monthlyIncome)] @
    age_block form"
  proof cases
    case 1
    then show ?thesis
      by (simp add: emitted_blocks_def Let_def block_orders)
  next
    case 2
    with lowSavings_block_order [of b "form_savings form" ?three ?h "getIncomeLevel monthlyIncome"]
    show ?thesis
      by (simp add: emitted_blocks_def Let_def block_orders)
  next
    case 3
    with age_block_order [of a form] show ?thesis
      by (simp add: emitted_blocks_def Let_def block_orders)
  next
    case 4
    with age_block_order [of a form]
      lowSavings_block_order [of b "form_savings form" ?three ?h "getIncomeLevel monthlyIncome"]
    show ?thesis
      by (simp add: emitted_blocks_def Let_def block_orders)
  qed
  then show ?thesis
    by (simp add: sortedSections_def formattedSections_generateAdvice [OF assms] Let_def)
qed

lemma age_titles_unmatched:
  assumes "t \<in> set age_titles"
  shows "getDisplayOrder t = 99" and "\<not> str_includes t key_message"
    and "\<forall>(key, v) \<in> set orderMap. \<not> str_includes t key"
proof -
  from assms have "t = title_age20 \<or> t = title_age30 \<or> t = title_age40 \<or> t = title_age50 \<or>
      t = title_age60"
    by (auto simp: age_titles_def)
  then show "getDisplayOrder t = 99" and "\<not> str_includes t key_message"
    and "\<forall>(key, v) \<in> set orderMap. \<not> str_includes t key"
    by (elim disjE; simp add: order_eval title_defs)+
qed

lemma other_titles_not_age:
  "title_goal \<notin> set age_titles" "title_income \<notin> set age_titles"
  "title_family_children \<notin> set age_titles" "title_family \<notin> set age_titles"
  "title_single \<notin> set age_titles" "title_lowSavings \<notin> set age_titles"
  "title_career \<notin> set age_titles" "title_message \<notin> set age_titles"
  "title_steps \<notin> set age_titles"
  by (simp_all add: age_titles_def title_defs)

text \<open>
  Claim C8. For every profile the age bracket section is present in the composed document
  if and only if the raw age of the form is not zero. The default of 35 that the score
  uses for the age zero enters the age bonus only: with the age zero
  \<open>getAgeBasedAdvice\<close> returns the empty string and \<open>getAgeSteps\<close> no steps, although
  the score is that of a person of 35.
\<close>

theorem C8_age_section_iff:
  assumes "bracket_free toLocaleString"
  shows "((\<exists>s \<in> set (formattedSections
              (generateAdvice toLowerCase toLocaleString form monthlyIncome familyCount)).
            title s \<in> set age_titles) \<longleftrightarrow> form_age form \<noteq> 0) \<and>
         (getAgeBasedAdvice form \<noteq> [] \<longleftrightarrow> form_age form \<noteq> 0) \<and>
         (getAgeSteps form \<noteq> [] \<longleftrightarrow> form_age form \<noteq> 0) \<and>
         (form_age form = 0 \<longrightarrow>
            score_userAge form = 35 \<and>
            calculateRiskScore toLowerCase form savings monthlyIncome familyCount =
              calculateRiskScore toLowerCase (form\<lparr>form_age := 35\<rparr>) savings monthlyIncome
                familyCount \<and>
            allSteps form hasChildren incomeLevel =
              steps_common @ incomeBasedSteps incomeLevel @ childrenSteps hasChildren)"
proof -
  let ?blocks = "emitted_blocks toLowerCase toLocaleString form monthlyIncome familyCount"
  have "(\<exists>s \<in> set ?blocks. title s \<in> set age_titles) \<longleftrightarrow> age_block form \<noteq> []"
  proof
    assume "\<exists>s \<in> set ?blocks. title s \<in> set age_titles"
    then obtain s where s: "s \<in> set ?blocks" and t: "title s \<in> set age_titles"
      by blast
    have "s \<in> set (age_block form)"
    proof (rule ccontr)
      assume "s \<notin> set (age_block form)"
      with s have "title s \<in> {title_goal, title_income, title_family_children, title_family,
          title_single, title_lowSavings, title_career, title_message, title_steps}"
        using family_block_title [of "advice_hasChildren toLowerCase form" familyCount]
          lowSavings_block_title [of s]
        by (auto simp: emitted_blocks_def Let_def block_titles)
      with t other_titles_not_age show False
        by auto
    qed
    then show "age_block form \<noteq> []"
      by auto
  next
    assume "age_block form \<noteq> []"
    then obtain a where a: "a \<in> set (age_block form)"
      by (cases "age_block form") auto
    then have "a \<in> set ?blocks"
      by (simp add: emitted_blocks_def Let_def)
    with a age_block_title show "\<exists>s \<in> set ?blocks. title s \<in> set age_titles"
      by blast
  qed
  moreover have "age_block form \<noteq> [] \<longleftrightarrow> form_age form \<noteq> 0"
    by (simp add: age_block_def Let_def)
  ultimately have parsed: "(\<exists>s \<in> set (formattedSections
        (generateAdvice toLowerCase toLocaleString form monthlyIncome familyCount)).
      title s \<in> set age_titles) \<longleftrightarrow> form_age form \<noteq> 0"
    by (simp add: formattedSections_generateAdvice [OF assms])
  have advice: "getAgeBasedAdvice form \<noteq> [] \<longleftrightarrow> form_age form \<noteq> 0"
    by (simp add: getAgeBasedAdvice_def Let_def section_text_def)
  have steps: "getAgeSteps form \<noteq> [] \<longleftrightarrow> form_age form \<noteq> 0"
    by (simp add: getAgeSteps_def Let_def steps_age20_def steps_age30_def steps_age40_def
        steps_age50_def)
  have score: "calculateRiskScore toLowerCase form savings monthlyIncome familyCount =
      calculateRiskScore toLowerCase (form\<lparr>form_age := 35\<rparr>) savings monthlyIncome familyCount"
    if "form_age form = 0"
    using that
    by (simp add: calculateRiskScore_def score_sum_def score_hasChildren_def
        score_childrenCount_def score_userAge_def Let_def)
  have default: "score_userAge form = 35" if "form_age form = 0"
    using that by (simp add: score_userAge_def)
  have no_steps: "allSteps form hasChildren incomeLevel =
      steps_common @ incomeBasedSteps incomeLevel @ childrenSteps hasChildren"
    if "form_age form = 0"
    using that by (simp add: allSteps_def getAgeSteps_def)
  from parsed advice steps score default no_steps show ?thesis
    by blast
qed

theorem C8_age_section_iff_witness:
  "bracket_free toLocaleString_comma \<and>
   form_age profile_single = 0 \<and>
   \<not> (\<exists>s \<in> set (formattedSections
          (generateAdvice toLowerCase_latin toLocaleString_comma profile_single 300000 1)).
        title s \<in> set age_titles) \<and>
   getAgeBasedAdvice profile_single = [] \<and> getAgeSteps profile_single = [] \<and>
   score_userAge profile_single = 35 \<and>
   form_age profile_family = 32 \<and>
   (\<exists>s \<in> set (formattedSections
          (generateAdvice toLowerCase_latin toLocaleString_comma profile_family 300000 3)).
        title s \<in> set age_titles)"
proof -
  have a: "form_age profile_single = 0" and b: "form_age profile_family = 32"
    by (simp_all add: profile_single_def profile_family_def)
  from C8_age_section_iff [OF toLocaleString_comma_bracket_free,
      of toLowerCase_latin profile_single 300000 1 0 False Low]
    C8_age_section_iff [OF toLocaleString_comma_bracket_free,
      of toLowerCase_latin profile_family 300000 3 0 False Low]
    a b toLocaleString_comma_bracket_free
  show ?thesis
    by simp
qed

text \<open>
  Claim C10. The titles of the age bracket section (for the twenties, thirties, forties,
  fifties, and sixties and older) match no key of the priority table, in particular not
  the key of the special message, so their priority is 99. In the ordered sections of
  every document that has the age bracket section it is therefore the last one, behind
  every other section, the action steps included, although the composer emits it second.
\<close>

theorem C10_age_section_last:
  assumes "valid_input form (form_savings form) monthlyIncome familyCount"
    and "bracket_free toLocaleString"
    and "form_age form \<noteq> 0"
  shows "(\<forall>t \<in> set age_titles. getDisplayOrder t = 99 \<and> \<not> str_includes t key_message \<and>
            (\<forall>(key, v) \<in> set orderMap. \<not> str_includes t key)) \<and>
         (\<exists>a front. age_block form = [a] \<and> title a \<in> set age_titles \<and>
            emitted_blocks toLowerCase toLocaleString form monthlyIncome familyCount ! 1 = a \<and>
            sortedSections
              (generateAdvice toLowerCase toLocaleString form monthlyIncome familyCount) =
              front @ [a] \<and>
            (\<forall>s \<in> set front. getDisplayOrder (title s) \<le> 7 \<and> title s \<notin> set age_titles) \<and>
            front \<noteq> [] \<and> title (last front) = title_steps)"
proof -
  let ?three = "monthlyIncome * familyCount * 3"
  let ?h = "advice_hasChildren toLowerCase form"
  let ?level = "getIncomeLevel monthlyIncome"
  let ?low = "lowSavings_block (form_savings form) ?three ?h ?level"
  let ?front = "[message_block (getRiskProfile ?h (getSavingsLevel (form_savings form) ?three)
       ?level) ?h,
     goal_block toLocaleString monthlyIncome (form_savings form) ?three
       (monthlyIncome * familyCount * 6),
     income_block ?level, family_block ?h familyCount] @
    ?low @ [career_block ?h, steps_block form ?h ?level]"
  have "age_block form \<noteq> []"
    using assms(3) by (simp add: age_block_def Let_def)
  with age_block_cases [of form] obtain a where a: "age_block form = [a]"
    by blast
  then have ta: "title a \<in> set age_titles"
    using age_block_title [of a form] by simp
  have second: "emitted_blocks toLowerCase toLocaleString form monthlyIncome familyCount ! 1 = a"
    by (simp add: emitted_blocks_def Let_def a)
  have sorted: "sortedSections
      (generateAdvice toLowerCase toLocaleString form monthlyIncome familyCount) = ?front @ [a]"
    by (simp add: sortedSections_generateAdvice [OF assms(2)] Let_def a)
  have order: "getDisplayOrder (title s) \<le> 7" if "s \<in> set ?front" for s
    using that lowSavings_block_order [of s "form_savings form" ?three ?h ?level]
    by (auto simp: block_orders)
  have front: "\<forall>s \<in> set ?front. getDisplayOrder (title s) \<le> 7 \<and> title s \<notin> set age_titles"
  proof
    fix s
    assume s: "s \<in> set ?front"
    then have "getDisplayOrder (title s) \<le> 7"
      by (rule order)
    moreover from this have "title s \<notin> set age_titles"
      using age_titles_unmatched(1) [of "title s"] by auto
    ultimately show "getDisplayOrder (title s) \<le> 7 \<and> title s \<notin> set age_titles"
      by simp
  qed
  have last: "?front \<noteq> [] \<and> title (last ?front) = title_steps"
    by (simp add: block_titles)
  have unmatched: "\<forall>t \<in> set age_titles. getDisplayOrder t = 99 \<and> \<not> str_includes t key_message \<and>
      (\<forall>(key, v) \<in> set orderMap. \<not> str_includes t key)"
    using age_titles_unmatched by blast
  from a ta second sorted front last have "\<exists>a front. age_block form = [a] \<and>
      title a \<in> set age_titles \<and>
      emitted_blocks toLowerCase toLocaleString form monthlyIncome familyCount ! 1 = a \<and>
      sortedSections
        (generateAdvice toLowerCase toLocaleString form monthlyIncome familyCount) =
        front @ [a] \<and>
      (\<forall>s \<in> set front. getDisplayOrder (title s) \<le> 7 \<and> title s \<notin> set age_titles) \<and>
      front \<noteq> [] \<and> title (last front) = title_steps"
    by blast
  with unmatched show ?thesis
    by blast
qed

theorem C10_age_section_last_witness:
  "valid_input profile_family (form_savings profile_family) 300000 3 \<and>
   bracket_free toLocaleString_comma \<and>
   form_age profile_family \<noteq> 0 \<and>
   getDisplayOrder title_age30 = 99 \<and>
   (\<exists>front. sortedSections
        (generateAdvice toLowerCase_latin toLocaleString_comma profile_family 300000 3) =
      front @ [\<lparr>title = title_age30, content = body_age30\<rparr>])"
proof -
  have v: "valid_input profile_family (form_savings profile_family) 300000 3"
    by (simp add: valid_input_def profile_family_def)
  have n: "form_age profile_family \<noteq> 0"
    by (simp add: profile_family_def)
  have a: "age_block profile_family = [\<lparr>title = title_age30, content = body_age30\<rparr>]"
    by (simp add: age_block_def profile_family_def)
  have t: "title_age30 \<in> set age_titles"
    by (simp add: age_titles_def)
  from C10_age_section_last [OF v toLocaleString_comma_bracket_free n, of toLowerCase_latin]
    v n a t toLocaleString_comma_bracket_free
  show ?thesis
    by auto
qed

end
